theory Spec2Isabelle
  imports Main "HOL-Library.Word"
begin

unbundle bit_operations_syntax

section \<open>Machine types\<close>

type_synonym u8 = "8 word"
type_synonym u16 = "16 word"
type_synonym u32 = "32 word"
type_synonym u64 = "64 word"
type_synonym s32 = "32 word"

section \<open>cpu.c: the scheduling window\<close>

text \<open>\<^verbatim>\<open>static int min(int a, int b)\<close>: the comparison is the signed one of C's int.\<close>

definition min_s32 :: "s32 \<Rightarrow> s32 \<Rightarrow> s32" where
  "min_s32 a b = (if a <s b then a else b)"

text \<open>
  \<^verbatim>\<open>GB_ClocksForNextEvent\<close>. The five getters live in files that are not part of the
  sources at hand, so their results are the arguments, in the order of the calls: timers,
  PPU, serial, DMA, sound. The sound getter is called twice; both calls see the same state.
\<close>

definition GB_ClocksForNextEvent :: "s32 \<Rightarrow> s32 \<Rightarrow> s32 \<Rightarrow> s32 \<Rightarrow> s32 \<Rightarrow> s32" where
  "GB_ClocksForNextEvent timers ppu serial dma sound =
     (let clocks_to_next_event = timers;
          clocks_to_next_event = min_s32 clocks_to_next_event ppu;
          clocks_to_next_event = min_s32 clocks_to_next_event serial;
          clocks_to_next_event = min_s32 clocks_to_next_event dma;
          clocks_to_next_event = min_s32 clocks_to_next_event sound;
          clocks_to_next_event = min_s32 clocks_to_next_event sound
      in (clocks_to_next_event OR 4) AND NOT 3)"

text \<open>
  The spec's reading of the same window, to compare with: the minimum of the five
  distances, and the least multiple of 4 that is at least \<open>m\<close>.
\<close>

definition min5 :: "int \<Rightarrow> int \<Rightarrow> int \<Rightarrow> int \<Rightarrow> int \<Rightarrow> int" where
  "min5 a b c d e = min a (min b (min c (min d e)))"

definition align_up4 :: "int \<Rightarrow> int" where
  "align_up4 m = 4 * ((m + 3) div 4)"

section \<open>rom.c: loading a cartridge\<close>

text \<open>
  Modelled from the spec: the layout of \<^verbatim>\<open>_GB_ROM_HEADER_\<close> (declared in a header that is
  not among the sources). The header is the first 0x150 bytes of the image: the Nintendo
  logo at 0x104 to 0x133, the CGB flag at 0x143, the SGB flag at 0x146, the cartridge type
  at 0x147, the ROM size at 0x148, the RAM size at 0x149, the old licensee at 0x14B, the
  header checksum at 0x14D and the global checksum at 0x14E and 0x14F, read as one
  little-endian 16-bit field.
\<close>

definition cgb_flag :: "u8 list \<Rightarrow> u8" where "cgb_flag p = p ! 0x143"
definition sgb_flag :: "u8 list \<Rightarrow> u8" where "sgb_flag p = p ! 0x146"
definition cartridge_type :: "u8 list \<Rightarrow> u8" where "cartridge_type p = p ! 0x147"
definition rom_size_code :: "u8 list \<Rightarrow> u8" where "rom_size_code p = p ! 0x148"
definition ram_size_code :: "u8 list \<Rightarrow> u8" where "ram_size_code p = p ! 0x149"
definition old_licensee :: "u8 list \<Rightarrow> u8" where "old_licensee p = p ! 0x14B"
definition header_checksum :: "u8 list \<Rightarrow> u8" where "header_checksum p = p ! 0x14D"
definition global_checksum :: "u8 list \<Rightarrow> u16" where
  "global_checksum p = ucast (p ! 0x14E) OR push_bit 8 (ucast (p ! 0x14F))"
definition nintendologo :: "u8 list \<Rightarrow> u8 list" where
  "nintendologo p = take 48 (drop 0x104 p)"

definition gb_nintendo_logo :: "u8 list" where
  "gb_nintendo_logo =
    [0xCE, 0xED, 0x66, 0x66, 0xCC, 0x0D, 0x00, 0x0B,
     0x03, 0x73, 0x00, 0x83, 0x00, 0x0C, 0x00, 0x0D,
     0x00, 0x08, 0x11, 0x1F, 0x88, 0x89, 0x00, 0x0E,
     0xDC, 0xCC, 0x6E, 0xE6, 0xDD, 0xDD, 0xD9, 0x99,
     0xBB, 0xBB, 0x67, 0x63, 0x6E, 0x0E, 0xEC, 0xCC,
     0xDD, 0xDC, 0x99, 0x9F, 0xBB, 0xB9, 0x33, 0x3E]"

text \<open>
  The hardware models and memory controllers (enumerations of the absent headers, by
  name), and \<^verbatim>\<open>EmulatorConfig.hardware_type\<close>: -1 asks for automatic selection, one of the
  seven enumerators forces that model, and any other number reaches the \<^verbatim>\<open>default\<close> branch
  of the switch on the hardware type.
\<close>

datatype hardware = HW_GB | HW_GBP | HW_SGB | HW_SGB2 | HW_GBC | HW_GBA | HW_GBA_SP

datatype hardware_choice = Auto | Force hardware | Force_undefined

datatype memory_controller =
  MEM_NONE | MEM_MBC1 | MEM_MBC2 | MEM_MBC3 | MEM_MBC5 | MEM_RUMBLE | MEM_MBC6 | MEM_MBC7
  | MEM_MMM01 | MEM_CAMERA | MEM_HUC1

text \<open>
  What the loader is given besides the image: the configuration, and whether the boot ROM
  of the selected model can be found and loaded from the BIOS folder.
\<close>

record emulator_config =
  debug_msg_enable :: bool
  hardware_type :: hardware_choice
  load_from_boot_rom :: bool
  boot_rom_file_loads :: bool

text \<open>
  The lines the loader prints that tell something about the outcome. The lines that only
  describe the header (title, destination, licensee, version, the flags and sizes as read)
  are left out: they read the header and decide nothing.
\<close>

datatype console_line =
  Unknown_GBC_flag
  | Loading_in_mode hardware
  | Undefined_mode
  | Boot_ROM_loaded
  | Unsupported_cartridge
  | RAM_size_unknown u8
  | ROM_size_unknown u8
  | ROM_file_size_incorrect u32 s32
  | File_smaller_aborting
  | Header_checksum_line u8 u32
  | Header_checksum_incorrect
  | Global_checksum_line u16 u32
  | Global_checksum_incorrect
  | Logo_correct
  | Logo_incorrect
  | Done

text \<open>
  The fields of \<^verbatim>\<open>GameBoy.Emulator\<close> that the loader writes, with the file-level flag
  \<^verbatim>\<open>showconsole\<close> and the console. Flags that the source keeps in an int as 0 or 1 are
  booleans here.
\<close>

record cartridge_state =
  showconsole :: bool
  console :: "console_line list"
  game_supports_gbc :: bool
  HardwareType :: "hardware option"
  CGBEnabled :: bool
  SGBEnabled :: bool
  enable_boot_rom :: bool
  boot_rom_loaded :: bool
  HasBattery :: bool
  HasTimer :: bool
  EnableBank0Switch :: bool
  MemoryController :: memory_controller
  RAM_Banks :: s32
  ROM_Banks :: s32
  Rom_Pointer :: "u8 list option"

definition ConsolePrint :: "console_line \<Rightarrow> cartridge_state \<Rightarrow> cartridge_state" where
  "ConsolePrint l s = s\<lparr>console := console s @ [l]\<rparr>"

definition request_console :: "emulator_config \<Rightarrow> cartridge_state \<Rightarrow> cartridge_state" where
  "request_console cfg s = (if debug_msg_enable cfg then s\<lparr>showconsole := True\<rparr> else s)"

text \<open>Which models can run the game: \<^verbatim>\<open>(enable_gb, enable_sgb, enable_gbc)\<close>.\<close>

definition detect_models ::
  "emulator_config \<Rightarrow> u8 list \<Rightarrow> cartridge_state \<Rightarrow> (bool \<times> bool \<times> bool) \<times> cartridge_state" where
  "detect_models cfg p s0 =
     (let s = s0\<lparr>game_supports_gbc := False\<rparr>;
          (enable_gb, enable_gbc, s) =
            (if cgb_flag p AND 0x80 \<noteq> 0 then
               (if cgb_flag p = 0xC0 then (False, True, s\<lparr>game_supports_gbc := True\<rparr>)
                else if cgb_flag p = 0x80 then (True, True, s\<lparr>game_supports_gbc := True\<rparr>)
                else (True, True,
                      request_console cfg
                        (ConsolePrint Unknown_GBC_flag (s\<lparr>game_supports_gbc := True\<rparr>))))
             else (True, False, s));
          enable_sgb = (sgb_flag p = 0x03 \<and> old_licensee p = 0x33)
      in ((enable_gb, enable_sgb, enable_gbc), s))"

definition select_hardware :: "emulator_config \<Rightarrow> bool \<times> bool \<times> bool \<Rightarrow> hardware option" where
  "select_hardware cfg en =
     (case en of (enable_gb, enable_sgb, enable_gbc) \<Rightarrow>
       (case hardware_type cfg of
          Auto \<Rightarrow>
            (if enable_gbc then Some HW_GBC
             else if enable_sgb then Some HW_SGB
             else if enable_gb then Some HW_GB
             else Some HW_GBC)
        | Force h \<Rightarrow> Some h
        | Force_undefined \<Rightarrow> None))"

definition set_model_flags :: "hardware \<Rightarrow> cartridge_state \<Rightarrow> cartridge_state" where
  "set_model_flags h s =
     (if h = HW_GB \<or> h = HW_GBP then s\<lparr>CGBEnabled := False, SGBEnabled := False\<rparr>
      else if h = HW_SGB \<or> h = HW_SGB2 then s\<lparr>CGBEnabled := False, SGBEnabled := True\<rparr>
      else if h = HW_GBC then s\<lparr>CGBEnabled := True, SGBEnabled := False\<rparr>
      else if h = HW_GBA \<or> h = HW_GBA_SP then s\<lparr>CGBEnabled := True, SGBEnabled := False\<rparr>
      else s)"

definition load_boot_rom :: "emulator_config \<Rightarrow> cartridge_state \<Rightarrow> cartridge_state" where
  "load_boot_rom cfg s0 =
     (let s = s0\<lparr>enable_boot_rom := False, boot_rom_loaded := False\<rparr>
      in if load_from_boot_rom cfg \<and> boot_rom_file_loads cfg
         then (ConsolePrint Boot_ROM_loaded s)\<lparr>enable_boot_rom := True, boot_rom_loaded := True\<rparr>
         else s)"

text \<open>
  The switch on the cartridge type: the memory controller with \<^verbatim>\<open>HasBattery\<close>,
  \<^verbatim>\<open>HasTimer\<close> and \<^verbatim>\<open>EnableBank0Switch\<close>, or nothing for the \<^verbatim>\<open>default\<close> branch.
\<close>

definition cartridge_types :: "(u8 \<times> (memory_controller \<times> bool \<times> bool \<times> bool)) list" where
  "cartridge_types =
    [(0x00, (MEM_NONE, False, False, False)),
     (0x01, (MEM_MBC1, False, False, False)),
     (0x02, (MEM_MBC1, False, False, False)),
     (0x03, (MEM_MBC1, True, False, False)),
     (0x05, (MEM_MBC2, False, False, False)),
     (0x06, (MEM_MBC2, True, False, False)),
     (0x08, (MEM_NONE, False, False, False)),
     (0x09, (MEM_NONE, False, False, False)),
     (0x0B, (MEM_MMM01, False, False, True)),
     (0x0C, (MEM_MMM01, False, False, True)),
     (0x0D, (MEM_MMM01, True, False, True)),
     (0x0F, (MEM_MBC3, True, True, False)),
     (0x10, (MEM_MBC3, True, True, False)),
     (0x11, (MEM_MBC3, False, False, False)),
     (0x12, (MEM_MBC3, False, False, False)),
     (0x13, (MEM_MBC3, True, False, False)),
     (0x19, (MEM_MBC5, False, False, False)),
     (0x1A, (MEM_MBC5, False, False, False)),
     (0x1B, (MEM_MBC5, True, False, False)),
     (0x1C, (MEM_RUMBLE, False, False, False)),
     (0x1D, (MEM_RUMBLE, False, False, False)),
     (0x1E, (MEM_RUMBLE, True, False, False)),
     (0x20, (MEM_MBC6, True, False, False)),
     (0x22, (MEM_MBC7, True, False, False)),
     (0xFC, (MEM_CAMERA, True, False, False)),
     (0xFF, (MEM_HUC1, True, False, False))]"

definition ram_sizes :: "(u8 \<times> s32) list" where
  "ram_sizes = [(0x00, 0), (0x01, 1), (0x02, 1), (0x03, 4), (0x04, 16), (0x05, 8)]"

definition rom_sizes :: "(u8 \<times> s32) list" where
  "rom_sizes =
    [(0x00, 2), (0x01, 4), (0x02, 8), (0x03, 16), (0x04, 32), (0x05, 64), (0x06, 128),
     (0x07, 256), (0x08, 512)]"

definition adjust_ram_banks :: "memory_controller \<Rightarrow> s32 \<Rightarrow> s32" where
  "adjust_ram_banks mc banks =
     (let b1 = (if mc = MEM_MBC2 then 1 else banks);
          b2 = (if mc = MEM_MBC7 then 1 else b1)
      in if mc = MEM_CAMERA then (if b2 <s 1 then 1 else b2) else b2)"

text \<open>
  The header checksum loop:
  \<^verbatim>\<open>for (count = 0x0134; count <= 0x014C; count++) sum = sum - pointer[count] - 1;\<close>
  followed by \<^verbatim>\<open>sum &= 0xFF\<close>.
\<close>

definition header_sum_loop :: "u8 list \<Rightarrow> u32 \<Rightarrow> nat list \<Rightarrow> u32" where
  "header_sum_loop p sum0 counts = foldl (\<lambda>sum count. sum - ucast (p ! count) - 1) sum0 counts"

definition header_sum :: "u8 list \<Rightarrow> u32" where
  "header_sum p = header_sum_loop p 0 [0x134 ..< 0x14D] AND 0xFF"

text \<open>
  The global checksum: the bytes of the declared size are added up, the two checksum bytes
  are taken out, and the low 16 bits are byte-swapped.
\<close>

definition global_sum :: "u8 list \<Rightarrow> nat \<Rightarrow> u32" where
  "global_sum p size0 =
     (let sum = foldl (\<lambda>sum b. sum + ucast b) 0 (take size0 p);
          sum = sum - (ucast (global_checksum p) AND 0xFF);
          sum = sum - (drop_bit 8 (ucast (global_checksum p)) AND 0xFF);
          sum = sum AND 0xFFFF
      in (drop_bit 8 sum AND 0x00FF) OR (push_bit 8 sum AND 0xFF00))"

definition check_header_sum :: "emulator_config \<Rightarrow> u8 list \<Rightarrow> cartridge_state \<Rightarrow> cartridge_state" where
  "check_header_sum cfg p s0 =
     (let sum = header_sum p;
          s = ConsolePrint (Header_checksum_line (header_checksum p) sum) s0
      in if ucast (header_checksum p) \<noteq> sum
         then request_console cfg (ConsolePrint Header_checksum_incorrect s)
         else s)"

definition check_global_sum :: "emulator_config \<Rightarrow> u8 list \<Rightarrow> cartridge_state \<Rightarrow> cartridge_state" where
  "check_global_sum cfg p s0 =
     (let sum = global_sum p (unat (ROM_Banks s0 * 16 * 1024));
          s = ConsolePrint (Global_checksum_line (global_checksum p) sum) s0
      in if ucast (global_checksum p) \<noteq> sum
         then request_console cfg (ConsolePrint Global_checksum_incorrect s)
         else s)"

definition check_logo :: "emulator_config \<Rightarrow> u8 list \<Rightarrow> cartridge_state \<Rightarrow> cartridge_state" where
  "check_logo cfg p s =
     (if nintendologo p = gb_nintendo_logo then ConsolePrint Logo_correct s
      else request_console cfg (ConsolePrint Logo_incorrect s))"

text \<open>
  The size check of the loader. It answers the state and whether the loader goes on:
  a file of another size than the header declares is reported, and a smaller one aborts.
\<close>

definition check_file_size ::
  "emulator_config \<Rightarrow> u32 \<Rightarrow> cartridge_state \<Rightarrow> bool \<times> cartridge_state" where
  "check_file_size cfg rom_size s0 =
     (if rom_size \<noteq> ROM_Banks s0 * 16 * 1024 then
        (let s = ConsolePrint (ROM_file_size_incorrect rom_size (ROM_Banks s0 * 16))
                   (request_console cfg s0)
         in if rom_size < ROM_Banks s0 * 16 * 1024
            then (False, (ConsolePrint File_smaller_aborting s)\<lparr>showconsole := True\<rparr>)
            else (True, s))
      else (True, s0))"

text \<open>
  \<^verbatim>\<open>GB_CartridgeLoad(pointer, rom_size)\<close>: the value returned and the state left behind.
  The C code reads the header and, later, the declared number of bytes without looking at
  the length of the buffer; an image too short for one of these reads has no defined
  outcome, which is \<open>None\<close> here.
\<close>

definition GB_CartridgeLoad ::
  "emulator_config \<Rightarrow> cartridge_state \<Rightarrow> u8 list \<Rightarrow> u32 \<Rightarrow> (s32 \<times> cartridge_state) option" where
  "GB_CartridgeLoad cfg e0 pointer rom_size =
     (if length pointer < 0x150 then None
      else
        let s = e0\<lparr>showconsole := False, console := []\<rparr>;
            (en, s) = detect_models cfg pointer s;
            s = s\<lparr>HardwareType := select_hardware cfg en\<rparr>
        in case HardwareType s of
             None \<Rightarrow> Some (0, ConsolePrint Undefined_mode s)
           | Some h \<Rightarrow>
             let s = set_model_flags h (ConsolePrint (Loading_in_mode h) s);
                 s = load_boot_rom cfg s;
                 s = s\<lparr>HasBattery := False, HasTimer := False, EnableBank0Switch := False\<rparr>
             in case map_of cartridge_types (cartridge_type pointer) of
                  None \<Rightarrow> Some (0, (ConsolePrint Unsupported_cartridge s)\<lparr>showconsole := True\<rparr>)
                | Some (mc, battery, timer, bank0) \<Rightarrow>
                  let s = s\<lparr>MemoryController := mc, HasBattery := battery, HasTimer := timer,
                             EnableBank0Switch := bank0\<rparr>
                  in case map_of ram_sizes (ram_size_code pointer) of
                       None \<Rightarrow>
                         Some (0, (ConsolePrint (RAM_size_unknown (ram_size_code pointer)) s)
                                    \<lparr>showconsole := True\<rparr>)
                     | Some ram_banks \<Rightarrow>
                       let s = s\<lparr>RAM_Banks := adjust_ram_banks mc ram_banks\<rparr>
                       in case map_of rom_sizes (rom_size_code pointer) of
                            None \<Rightarrow>
                              Some (0, (ConsolePrint (ROM_size_unknown (rom_size_code pointer)) s)
                                         \<lparr>showconsole := True\<rparr>)
                          | Some rom_banks \<Rightarrow>
                            let (go_on, s) = check_file_size cfg rom_size (s\<lparr>ROM_Banks := rom_banks\<rparr>)
                            in if \<not> go_on then Some (0, s)
                               else if length pointer < unat (ROM_Banks s * 16 * 1024) then None
                               else
                                 let s = check_header_sum cfg pointer s;
                                     s = check_global_sum cfg pointer s;
                                     s = check_logo cfg pointer s;
                                     s = s\<lparr>Rom_Pointer := Some pointer\<rparr>
                                 in Some (1, ConsolePrint Done s))"

text \<open>The header checksum in the words of the spec, as a number from 0 to 255.\<close>

definition spec_header_checksum :: "u8 list \<Rightarrow> int" where
  "spec_header_checksum p = (- (\<Sum>i = 0x134..0x14C. uint (p ! i)) - 0x19) mod 256"

text \<open>The size that the header declares: banks of 16 KiB.\<close>

definition declared_size :: "u8 list \<Rightarrow> nat option" where
  "declared_size p = map_option (\<lambda>banks. unat banks * 16 * 1024) (map_of rom_sizes (rom_size_code p))"

definition header_supported :: "emulator_config \<Rightarrow> u8 list \<Rightarrow> bool" where
  "header_supported cfg p \<longleftrightarrow>
     hardware_type cfg \<noteq> Force_undefined
     \<and> map_of cartridge_types (cartridge_type p) \<noteq> None
     \<and> map_of ram_sizes (ram_size_code p) \<noteq> None
     \<and> map_of rom_sizes (rom_size_code p) \<noteq> None"

text \<open>A configuration and a starting state to run the loader on.\<close>

definition default_config :: emulator_config where
  "default_config = \<lparr>debug_msg_enable = False, hardware_type = Auto, load_from_boot_rom = False,
     boot_rom_file_loads = False\<rparr>"

definition blank_state :: cartridge_state where
  "blank_state = \<lparr>showconsole = False, console = [], game_supports_gbc = False,
     HardwareType = None, CGBEnabled = False, SGBEnabled = False, enable_boot_rom = False,
     boot_rom_loaded = False, HasBattery = False, HasTimer = False, EnableBank0Switch = False,
     MemoryController = MEM_NONE, RAM_Banks = 0, ROM_Banks = 0, Rom_Pointer = None\<rparr>"

section \<open>rom.c: the real-time clock in the save file\<close>

text \<open>
  The two clocks of \<^verbatim>\<open>GameBoy.Emulator\<close>, \<^verbatim>\<open>Timer\<close> (live) and \<^verbatim>\<open>LatchedTime\<close>. The
  declaration of their type is not among the sources; \<^verbatim>\<open>GB_RTC_Save\<close> and
  \<^verbatim>\<open>GB_RTC_Load\<close> move each field as four bytes, so a field is a 32-bit word here. The
  words stored by \<^verbatim>\<open>GB_RTC_Load\<close> do not depend on the signedness of the fields; its
  comparisons are read as unsigned. The field \<^verbatim>\<open>min\<close> is \<open>min_rtc\<close> here.
\<close>

record rtc_time =
  sec :: u32
  min_rtc :: u32
  hour :: u32
  days :: u32
  carry :: u32
  halt :: u32

record rtc_state = cartridge_state +
  Timer :: rtc_time
  LatchedTime :: rtc_time

text \<open>
  \<^verbatim>\<open>fread(&dst, 1, 4, savefile)\<close> on a little-endian host: up to four bytes are taken from
  the file and laid over the low bytes of the destination, whose other bytes stay. The
  answer is the number of bytes read, the destination and the rest of the file.
\<close>

definition le_bytes :: "u32 \<Rightarrow> u8 list" where
  "le_bytes w = [ucast w, ucast (drop_bit 8 w), ucast (drop_bit 16 w), ucast (drop_bit 24 w)]"

definition of_le_bytes :: "u8 list \<Rightarrow> u32" where
  "of_le_bytes bs = foldr (\<lambda>b acc. ucast b OR push_bit 8 acc) bs 0"

definition fread4 :: "u32 \<Rightarrow> u8 list \<Rightarrow> nat \<times> u32 \<times> u8 list" where
  "fread4 dst savefile =
     (let bs = take 4 savefile
      in (length bs, of_le_bytes (bs @ drop (length bs) (le_bytes dst)), drop 4 savefile))"

text \<open>
  The block that \<^verbatim>\<open>GB_RTC_Load\<close> runs twice, once for each clock: three reads into the
  fields, two into the locals \<^verbatim>\<open>days_low\<close> and \<^verbatim>\<open>days_hi\<close>, and the decoding of the
  day counter and of the halt and carry bits. It answers the clock, the two locals, whether
  a read came short, and the rest of the file.
\<close>

definition read_clock ::
  "rtc_time \<Rightarrow> u32 \<times> u32 \<Rightarrow> u8 list \<Rightarrow> rtc_time \<times> (u32 \<times> u32) \<times> bool \<times> u8 list" where
  "read_clock t locals savefile =
     (let (n1, sec1, f1) = fread4 (sec t) savefile;
          (n2, min1, f2) = fread4 (min_rtc t) f1;
          (n3, hour1, f3) = fread4 (hour t) f2;
          (n4, days_low, f4) = fread4 (fst locals) f3;
          (n5, days_hi, f5) = fread4 (snd locals) f4;
          error = (n1 \<noteq> 4 \<or> n2 \<noteq> 4 \<or> n3 \<noteq> 4 \<or> n4 \<noteq> 4 \<or> n5 \<noteq> 4)
      in (\<lparr>sec = sec1, min_rtc = min1, hour = hour1,
           days = (days_low AND 0xFF) OR push_bit 8 (days_hi AND 0x01),
           carry = drop_bit 7 (days_hi AND push_bit 7 1),
           halt = drop_bit 6 (days_hi AND push_bit 6 1)\<rparr>,
          (days_low, days_hi), error, f5))"

text \<open>
  The uninitialised locals of \<^verbatim>\<open>GB_RTC_Load\<close>: what they hold before the first read
  into them matters only when that read comes short.
\<close>

record rtc_locals =
  days_low :: u32
  days_hi :: u32
  timestamp_low :: u32
  timestamp_hi :: u32

text \<open>
  The first half of \<^verbatim>\<open>GB_RTC_Load\<close>, up to the test of the halt flag: both clocks are
  read, then the timestamp; \<^verbatim>\<open>old_time\<close> is the timestamp, or the current time after a
  short read. It answers the state, \<^verbatim>\<open>old_time\<close> and whether the error was reported.
\<close>

definition read_rtc_block ::
  "rtc_state \<Rightarrow> u64 \<Rightarrow> u8 list \<Rightarrow> rtc_locals \<Rightarrow> rtc_state \<times> u64 \<times> bool" where
  "read_rtc_block g current_time savefile l =
     (let (t, dl, e1, f1) = read_clock (Timer g) (days_low l, days_hi l) savefile;
          (lt, dl2, e2, f2) = read_clock (LatchedTime g) dl f1;
          (n1, ts_low, f3) = fread4 (timestamp_low l) f2;
          (n2, ts_hi0, f4) = fread4 (timestamp_hi l) f3;
          error = (e1 \<or> e2 \<or> n1 \<noteq> 4);
          ts_hi = (if n2 \<noteq> 4 then 0 else ts_hi0);
          old_time = (ucast ts_low :: u64) OR push_bit 32 (ucast ts_hi :: u64);
          old_time = (if error then current_time else old_time)
      in (g\<lparr>Timer := t, LatchedTime := lt\<rparr>, old_time, error))"

text \<open>The loop \<^verbatim>\<open>while (days > 511) { days &= 511; carry = 1; }\<close>.\<close>

function days_loop :: "u32 \<Rightarrow> u32 \<Rightarrow> u32 \<times> u32" where
  "days_loop d c = (if d > 511 then days_loop (d AND 511) 1 else (d, c))"
  by pat_completeness auto
termination
proof (relation "measure (\<lambda>(d, c). if d > 511 then 1 else 0)")
  show "wf (measure (\<lambda>(d::u32, c::u32). if d > 511 then 1 else 0))" by simp
next
  fix d c :: u32
  assume "511 < d"
  moreover have "\<not> 511 < d AND 511"
    using word_and_le1 [of d 511] by (simp add: not_less)
  ultimately show "((d AND 511, 1), (d, c)) \<in> measure (\<lambda>(d, c). if d > 511 then 1 else 0)"
    by simp
qed

declare days_loop.simps [simp del]

text \<open>
  The second half of \<^verbatim>\<open>GB_RTC_Load\<close>: the live clock is moved on by \<^verbatim>\<open>delta_time\<close>, a
  64-bit count of seconds. A sum of a 32-bit field and a 64-bit value is taken in 64 bits
  and stored back in 32.
\<close>

definition add_u64 :: "u32 \<Rightarrow> u64 \<Rightarrow> u32" where
  "add_u64 field v = ucast ((ucast field :: u64) + v)"

definition advance_clock :: "rtc_time \<Rightarrow> u64 \<Rightarrow> rtc_time" where
  "advance_clock t delta_time0 =
     (let sec1 = add_u64 (sec t) (delta_time0 mod 60);
          (sec2, delta_time1) =
            (if sec1 > 59 then (sec1 - 60, delta_time0 + 60) else (sec1, delta_time0));
          min1 = add_u64 (min_rtc t) ((delta_time1 div 60) mod 60);
          (min2, delta_time2) =
            (if min1 > 59 then (min1 - 60, delta_time1 + 3600) else (min1, delta_time1));
          hour1 = add_u64 (hour t) ((delta_time2 div 3600) mod 24);
          (hour2, delta_time3) =
            (if hour1 > 23 then (hour1 - 24, delta_time2 + 3600 * 24) else (hour1, delta_time2));
          days1 = add_u64 (days t) (delta_time3 div (3600 * 24));
          (days2, carry2) = days_loop days1 (carry t)
      in t\<lparr>sec := sec2, min_rtc := min2, hour := hour2, days := days2, carry := carry2\<rparr>)"

text \<open>
  \<^verbatim>\<open>GB_RTC_Load(savefile)\<close>, given the cartridge state, the current time \<^verbatim>\<open>time(NULL)\<close>,
  the file from the position of the RTC block on, and the locals.
\<close>

definition GB_RTC_Load :: "rtc_state \<Rightarrow> u64 \<Rightarrow> u8 list \<Rightarrow> rtc_locals \<Rightarrow> rtc_state" where
  "GB_RTC_Load g current_time savefile l =
     (if \<not> HasTimer g then g
      else
        let (g1, old_time, error) = read_rtc_block g current_time savefile l
        in if halt (Timer g1) = 1 then g1
           else g1\<lparr>Timer := advance_clock (Timer g1) (current_time - old_time)\<rparr>)"

text \<open>
  The RTC block of a save file as \<^verbatim>\<open>GB_RTC_Save\<close> lays it out: for each clock the words
  sec, min, hour, days_low, days_hi, then the two words of the timestamp, 48 bytes in all.
\<close>

definition clock_words :: "rtc_time \<Rightarrow> u8 list" where
  "clock_words t =
     le_bytes (sec t) @ le_bytes (min_rtc t) @ le_bytes (hour t)
     @ le_bytes (days t AND 0xFF)
     @ le_bytes (drop_bit 8 (days t) OR push_bit 6 (halt t) OR push_bit 7 (carry t))"

definition rtc_block :: "rtc_time \<Rightarrow> rtc_time \<Rightarrow> u64 \<Rightarrow> u8 list" where
  "rtc_block t lt timestamp =
     clock_words t @ clock_words lt @ le_bytes (ucast timestamp) @ le_bytes (ucast (drop_bit 32 timestamp))"

text \<open>The seconds a clock counts, and a clock within the calendar ranges.\<close>

definition clock_seconds :: "rtc_time \<Rightarrow> nat" where
  "clock_seconds t = unat (sec t) + 60 * unat (min_rtc t) + 3600 * unat (hour t) + 86400 * unat (days t)"

definition clock_in_range :: "rtc_time \<Rightarrow> bool" where
  "clock_in_range t \<longleftrightarrow> sec t < 60 \<and> min_rtc t < 60 \<and> hour t < 24 \<and> days t < 512 \<and> carry t < 2"

text \<open>A clock that the file layout can hold: a 9-bit day counter and one bit each for halt and carry.\<close>

definition clock_storable :: "rtc_time \<Rightarrow> bool" where
  "clock_storable t \<longleftrightarrow> days t < 512 \<and> halt t < 2 \<and> carry t < 2"

text \<open>Clocks, locals and an MBC3 cartridge with a timer to run the loader on.\<close>

definition zero_clock :: rtc_time where
  "zero_clock = \<lparr>sec = 0, min_rtc = 0, hour = 0, days = 0, carry = 0, halt = 0\<rparr>"

definition halted_clock :: rtc_time where
  "halted_clock = \<lparr>sec = 30, min_rtc = 15, hour = 7, days = 300, carry = 0, halt = 1\<rparr>"

definition zero_locals :: rtc_locals where
  "zero_locals = \<lparr>days_low = 0, days_hi = 0, timestamp_low = 0, timestamp_hi = 0\<rparr>"

definition timer_cartridge :: rtc_state where
  "timer_cartridge = \<lparr>showconsole = False, console = [], game_supports_gbc = False,
     HardwareType = Some HW_GB, CGBEnabled = False, SGBEnabled = False, enable_boot_rom = False,
     boot_rom_loaded = False, HasBattery = True, HasTimer = True, EnableBank0Switch = False,
     MemoryController = MEM_MBC3, RAM_Banks = 4, ROM_Banks = 64, Rom_Pointer = None,
     Timer = zero_clock, LatchedTime = zero_clock\<rparr>"

section \<open>The machine context\<close>

text \<open>
  Modelled from the spec: the register addresses and bit masks of \<^verbatim>\<open>gameboy.h\<close>, which
  is not among the sources. IF is at FF0F, STAT at FF41, LY at FF44, LYC at FF45, KEY1 at
  FF4D and IE at FFFF. The flags Z, N, H, C are bits 7, 6, 5, 4 of F. Bits 3 to 6 of STAT
  are the interrupt source enables (mode 0, mode 1, mode 2, LY compare, in this order); the
  STAT interrupt is bit 1 of IF.
\<close>

definition IF_REG :: nat where "IF_REG = 0xFF0F"
definition STAT_REG :: nat where "STAT_REG = 0xFF41"
definition LY_REG :: nat where "LY_REG = 0xFF44"
definition LYC_REG :: nat where "LYC_REG = 0xFF45"
definition KEY1_REG :: nat where "KEY1_REG = 0xFF4D"
definition IE_REG :: nat where "IE_REG = 0xFFFF"

definition F_CARRY :: u8 where "F_CARRY = 0x10"
definition F_HALFCARRY :: u8 where "F_HALFCARRY = 0x20"
definition F_SUBTRACT :: u8 where "F_SUBTRACT = 0x40"
definition F_ZERO :: u8 where "F_ZERO = 0x80"

definition IENABLE_HBL :: u32 where "IENABLE_HBL = 0x08"
definition IENABLE_VBL :: u32 where "IENABLE_VBL = 0x10"
definition IENABLE_OAM :: u32 where "IENABLE_OAM = 0x20"
definition IENABLE_LY_COMPARE :: u32 where "IENABLE_LY_COMPARE = 0x40"

definition I_STAT :: u8 where "I_STAT = 0x02"

text \<open>
  \<^verbatim>\<open>GameBoy.CPU\<close>: the eight 8-bit registers, and SP and PC, which the spec gives 16 bits
  (the masks with 0xFFFF that the source applies to them change nothing then). The pairs
  AF, BC, DE and HL of the C union are read and written through the halves.
\<close>

record gb_cpu =
  R8_A :: u8
  R8_F :: u8
  R8_B :: u8
  R8_C :: u8
  R8_D :: u8
  R8_E :: u8
  R8_H :: u8
  R8_L :: u8
  R16_SP :: u16
  R16_PC :: u16

text \<open>
  The rest of the global context as far as \<^verbatim>\<open>cpu.c\<close> and \<^verbatim>\<open>ppu.c\<close> touch it, on top
  of what the loader has set: of \<^verbatim>\<open>GameBoy.Memory\<close> the I/O ports (indexed from FF00), the
  high RAM (indexed from FF80, so that IE is its last byte), the master enable and the
  counter of the EI delay; of \<^verbatim>\<open>GameBoy.Emulator\<close> the LCD and STAT state, the halt state,
  the halt bug flag, the speed switch; and the file-level variables of \<^verbatim>\<open>cpu.c\<close>.
  Everything else (cartridge and work RAM, video state, the other subsystems) is the
  field \<open>other\<close>.
\<close>

record 'r gb_system = cartridge_state +
  IO_Ports :: "nat \<Rightarrow> u8"
  HighRAM :: "nat \<Rightarrow> u8"
  InterruptMasterEnable :: u32
  interrupts_enable_count :: u32
  lcd_on :: s32
  stat_signal :: s32
  ScreenMode :: u32
  FrameDrawn :: u32
  CPUHalt :: u32
  halt_bug :: u32
  DoubleSpeed :: u32
  cpu_change_speed_clocks :: s32
  gb_cpu_clock_counter :: s32
  gb_break_cpu_loop :: u32
  gb_break_execution :: u32
  gb_last_residual_clocks :: s32
  other :: 'r

type_synonym 'r machine = "gb_cpu \<times> 'r gb_system"

text \<open>
  The functions of files that are not among the sources, as parameters: the byte read and
  write of \<^verbatim>\<open>memory.c\<close>, which work on the context outside the CPU registers, the table
  of \<^verbatim>\<open>daa_table.c\<close> (declared in \<^verbatim>\<open>cpu.c\<close> with \<open>256 * 8 * 2\<close> bytes) as the function
  from an index to its byte, the breakpoint test of \<^verbatim>\<open>debug.c\<close>, the five distances to
  the next event, the DMA engine, the interrupt dispatcher of \<^verbatim>\<open>interrupts.c\<close> (both
  return the clocks they have used) and the catching up and resetting of the subsystems'
  clocks.
\<close>

record 'r environment =
  GB_MemRead8 :: "'r gb_system \<Rightarrow> u16 \<Rightarrow> u8 \<times> 'r gb_system"
  GB_MemWrite8 :: "'r gb_system \<Rightarrow> u16 \<Rightarrow> u8 \<Rightarrow> 'r gb_system"
  gb_daa_table :: "nat \<Rightarrow> u8"
  GB_DebugCPUIsBreakpoint :: "u16 \<Rightarrow> bool"
  GB_TimersGetClocksToNextEvent :: "'r gb_system \<Rightarrow> s32"
  GB_PPUGetClocksToNextEvent :: "'r gb_system \<Rightarrow> s32"
  GB_SerialGetClocksToNextEvent :: "'r gb_system \<Rightarrow> s32"
  GB_DMAGetClocksToNextEvent :: "'r gb_system \<Rightarrow> s32"
  GB_SoundGetClocksToNextEvent :: "'r gb_system \<Rightarrow> s32"
  GB_DMAExecute :: "s32 \<Rightarrow> 'r machine \<Rightarrow> s32 \<times> 'r machine"
  GB_InterruptsExecute :: "'r machine \<Rightarrow> s32 \<times> 'r machine"
  GB_UpdateCounterToClocks :: "s32 \<Rightarrow> 'r gb_system \<Rightarrow> 'r gb_system"
  reset_subsystem_clock_counters :: "'r gb_system \<Rightarrow> 'r gb_system"

definition gb_daa_table_size :: nat where "gb_daa_table_size = 256 * 8 * 2"

text \<open>A context with everything off and zero, to build examples from.\<close>

definition blank_system :: "unit gb_system" where
  "blank_system = \<lparr>showconsole = False, console = [], game_supports_gbc = False,
     HardwareType = Some HW_GB, CGBEnabled = False, SGBEnabled = False, enable_boot_rom = False,
     boot_rom_loaded = False, HasBattery = False, HasTimer = False, EnableBank0Switch = False,
     MemoryController = MEM_NONE, RAM_Banks = 0, ROM_Banks = 2, Rom_Pointer = None,
     IO_Ports = (\<lambda>_. 0), HighRAM = (\<lambda>_. 0), InterruptMasterEnable = 0,
     interrupts_enable_count = 0, lcd_on = 0, stat_signal = 0, ScreenMode = 0, FrameDrawn = 0,
     CPUHalt = 0, halt_bug = 0, DoubleSpeed = 0, cpu_change_speed_clocks = 0,
     gb_cpu_clock_counter = 0, gb_break_cpu_loop = 0, gb_break_execution = 0,
     gb_last_residual_clocks = 0, other = ()\<rparr>"

section \<open>ppu.c: the STAT signal\<close>

text \<open>
  Modelled from the spec: \<^verbatim>\<open>GB_InterruptsSetFlag\<close> of \<^verbatim>\<open>interrupts.c\<close>, which is not
  among the sources. Raising an interrupt sets its bit in IF.
\<close>

definition GB_InterruptsSetFlag :: "u8 \<Rightarrow> 'r gb_system \<Rightarrow> 'r gb_system" where
  "GB_InterruptsSetFlag flag g =
     g\<lparr>IO_Ports := (IO_Ports g)(IF_REG - 0xFF00 := IO_Ports g (IF_REG - 0xFF00) OR flag)\<rparr>"

text \<open>The condition \<^verbatim>\<open>any_condition_met\<close> of \<^verbatim>\<open>GB_PPUCheckStatSignal\<close>.\<close>

definition any_condition_met :: "'r gb_system \<Rightarrow> bool" where
  "any_condition_met g =
     (let screenmode = ScreenMode g;
          stat = (ucast (IO_Ports g (STAT_REG - 0xFF00)) :: u32);
          ly = IO_Ports g (LY_REG - 0xFF00);
          lyc = IO_Ports g (LYC_REG - 0xFF00)
      in (ly = lyc \<and> stat AND IENABLE_LY_COMPARE \<noteq> 0)
         \<or> (screenmode = 0 \<and> stat AND IENABLE_HBL \<noteq> 0)
         \<or> (screenmode = 2 \<and> stat AND IENABLE_OAM \<noteq> 0)
         \<or> (screenmode = 1 \<and> stat AND (IENABLE_VBL OR IENABLE_OAM) \<noteq> 0))"

definition GB_PPUCheckStatSignal :: "'r gb_system \<Rightarrow> 'r gb_system" where
  "GB_PPUCheckStatSignal g =
     (if lcd_on g = 0 then g\<lparr>stat_signal := 0\<rparr>
      else if any_condition_met g then
        (let g1 = (if stat_signal g = 0 then GB_InterruptsSetFlag I_STAT g else g)
         in g1\<lparr>stat_signal := 1\<rparr>)
      else g\<lparr>stat_signal := 0\<rparr>)"

text \<open>
  The combined STAT signal in the words of the spec: the OR of LYC enable and LY = LYC,
  mode-0 enable and mode 0, mode-2 enable and mode 2, and, in mode 1, mode-1 enable or
  mode-2 enable.
\<close>

definition stat_line :: "'r gb_system \<Rightarrow> bool" where
  "stat_line g =
     (let stat = IO_Ports g (STAT_REG - 0xFF00); mode = ScreenMode g
      in (bit stat 6 \<and> IO_Ports g (LY_REG - 0xFF00) = IO_Ports g (LYC_REG - 0xFF00))
         \<or> (bit stat 3 \<and> mode = 0)
         \<or> (bit stat 5 \<and> mode = 2)
         \<or> (mode = 1 \<and> (bit stat 4 \<or> bit stat 5)))"

section \<open>cpu.c: registers, flags and the bus\<close>

text \<open>
  The operands of the opcode macros are lvalues of the register union. \<open>reg8\<close> names the
  8-bit ones that occur as macro arguments (with the halves of SP), \<open>reg16\<close> the pairs.
\<close>

datatype reg8 = reg_A | reg_F | reg_B | reg_C | reg_D | reg_E | reg_H | reg_L | reg_SPH | reg_SPL

datatype reg16 = reg_BC | reg_DE | reg_HL | reg_SP

definition hi8 :: "u16 \<Rightarrow> u8" where "hi8 w = ucast (drop_bit 8 w)"
definition lo8 :: "u16 \<Rightarrow> u8" where "lo8 w = ucast w"
definition pair16 :: "u8 \<Rightarrow> u8 \<Rightarrow> u16" where "pair16 h l = push_bit 8 (ucast h) OR ucast l"

fun get8 :: "reg8 \<Rightarrow> gb_cpu \<Rightarrow> u8" where
  "get8 reg_A c = R8_A c"
| "get8 reg_F c = R8_F c"
| "get8 reg_B c = R8_B c"
| "get8 reg_C c = R8_C c"
| "get8 reg_D c = R8_D c"
| "get8 reg_E c = R8_E c"
| "get8 reg_H c = R8_H c"
| "get8 reg_L c = R8_L c"
| "get8 reg_SPH c = hi8 (R16_SP c)"
| "get8 reg_SPL c = lo8 (R16_SP c)"

fun set8 :: "reg8 \<Rightarrow> u8 \<Rightarrow> gb_cpu \<Rightarrow> gb_cpu" where
  "set8 reg_A v c = c\<lparr>R8_A := v\<rparr>"
| "set8 reg_F v c = c\<lparr>R8_F := v\<rparr>"
| "set8 reg_B v c = c\<lparr>R8_B := v\<rparr>"
| "set8 reg_C v c = c\<lparr>R8_C := v\<rparr>"
| "set8 reg_D v c = c\<lparr>R8_D := v\<rparr>"
| "set8 reg_E v c = c\<lparr>R8_E := v\<rparr>"
| "set8 reg_H v c = c\<lparr>R8_H := v\<rparr>"
| "set8 reg_L v c = c\<lparr>R8_L := v\<rparr>"
| "set8 reg_SPH v c = c\<lparr>R16_SP := pair16 v (lo8 (R16_SP c))\<rparr>"
| "set8 reg_SPL v c = c\<lparr>R16_SP := pair16 (hi8 (R16_SP c)) v\<rparr>"

fun get16 :: "reg16 \<Rightarrow> gb_cpu \<Rightarrow> u16" where
  "get16 reg_BC c = pair16 (R8_B c) (R8_C c)"
| "get16 reg_DE c = pair16 (R8_D c) (R8_E c)"
| "get16 reg_HL c = pair16 (R8_H c) (R8_L c)"
| "get16 reg_SP c = R16_SP c"

fun set16 :: "reg16 \<Rightarrow> u16 \<Rightarrow> gb_cpu \<Rightarrow> gb_cpu" where
  "set16 reg_BC v c = c\<lparr>R8_B := hi8 v, R8_C := lo8 v\<rparr>"
| "set16 reg_DE v c = c\<lparr>R8_D := hi8 v, R8_E := lo8 v\<rparr>"
| "set16 reg_HL v c = c\<lparr>R8_H := hi8 v, R8_L := lo8 v\<rparr>"
| "set16 reg_SP v c = c\<lparr>R16_SP := v\<rparr>"

text \<open>
  The flag bit-fields \<^verbatim>\<open>cpu->F.Z\<close>, \<^verbatim>\<open>.H\<close>, \<^verbatim>\<open>.C\<close>: reading one gives 0 or 1, storing
  a truth value changes that bit of F alone. \<^verbatim>\<open>cpu->R16.AF &= ~mask\<close> and
  \<^verbatim>\<open>cpu->R16.AF |= mask\<close>, with a mask of flag bits, change F alone as well.
\<close>

definition flag :: "u8 \<Rightarrow> gb_cpu \<Rightarrow> bool" where
  "flag msk c \<longleftrightarrow> R8_F c AND msk \<noteq> 0"

definition set_flag :: "u8 \<Rightarrow> bool \<Rightarrow> gb_cpu \<Rightarrow> gb_cpu" where
  "set_flag msk b c = c\<lparr>R8_F := (if b then R8_F c OR msk else R8_F c AND NOT msk)\<rparr>"

definition AF_and_not :: "u8 \<Rightarrow> gb_cpu \<Rightarrow> gb_cpu" where
  "AF_and_not msk c = c\<lparr>R8_F := R8_F c AND NOT msk\<rparr>"

definition AF_or :: "u8 \<Rightarrow> gb_cpu \<Rightarrow> gb_cpu" where
  "AF_or msk c = c\<lparr>R8_F := R8_F c OR msk\<rparr>"

definition F_C :: "gb_cpu \<Rightarrow> u32" where
  "F_C c = of_bool (flag F_CARRY c)"

text \<open>Steps on the machine: a change of the registers, the clock counter, the bus.\<close>

definition cpu_upd :: "(gb_cpu \<Rightarrow> gb_cpu) \<Rightarrow> 'r machine \<Rightarrow> 'r machine" where
  "cpu_upd f m = (f (fst m), snd m)"

definition sys_upd :: "('r gb_system \<Rightarrow> 'r gb_system) \<Rightarrow> 'r machine \<Rightarrow> 'r machine" where
  "sys_upd f m = (fst m, f (snd m))"

definition GB_CPUClockCounterAdd :: "s32 \<Rightarrow> 'r machine \<Rightarrow> 'r machine" where
  "GB_CPUClockCounterAdd v = sys_upd (\<lambda>g. g\<lparr>gb_cpu_clock_counter := gb_cpu_clock_counter g + v\<rparr>)"

definition GB_CPUClockCounterGet :: "'r machine \<Rightarrow> s32" where
  "GB_CPUClockCounterGet m = gb_cpu_clock_counter (snd m)"

definition GB_CPUBreakLoop :: "'r machine \<Rightarrow> 'r machine" where
  "GB_CPUBreakLoop = sys_upd (\<lambda>g. g\<lparr>gb_break_cpu_loop := 1\<rparr>)"

definition gb_break_to_debugger :: "'r machine \<Rightarrow> 'r machine" where
  "gb_break_to_debugger = sys_upd (\<lambda>g. g\<lparr>gb_break_execution := 1\<rparr>)"

definition MemRead8 :: "'r environment \<Rightarrow> u16 \<Rightarrow> 'r machine \<Rightarrow> u8 \<times> 'r machine" where
  "MemRead8 env a m = (let (v, g) = GB_MemRead8 env (snd m) a in (v, (fst m, g)))"

definition MemWrite8 :: "'r environment \<Rightarrow> u16 \<Rightarrow> u8 \<Rightarrow> 'r machine \<Rightarrow> 'r machine" where
  "MemWrite8 env a v m = (fst m, GB_MemWrite8 env (snd m) a v)"

text \<open>\<^verbatim>\<open>GB_MemRead8(cpu->R16.PC++)\<close> and \<^verbatim>\<open>GB_MemRead8(cpu->R16.SP++)\<close>.\<close>

definition read_PC_inc :: "'r environment \<Rightarrow> 'r machine \<Rightarrow> u8 \<times> 'r machine" where
  "read_PC_inc env m =
     (let (v, m1) = MemRead8 env (R16_PC (fst m)) m
      in (v, cpu_upd (\<lambda>c. c\<lparr>R16_PC := R16_PC c + 1\<rparr>) m1))"

definition read_SP_inc :: "'r environment \<Rightarrow> 'r machine \<Rightarrow> u8 \<times> 'r machine" where
  "read_SP_inc env m =
     (let (v, m1) = MemRead8 env (R16_SP (fst m)) m
      in (v, cpu_upd (\<lambda>c. c\<lparr>R16_SP := R16_SP c + 1\<rparr>) m1))"

text \<open>\<^verbatim>\<open>cpu->R16.SP--; cpu->R16.SP &= 0xFFFF; GB_MemWrite8(cpu->R16.SP, v);\<close>\<close>

definition dec_SP_write :: "'r environment \<Rightarrow> u8 \<Rightarrow> 'r machine \<Rightarrow> 'r machine" where
  "dec_SP_write env v m =
     (let m1 = cpu_upd (\<lambda>c. c\<lparr>R16_SP := R16_SP c - 1\<rparr>) m
      in MemWrite8 env (R16_SP (fst m1)) v m1)"

section \<open>cpu.c: the opcode macros\<close>

definition gb_ld_r16_nnnn :: "reg8 \<Rightarrow> reg8 \<Rightarrow> 'r environment \<Rightarrow> 'r machine \<Rightarrow> 'r machine" where
  "gb_ld_r16_nnnn reg_hi reg_low env m =
     (let m = GB_CPUClockCounterAdd 4 m;
          (v, m) = read_PC_inc env m;
          m = cpu_upd (set8 reg_low v) m;
          m = GB_CPUClockCounterAdd 4 m;
          (v, m) = read_PC_inc env m;
          m = cpu_upd (set8 reg_hi v) m
      in GB_CPUClockCounterAdd 4 m)"

definition gb_ld_r8_nn :: "reg8 \<Rightarrow> 'r environment \<Rightarrow> 'r machine \<Rightarrow> 'r machine" where
  "gb_ld_r8_nn reg8 env m =
     (let m = GB_CPUClockCounterAdd 4 m;
          (v, m) = read_PC_inc env m;
          m = cpu_upd (set8 reg8 v) m
      in GB_CPUClockCounterAdd 4 m)"

definition gb_ld_ptr_r16_r8 :: "reg16 \<Rightarrow> reg8 \<Rightarrow> 'r environment \<Rightarrow> 'r machine \<Rightarrow> 'r machine" where
  "gb_ld_ptr_r16_r8 reg16 r8 env m =
     (let m = GB_CPUClockCounterAdd 4 m;
          m = MemWrite8 env (get16 reg16 (fst m)) (get8 r8 (fst m)) m
      in GB_CPUClockCounterAdd 4 m)"

definition gb_ld_r8_ptr_r16 :: "reg8 \<Rightarrow> reg16 \<Rightarrow> 'r environment \<Rightarrow> 'r machine \<Rightarrow> 'r machine" where
  "gb_ld_r8_ptr_r16 r8 reg16 env m =
     (let m = GB_CPUClockCounterAdd 4 m;
          (v, m) = MemRead8 env (get16 reg16 (fst m)) m;
          m = cpu_upd (set8 r8 v) m
      in GB_CPUClockCounterAdd 4 m)"

definition gb_inc_r16 :: "reg16 \<Rightarrow> 'r machine \<Rightarrow> 'r machine" where
  "gb_inc_r16 reg16 m =
     (let m = cpu_upd (\<lambda>c. set16 reg16 (get16 reg16 c + 1) c) m
      in GB_CPUClockCounterAdd 8 m)"

definition gb_dec_r16 :: "reg16 \<Rightarrow> 'r machine \<Rightarrow> 'r machine" where
  "gb_dec_r16 reg16 m =
     (let m = cpu_upd (\<lambda>c. set16 reg16 (get16 reg16 c - 1) c) m
      in GB_CPUClockCounterAdd 8 m)"

definition gb_inc_r8 :: "reg8 \<Rightarrow> 'r machine \<Rightarrow> 'r machine" where
  "gb_inc_r8 reg8 m =
     (let m = cpu_upd (AF_and_not F_SUBTRACT) m;
          m = cpu_upd (\<lambda>c. set_flag F_HALFCARRY (get8 reg8 c AND 0xF = 0xF) c) m;
          m = cpu_upd (\<lambda>c. set8 reg8 (get8 reg8 c + 1) c) m;
          m = cpu_upd (\<lambda>c. set_flag F_ZERO (get8 reg8 c = 0) c) m
      in GB_CPUClockCounterAdd 4 m)"

definition gb_dec_r8 :: "reg8 \<Rightarrow> 'r machine \<Rightarrow> 'r machine" where
  "gb_dec_r8 reg8 m =
     (let m = cpu_upd (AF_or F_SUBTRACT) m;
          m = cpu_upd (\<lambda>c. set_flag F_HALFCARRY (get8 reg8 c AND 0xF = 0x0) c) m;
          m = cpu_upd (\<lambda>c. set8 reg8 (get8 reg8 c - 1) c) m;
          m = cpu_upd (\<lambda>c. set_flag F_ZERO (get8 reg8 c = 0) c) m
      in GB_CPUClockCounterAdd 4 m)"

definition gb_add_hl_r16 :: "reg16 \<Rightarrow> 'r machine \<Rightarrow> 'r machine" where
  "gb_add_hl_r16 reg16 m =
     (let m = cpu_upd (AF_and_not F_SUBTRACT) m;
          temp = (ucast (get16 reg_HL (fst m)) :: u32) + ucast (get16 reg16 (fst m));
          m = cpu_upd (set_flag F_CARRY (temp > 0xFFFF)) m;
          m = cpu_upd (\<lambda>c. set_flag F_HALFCARRY
                (((ucast (get16 reg_HL c) :: u32) AND 0x0FFF) + (ucast (get16 reg16 c) AND 0x0FFF) > 0x0FFF) c) m;
          m = cpu_upd (set16 reg_HL (ucast (temp AND 0xFFFF))) m
      in GB_CPUClockCounterAdd 8 m)"

definition gb_add_a_r8 :: "reg8 \<Rightarrow> 'r machine \<Rightarrow> 'r machine" where
  "gb_add_a_r8 reg8 m =
     (let m = cpu_upd (AF_and_not F_SUBTRACT) m;
          temp = (ucast (R8_A (fst m)) :: u32);
          m = cpu_upd (\<lambda>c. set_flag F_HALFCARRY
                ((temp AND 0xF) + ((ucast (get8 reg8 c) :: u32) AND 0xF) > 0xF) c) m;
          m = cpu_upd (\<lambda>c. c\<lparr>R8_A := R8_A c + get8 reg8 c\<rparr>) m;
          m = cpu_upd (\<lambda>c. set_flag F_ZERO (R8_A c = 0) c) m;
          m = cpu_upd (\<lambda>c. set_flag F_CARRY (temp > ucast (R8_A c)) c) m
      in GB_CPUClockCounterAdd 4 m)"

definition gb_adc_a_r8 :: "reg8 \<Rightarrow> 'r machine \<Rightarrow> 'r machine" where
  "gb_adc_a_r8 reg8 m =
     (let m = cpu_upd (AF_and_not F_SUBTRACT) m;
          temp = (ucast (R8_A (fst m)) :: u32) + ucast (get8 reg8 (fst m)) + F_C (fst m);
          m = cpu_upd (\<lambda>c. set_flag F_HALFCARRY
                (((ucast (R8_A c AND 0xF) :: u32) + ucast (get8 reg8 c AND 0xF)) + F_C c > 0xF) c) m;
          m = cpu_upd (set_flag F_CARRY (temp > 0xFF)) m;
          temp = temp AND 0xFF;
          m = cpu_upd (\<lambda>c. c\<lparr>R8_A := ucast temp\<rparr>) m;
          m = cpu_upd (set_flag F_ZERO (temp = 0)) m
      in GB_CPUClockCounterAdd 4 m)"

definition gb_sub_a_r8 :: "reg8 \<Rightarrow> 'r machine \<Rightarrow> 'r machine" where
  "gb_sub_a_r8 reg8 m =
     (let m = cpu_upd (\<lambda>c. c\<lparr>R8_F := F_SUBTRACT\<rparr>) m;
          m = cpu_upd (\<lambda>c. set_flag F_HALFCARRY (R8_A c AND 0xF < get8 reg8 c AND 0xF) c) m;
          m = cpu_upd (\<lambda>c. set_flag F_CARRY ((ucast (R8_A c) :: u32) < ucast (get8 reg8 c)) c) m;
          m = cpu_upd (\<lambda>c. c\<lparr>R8_A := R8_A c - get8 reg8 c\<rparr>) m;
          m = cpu_upd (\<lambda>c. set_flag F_ZERO (R8_A c = 0) c) m
      in GB_CPUClockCounterAdd 4 m)"

text \<open>
  The body shared by \<^verbatim>\<open>gb_sbc_a_r8\<close> and the inline SBC cases, given the subtrahend:
  the difference is taken in 32 bits, so a borrow shows above bit 7.
\<close>

definition sbc_a :: "u8 \<Rightarrow> gb_cpu \<Rightarrow> gb_cpu" where
  "sbc_a v c =
     (let temp = (ucast (R8_A c) :: u32) - ucast v - (if R8_F c AND F_CARRY \<noteq> 0 then 1 else 0);
          c = c\<lparr>R8_F := (if temp AND NOT 0xFF \<noteq> 0 then F_CARRY else 0)
                          OR (if temp AND 0xFF \<noteq> 0 then 0 else F_ZERO) OR F_SUBTRACT\<rparr>;
          c = set_flag F_HALFCARRY (((ucast (R8_A c) :: u32) XOR ucast v XOR temp) AND 0x10 \<noteq> 0) c
      in c\<lparr>R8_A := ucast temp\<rparr>)"

definition gb_sbc_a_r8 :: "reg8 \<Rightarrow> 'r machine \<Rightarrow> 'r machine" where
  "gb_sbc_a_r8 reg8 m =
     (let m = cpu_upd (\<lambda>c. sbc_a (get8 reg8 c) c) m
      in GB_CPUClockCounterAdd 4 m)"

definition gb_and_a_r8 :: "reg8 \<Rightarrow> 'r machine \<Rightarrow> 'r machine" where
  "gb_and_a_r8 reg8 m =
     (let m = cpu_upd (AF_or F_HALFCARRY) m;
          m = cpu_upd (AF_and_not (F_SUBTRACT OR F_CARRY)) m;
          m = cpu_upd (\<lambda>c. c\<lparr>R8_A := R8_A c AND get8 reg8 c\<rparr>) m;
          m = cpu_upd (\<lambda>c. set_flag F_ZERO (R8_A c = 0) c) m
      in GB_CPUClockCounterAdd 4 m)"

definition gb_xor_a_r8 :: "reg8 \<Rightarrow> 'r machine \<Rightarrow> 'r machine" where
  "gb_xor_a_r8 reg8 m =
     (let m = cpu_upd (AF_and_not (F_SUBTRACT OR F_CARRY OR F_HALFCARRY)) m;
          m = cpu_upd (\<lambda>c. c\<lparr>R8_A := R8_A c XOR get8 reg8 c\<rparr>) m;
          m = cpu_upd (\<lambda>c. set_flag F_ZERO (R8_A c = 0) c) m
      in GB_CPUClockCounterAdd 4 m)"

definition gb_or_a_r8 :: "reg8 \<Rightarrow> 'r machine \<Rightarrow> 'r machine" where
  "gb_or_a_r8 reg8 m =
     (let m = cpu_upd (AF_and_not (F_SUBTRACT OR F_CARRY OR F_HALFCARRY)) m;
          m = cpu_upd (\<lambda>c. c\<lparr>R8_A := R8_A c OR get8 reg8 c\<rparr>) m;
          m = cpu_upd (\<lambda>c. set_flag F_ZERO (R8_A c = 0) c) m
      in GB_CPUClockCounterAdd 4 m)"

definition gb_cp_a_r8 :: "reg8 \<Rightarrow> 'r machine \<Rightarrow> 'r machine" where
  "gb_cp_a_r8 reg8 m =
     (let m = cpu_upd (AF_or F_SUBTRACT) m;
          m = cpu_upd (\<lambda>c. set_flag F_HALFCARRY (R8_A c AND 0xF < get8 reg8 c AND 0xF) c) m;
          m = cpu_upd (\<lambda>c. set_flag F_CARRY ((ucast (R8_A c) :: u32) < ucast (get8 reg8 c)) c) m;
          m = cpu_upd (\<lambda>c. set_flag F_ZERO (R8_A c = get8 reg8 c) c) m
      in GB_CPUClockCounterAdd 4 m)"

definition PCH :: "gb_cpu \<Rightarrow> u8" where "PCH c = hi8 (R16_PC c)"
definition PCL :: "gb_cpu \<Rightarrow> u8" where "PCL c = lo8 (R16_PC c)"

definition gb_rst_nnnn :: "u16 \<Rightarrow> 'r environment \<Rightarrow> 'r machine \<Rightarrow> 'r machine" where
  "gb_rst_nnnn addr env m =
     (let m = GB_CPUClockCounterAdd 8 m;
          m = dec_SP_write env (PCH (fst m)) m;
          m = GB_CPUClockCounterAdd 4 m;
          m = dec_SP_write env (PCL (fst m)) m;
          m = cpu_upd (\<lambda>c. c\<lparr>R16_PC := addr\<rparr>) m
      in GB_CPUClockCounterAdd 4 m)"

definition gb_push_r16 :: "reg8 \<Rightarrow> reg8 \<Rightarrow> 'r environment \<Rightarrow> 'r machine \<Rightarrow> 'r machine" where
  "gb_push_r16 reg_hi reg_low env m =
     (let m = GB_CPUClockCounterAdd 8 m;
          m = dec_SP_write env (get8 reg_hi (fst m)) m;
          m = GB_CPUClockCounterAdd 4 m;
          m = dec_SP_write env (get8 reg_low (fst m)) m
      in GB_CPUClockCounterAdd 4 m)"

definition gb_pop_r16 :: "reg8 \<Rightarrow> reg8 \<Rightarrow> 'r environment \<Rightarrow> 'r machine \<Rightarrow> 'r machine" where
  "gb_pop_r16 reg_hi reg_low env m =
     (let m = GB_CPUClockCounterAdd 4 m;
          (v, m) = read_SP_inc env m;
          m = cpu_upd (set8 reg_low v) m;
          m = GB_CPUClockCounterAdd 4 m;
          (v, m) = read_SP_inc env m;
          m = cpu_upd (set8 reg_hi v) m
      in GB_CPUClockCounterAdd 4 m)"

text \<open>The condition of a conditional macro is a test of the flags on entry.\<close>

definition gb_call_cond_nnnn :: "(gb_cpu \<Rightarrow> bool) \<Rightarrow> 'r environment \<Rightarrow> 'r machine \<Rightarrow> 'r machine" where
  "gb_call_cond_nnnn cond env m =
     (if cond (fst m) then
        (let m = GB_CPUClockCounterAdd 4 m;
             (lo, m) = read_PC_inc env m;
             m = GB_CPUClockCounterAdd 4 m;
             (hi, m) = read_PC_inc env m;
             temp = pair16 hi lo;
             m = GB_CPUClockCounterAdd 8 m;
             m = dec_SP_write env (PCH (fst m)) m;
             m = GB_CPUClockCounterAdd 4 m;
             m = dec_SP_write env (PCL (fst m)) m;
             m = cpu_upd (\<lambda>c. c\<lparr>R16_PC := temp\<rparr>) m
         in GB_CPUClockCounterAdd 4 m)
      else
        (let m = cpu_upd (\<lambda>c. c\<lparr>R16_PC := R16_PC c + 2\<rparr>) m
         in GB_CPUClockCounterAdd 12 m))"

definition gb_ret_cond :: "(gb_cpu \<Rightarrow> bool) \<Rightarrow> 'r environment \<Rightarrow> 'r machine \<Rightarrow> 'r machine" where
  "gb_ret_cond cond env m =
     (if cond (fst m) then
        (let m = GB_CPUClockCounterAdd 4 m;
             (lo, m) = read_SP_inc env m;
             m = GB_CPUClockCounterAdd 4 m;
             (hi, m) = read_SP_inc env m;
             temp = pair16 hi lo;
             m = GB_CPUClockCounterAdd 4 m;
             m = cpu_upd (\<lambda>c. c\<lparr>R16_PC := temp\<rparr>) m
         in GB_CPUClockCounterAdd 8 m)
      else GB_CPUClockCounterAdd 8 m)"

definition gb_jp_cond_nnnn :: "(gb_cpu \<Rightarrow> bool) \<Rightarrow> 'r environment \<Rightarrow> 'r machine \<Rightarrow> 'r machine" where
  "gb_jp_cond_nnnn cond env m =
     (if cond (fst m) then
        (let m = GB_CPUClockCounterAdd 4 m;
             (lo, m) = read_PC_inc env m;
             m = GB_CPUClockCounterAdd 4 m;
             (hi, m) = read_PC_inc env m;
             temp = pair16 hi lo;
             m = GB_CPUClockCounterAdd 4 m;
             m = cpu_upd (\<lambda>c. c\<lparr>R16_PC := temp\<rparr>) m
         in GB_CPUClockCounterAdd 4 m)
      else
        (let m = cpu_upd (\<lambda>c. c\<lparr>R16_PC := R16_PC c + 2\<rparr>) m
         in GB_CPUClockCounterAdd 12 m))"

definition gb_jr_cond_nn :: "(gb_cpu \<Rightarrow> bool) \<Rightarrow> 'r environment \<Rightarrow> 'r machine \<Rightarrow> 'r machine" where
  "gb_jr_cond_nn cond env m =
     (if cond (fst m) then
        (let m = GB_CPUClockCounterAdd 4 m;
             (temp, m) = read_PC_inc env m;
             m = cpu_upd (\<lambda>c. c\<lparr>R16_PC := R16_PC c + scast temp\<rparr>) m
         in GB_CPUClockCounterAdd 8 m)
      else
        (let m = cpu_upd (\<lambda>c. c\<lparr>R16_PC := R16_PC c + 1\<rparr>) m
         in GB_CPUClockCounterAdd 8 m))"

text \<open>The macros of the CB-prefixed opcodes on a register.\<close>

definition gb_rlc_r8 :: "reg8 \<Rightarrow> 'r machine \<Rightarrow> 'r machine" where
  "gb_rlc_r8 reg8 m =
     (let m = cpu_upd (AF_and_not (F_SUBTRACT OR F_HALFCARRY)) m;
          m = cpu_upd (\<lambda>c. set_flag F_CARRY (get8 reg8 c AND 0x80 \<noteq> 0) c) m;
          m = cpu_upd (\<lambda>c. set8 reg8 (ucast (push_bit 1 (ucast (get8 reg8 c) :: u32) OR F_C c)) c) m;
          m = cpu_upd (\<lambda>c. set_flag F_ZERO (get8 reg8 c = 0) c) m
      in GB_CPUClockCounterAdd 4 m)"

definition gb_rrc_r8 :: "reg8 \<Rightarrow> 'r machine \<Rightarrow> 'r machine" where
  "gb_rrc_r8 reg8 m =
     (let m = cpu_upd (AF_and_not (F_SUBTRACT OR F_HALFCARRY)) m;
          m = cpu_upd (\<lambda>c. set_flag F_CARRY (get8 reg8 c AND 0x01 \<noteq> 0) c) m;
          m = cpu_upd (\<lambda>c. set8 reg8
                (ucast (drop_bit 1 (ucast (get8 reg8 c) :: u32) OR push_bit 7 (F_C c))) c) m;
          m = cpu_upd (\<lambda>c. set_flag F_ZERO (get8 reg8 c = 0) c) m
      in GB_CPUClockCounterAdd 4 m)"

definition gb_rl_r8 :: "reg8 \<Rightarrow> 'r machine \<Rightarrow> 'r machine" where
  "gb_rl_r8 reg8 m =
     (let m = cpu_upd (AF_and_not (F_SUBTRACT OR F_HALFCARRY)) m;
          temp = F_C (fst m);
          m = cpu_upd (\<lambda>c. set_flag F_CARRY (get8 reg8 c AND 0x80 \<noteq> 0) c) m;
          m = cpu_upd (\<lambda>c. set8 reg8 (ucast (push_bit 1 (ucast (get8 reg8 c) :: u32) OR temp)) c) m;
          m = cpu_upd (\<lambda>c. set_flag F_ZERO (get8 reg8 c = 0) c) m
      in GB_CPUClockCounterAdd 4 m)"

definition gb_rr_r8 :: "reg8 \<Rightarrow> 'r machine \<Rightarrow> 'r machine" where
  "gb_rr_r8 reg8 m =
     (let m = cpu_upd (AF_and_not (F_SUBTRACT OR F_HALFCARRY)) m;
          temp = F_C (fst m);
          m = cpu_upd (\<lambda>c. set_flag F_CARRY (get8 reg8 c AND 0x01 \<noteq> 0) c) m;
          m = cpu_upd (\<lambda>c. set8 reg8
                (ucast (drop_bit 1 (ucast (get8 reg8 c) :: u32) OR push_bit 7 temp)) c) m;
          m = cpu_upd (\<lambda>c. set_flag F_ZERO (get8 reg8 c = 0) c) m
      in GB_CPUClockCounterAdd 4 m)"

definition gb_sla_r8 :: "reg8 \<Rightarrow> 'r machine \<Rightarrow> 'r machine" where
  "gb_sla_r8 reg8 m =
     (let m = cpu_upd (AF_and_not (F_SUBTRACT OR F_HALFCARRY)) m;
          m = cpu_upd (\<lambda>c. set_flag F_CARRY (get8 reg8 c AND 0x80 \<noteq> 0) c) m;
          m = cpu_upd (\<lambda>c. set8 reg8 (push_bit 1 (get8 reg8 c)) c) m;
          m = cpu_upd (\<lambda>c. set_flag F_ZERO (get8 reg8 c = 0) c) m
      in GB_CPUClockCounterAdd 4 m)"

definition gb_sra_r8 :: "reg8 \<Rightarrow> 'r machine \<Rightarrow> 'r machine" where
  "gb_sra_r8 reg8 m =
     (let m = cpu_upd (AF_and_not (F_SUBTRACT OR F_HALFCARRY)) m;
          m = cpu_upd (\<lambda>c. set_flag F_CARRY (get8 reg8 c AND 0x01 \<noteq> 0) c) m;
          m = cpu_upd (\<lambda>c. set8 reg8 ((get8 reg8 c AND 0x80) OR drop_bit 1 (get8 reg8 c)) c) m;
          m = cpu_upd (\<lambda>c. set_flag F_ZERO (get8 reg8 c = 0) c) m
      in GB_CPUClockCounterAdd 4 m)"

definition gb_swap_r8 :: "reg8 \<Rightarrow> 'r machine \<Rightarrow> 'r machine" where
  "gb_swap_r8 reg8 m =
     (let m = cpu_upd (AF_and_not (F_SUBTRACT OR F_HALFCARRY OR F_CARRY)) m;
          m = cpu_upd (\<lambda>c. set8 reg8 (drop_bit 4 (get8 reg8 c) OR push_bit 4 (get8 reg8 c)) c) m;
          m = cpu_upd (\<lambda>c. set_flag F_ZERO (get8 reg8 c = 0) c) m
      in GB_CPUClockCounterAdd 4 m)"

definition gb_srl_r8 :: "reg8 \<Rightarrow> 'r machine \<Rightarrow> 'r machine" where
  "gb_srl_r8 reg8 m =
     (let m = cpu_upd (AF_and_not (F_SUBTRACT OR F_HALFCARRY)) m;
          m = cpu_upd (\<lambda>c. set_flag F_CARRY (get8 reg8 c AND 0x01 \<noteq> 0) c) m;
          m = cpu_upd (\<lambda>c. set8 reg8 (drop_bit 1 (get8 reg8 c)) c) m;
          m = cpu_upd (\<lambda>c. set_flag F_ZERO (get8 reg8 c = 0) c) m
      in GB_CPUClockCounterAdd 4 m)"

definition gb_bit_n_r8 :: "nat \<Rightarrow> reg8 \<Rightarrow> 'r machine \<Rightarrow> 'r machine" where
  "gb_bit_n_r8 bitn reg8 m =
     (let m = cpu_upd (AF_and_not F_SUBTRACT) m;
          m = cpu_upd (AF_or F_HALFCARRY) m;
          m = cpu_upd (\<lambda>c. set_flag F_ZERO (get8 reg8 c AND push_bit bitn 1 = 0) c) m
      in GB_CPUClockCounterAdd 4 m)"

definition gb_bit_n_ptr_hl :: "nat \<Rightarrow> 'r environment \<Rightarrow> 'r machine \<Rightarrow> 'r machine" where
  "gb_bit_n_ptr_hl bitn env m =
     (let m = GB_CPUClockCounterAdd 4 m;
          m = cpu_upd (AF_and_not F_SUBTRACT) m;
          m = cpu_upd (AF_or F_HALFCARRY) m;
          (v, m) = MemRead8 env (get16 reg_HL (fst m)) m;
          m = cpu_upd (set_flag F_ZERO (v AND push_bit bitn 1 = 0)) m
      in GB_CPUClockCounterAdd 4 m)"

definition gb_res_n_r8 :: "nat \<Rightarrow> reg8 \<Rightarrow> 'r machine \<Rightarrow> 'r machine" where
  "gb_res_n_r8 bitn reg8 m =
     (let m = cpu_upd (\<lambda>c. set8 reg8 (get8 reg8 c AND NOT (push_bit bitn 1)) c) m
      in GB_CPUClockCounterAdd 4 m)"

definition gb_res_n_ptr_hl :: "nat \<Rightarrow> 'r environment \<Rightarrow> 'r machine \<Rightarrow> 'r machine" where
  "gb_res_n_ptr_hl bitn env m =
     (let m = GB_CPUClockCounterAdd 4 m;
          (temp, m) = MemRead8 env (get16 reg_HL (fst m)) m;
          m = GB_CPUClockCounterAdd 4 m;
          m = MemWrite8 env (get16 reg_HL (fst m)) (temp AND NOT (push_bit bitn 1)) m
      in GB_CPUClockCounterAdd 4 m)"

definition gb_set_n_r8 :: "nat \<Rightarrow> reg8 \<Rightarrow> 'r machine \<Rightarrow> 'r machine" where
  "gb_set_n_r8 bitn reg8 m =
     (let m = cpu_upd (\<lambda>c. set8 reg8 (get8 reg8 c OR push_bit bitn 1) c) m
      in GB_CPUClockCounterAdd 4 m)"

definition gb_set_n_ptr_hl :: "nat \<Rightarrow> 'r environment \<Rightarrow> 'r machine \<Rightarrow> 'r machine" where
  "gb_set_n_ptr_hl bitn env m =
     (let m = GB_CPUClockCounterAdd 4 m;
          (temp, m) = MemRead8 env (get16 reg_HL (fst m)) m;
          m = GB_CPUClockCounterAdd 4 m;
          m = MemWrite8 env (get16 reg_HL (fst m)) (temp OR push_bit bitn 1) m
      in GB_CPUClockCounterAdd 4 m)"

definition gb_undefined_opcode :: "'r machine \<Rightarrow> 'r machine" where
  "gb_undefined_opcode m =
     (let m = GB_CPUClockCounterAdd 4 m;
          m = cpu_upd (\<lambda>c. c\<lparr>R16_PC := R16_PC c - 1\<rparr>) m
      in gb_break_to_debugger m)"

text \<open>\<^verbatim>\<open>LD r,r'\<close>: \<^verbatim>\<open>cpu->R8.x = cpu->R8.y; GB_CPUClockCounterAdd(4);\<close>\<close>

definition ld_r8_r8 :: "reg8 \<Rightarrow> reg8 \<Rightarrow> 'r machine \<Rightarrow> 'r machine" where
  "ld_r8_r8 dst src m =
     (let m = cpu_upd (\<lambda>c. set8 dst (get8 src c) c) m
      in GB_CPUClockCounterAdd 4 m)"

section \<open>cpu.c: the opcodes written out in the switch\<close>

text \<open>
  Each definition is the body of one \<^verbatim>\<open>case\<close> of the switch in \<^verbatim>\<open>GB_CPUExecute\<close>, named
  by its opcode, one binding for each statement. A byte read into a 32-bit temporary stays
  a byte until the source computes with it; a value given to \<^verbatim>\<open>GB_MemWrite8\<close> is stored
  as a byte.
\<close>

definition op_07 :: "'r machine \<Rightarrow> 'r machine" \<comment> \<open>RLCA\<close> where
  "op_07 m =
     (let m = cpu_upd (AF_and_not (F_SUBTRACT OR F_HALFCARRY OR F_ZERO)) m;
          m = cpu_upd (\<lambda>c. set_flag F_CARRY (R8_A c AND 0x80 \<noteq> 0) c) m;
          m = cpu_upd (\<lambda>c. c\<lparr>R8_A := ucast (push_bit 1 (ucast (R8_A c) :: u32) OR F_C c)\<rparr>) m
      in GB_CPUClockCounterAdd 4 m)"

definition op_08 :: "'r environment \<Rightarrow> 'r machine \<Rightarrow> 'r machine" \<comment> \<open>LD [nnnn],SP\<close> where
  "op_08 env m =
     (let m = GB_CPUClockCounterAdd 4 m;
          (lo, m) = read_PC_inc env m;
          m = GB_CPUClockCounterAdd 4 m;
          (hi, m) = read_PC_inc env m;
          temp = pair16 hi lo;
          m = GB_CPUClockCounterAdd 4 m;
          m = MemWrite8 env temp (get8 reg_SPL (fst m)) m;
          temp = temp + 1;
          m = GB_CPUClockCounterAdd 4 m;
          m = MemWrite8 env temp (get8 reg_SPH (fst m)) m
      in GB_CPUClockCounterAdd 4 m)"

definition op_0F :: "'r machine \<Rightarrow> 'r machine" \<comment> \<open>RRCA\<close> where
  "op_0F m =
     (let m = cpu_upd (AF_and_not (F_SUBTRACT OR F_HALFCARRY OR F_ZERO)) m;
          m = cpu_upd (\<lambda>c. set_flag F_CARRY (R8_A c AND 0x01 \<noteq> 0) c) m;
          m = cpu_upd (\<lambda>c. c\<lparr>R8_A := ucast (drop_bit 1 (ucast (R8_A c) :: u32) OR push_bit 7 (F_C c))\<rparr>) m
      in GB_CPUClockCounterAdd 4 m)"

definition op_10 :: "'r environment \<Rightarrow> 'r machine \<Rightarrow> 'r machine" \<comment> \<open>STOP\<close> where
  "op_10 env m =
     (let m = GB_CPUClockCounterAdd 4 m;
          (v, m) = read_PC_inc env m;
          m = GB_CPUClockCounterAdd 4 m;
          m = (if \<not> CGBEnabled (snd m) then sys_upd (\<lambda>g. g\<lparr>CPUHalt := 2\<rparr>) m
               else if IO_Ports (snd m) (KEY1_REG - 0xFF00) AND 1 \<noteq> 0 then
                 (let m = sys_upd (\<lambda>g. g\<lparr>cpu_change_speed_clocks := 128 * 1024\<rparr>) m;
                      m = sys_upd (\<lambda>g. g\<lparr>cpu_change_speed_clocks := cpu_change_speed_clocks g - 84\<rparr>) m;
                      m = sys_upd (\<lambda>g. g\<lparr>DoubleSpeed := DoubleSpeed g XOR 1\<rparr>) m
                  in sys_upd (\<lambda>g. g\<lparr>IO_Ports := (IO_Ports g)
                        (KEY1_REG - 0xFF00 := ucast (push_bit 7 (DoubleSpeed g)))\<rparr>) m)
               else sys_upd (\<lambda>g. g\<lparr>CPUHalt := 2\<rparr>) m)
      in GB_CPUBreakLoop m)"

definition op_17 :: "'r machine \<Rightarrow> 'r machine" \<comment> \<open>RLA\<close> where
  "op_17 m =
     (let m = cpu_upd (AF_and_not (F_SUBTRACT OR F_HALFCARRY OR F_ZERO)) m;
          temp = F_C (fst m);
          m = cpu_upd (\<lambda>c. set_flag F_CARRY (R8_A c AND 0x80 \<noteq> 0) c) m;
          m = cpu_upd (\<lambda>c. c\<lparr>R8_A := ucast (push_bit 1 (ucast (R8_A c) :: u32) OR temp)\<rparr>) m
      in GB_CPUClockCounterAdd 4 m)"

definition op_18 :: "'r environment \<Rightarrow> 'r machine \<Rightarrow> 'r machine" \<comment> \<open>JR nn\<close> where
  "op_18 env m =
     (let m = GB_CPUClockCounterAdd 4 m;
          (temp, m) = read_PC_inc env m;
          m = GB_CPUClockCounterAdd 4 m;
          m = cpu_upd (\<lambda>c. c\<lparr>R16_PC := R16_PC c + scast temp\<rparr>) m
      in GB_CPUClockCounterAdd 4 m)"

definition op_1F :: "'r machine \<Rightarrow> 'r machine" \<comment> \<open>RRA\<close> where
  "op_1F m =
     (let m = cpu_upd (AF_and_not (F_SUBTRACT OR F_HALFCARRY OR F_ZERO)) m;
          temp = F_C (fst m);
          m = cpu_upd (\<lambda>c. set_flag F_CARRY (R8_A c AND 0x01 \<noteq> 0) c) m;
          m = cpu_upd (\<lambda>c. c\<lparr>R8_A := ucast (drop_bit 1 (ucast (R8_A c) :: u32) OR push_bit 7 temp)\<rparr>) m
      in GB_CPUClockCounterAdd 4 m)"

definition op_22 :: "'r environment \<Rightarrow> 'r machine \<Rightarrow> 'r machine" \<comment> \<open>LD [HL+],A\<close> where
  "op_22 env m =
     (let m = GB_CPUClockCounterAdd 4 m;
          m = MemWrite8 env (get16 reg_HL (fst m)) (R8_A (fst m)) m;
          m = cpu_upd (\<lambda>c. set16 reg_HL (get16 reg_HL c + 1) c) m
      in GB_CPUClockCounterAdd 4 m)"

text \<open>
  DAA. The index into the table is \<open>A * 16 + ((F >> 4) AND 7) * 2\<close>; the byte there is the
  new A and the next one the new F.
\<close>

definition daa_index :: "gb_cpu \<Rightarrow> nat" where
  "daa_index c =
     unat (push_bit (3 + 1) (ucast (R8_A c) :: u32)
           OR push_bit 1 (drop_bit 4 (ucast (R8_F c) :: u32) AND 7))"

definition op_27 :: "'r environment \<Rightarrow> 'r machine \<Rightarrow> 'r machine" \<comment> \<open>DAA\<close> where
  "op_27 env m =
     (let temp = daa_index (fst m);
          m = cpu_upd (\<lambda>c. c\<lparr>R8_A := gb_daa_table env temp\<rparr>) m;
          m = cpu_upd (\<lambda>c. c\<lparr>R8_F := gb_daa_table env (temp + 1)\<rparr>) m
      in GB_CPUClockCounterAdd 4 m)"

definition op_29 :: "'r machine \<Rightarrow> 'r machine" \<comment> \<open>ADD HL,HL\<close> where
  "op_29 m =
     (let m = cpu_upd (AF_and_not F_SUBTRACT) m;
          m = cpu_upd (\<lambda>c. set_flag F_CARRY (get16 reg_HL c AND 0x8000 \<noteq> 0) c) m;
          m = cpu_upd (\<lambda>c. set_flag F_HALFCARRY (get16 reg_HL c AND 0x0800 \<noteq> 0) c) m;
          m = cpu_upd (\<lambda>c. set16 reg_HL (push_bit 1 (get16 reg_HL c)) c) m
      in GB_CPUClockCounterAdd 8 m)"

definition op_2A :: "'r environment \<Rightarrow> 'r machine \<Rightarrow> 'r machine" \<comment> \<open>LD A,[HL+]\<close> where
  "op_2A env m =
     (let m = GB_CPUClockCounterAdd 4 m;
          (v, m) = MemRead8 env (get16 reg_HL (fst m)) m;
          m = cpu_upd (\<lambda>c. c\<lparr>R8_A := v\<rparr>) m;
          m = cpu_upd (\<lambda>c. set16 reg_HL (get16 reg_HL c + 1) c) m
      in GB_CPUClockCounterAdd 4 m)"

definition op_2F :: "'r machine \<Rightarrow> 'r machine" \<comment> \<open>CPL\<close> where
  "op_2F m =
     (let m = cpu_upd (AF_or (F_SUBTRACT OR F_HALFCARRY)) m;
          m = cpu_upd (\<lambda>c. c\<lparr>R8_A := NOT (R8_A c)\<rparr>) m
      in GB_CPUClockCounterAdd 4 m)"

definition op_32 :: "'r environment \<Rightarrow> 'r machine \<Rightarrow> 'r machine" \<comment> \<open>LD [HL-],A\<close> where
  "op_32 env m =
     (let m = GB_CPUClockCounterAdd 4 m;
          m = MemWrite8 env (get16 reg_HL (fst m)) (R8_A (fst m)) m;
          m = cpu_upd (\<lambda>c. set16 reg_HL (get16 reg_HL c - 1) c) m
      in GB_CPUClockCounterAdd 4 m)"

definition op_34 :: "'r environment \<Rightarrow> 'r machine \<Rightarrow> 'r machine" \<comment> \<open>INC [HL]\<close> where
  "op_34 env m =
     (let m = GB_CPUClockCounterAdd 4 m;
          (v, m) = MemRead8 env (get16 reg_HL (fst m)) m;
          temp = (ucast v :: u32);
          m = GB_CPUClockCounterAdd 4 m;
          m = cpu_upd (AF_and_not F_SUBTRACT) m;
          m = cpu_upd (set_flag F_HALFCARRY (temp AND 0xF = 0xF)) m;
          temp = (temp + 1) AND 0xFF;
          m = cpu_upd (set_flag F_ZERO (temp = 0)) m;
          m = MemWrite8 env (get16 reg_HL (fst m)) (ucast temp) m
      in GB_CPUClockCounterAdd 4 m)"

definition op_35 :: "'r environment \<Rightarrow> 'r machine \<Rightarrow> 'r machine" \<comment> \<open>DEC [HL]\<close> where
  "op_35 env m =
     (let m = GB_CPUClockCounterAdd 4 m;
          (v, m) = MemRead8 env (get16 reg_HL (fst m)) m;
          temp = (ucast v :: u32);
          m = GB_CPUClockCounterAdd 4 m;
          m = cpu_upd (AF_or F_SUBTRACT) m;
          m = cpu_upd (set_flag F_HALFCARRY (temp AND 0xF = 0x0)) m;
          temp = (temp - 1) AND 0xFF;
          m = cpu_upd (set_flag F_ZERO (temp = 0)) m;
          m = MemWrite8 env (get16 reg_HL (fst m)) (ucast temp) m
      in GB_CPUClockCounterAdd 4 m)"

definition op_36 :: "'r environment \<Rightarrow> 'r machine \<Rightarrow> 'r machine" \<comment> \<open>LD [HL],n\<close> where
  "op_36 env m =
     (let m = GB_CPUClockCounterAdd 4 m;
          (temp, m) = read_PC_inc env m;
          m = GB_CPUClockCounterAdd 4 m;
          m = MemWrite8 env (get16 reg_HL (fst m)) temp m
      in GB_CPUClockCounterAdd 4 m)"

definition op_37 :: "'r machine \<Rightarrow> 'r machine" \<comment> \<open>SCF\<close> where
  "op_37 m =
     (let m = cpu_upd (AF_and_not (F_SUBTRACT OR F_HALFCARRY)) m;
          m = cpu_upd (AF_or F_CARRY) m
      in GB_CPUClockCounterAdd 4 m)"

definition op_3A :: "'r environment \<Rightarrow> 'r machine \<Rightarrow> 'r machine" \<comment> \<open>LD A,[HL-]\<close> where
  "op_3A env m =
     (let m = GB_CPUClockCounterAdd 4 m;
          (v, m) = MemRead8 env (get16 reg_HL (fst m)) m;
          m = cpu_upd (\<lambda>c. c\<lparr>R8_A := v\<rparr>) m;
          m = cpu_upd (\<lambda>c. set16 reg_HL (get16 reg_HL c - 1) c) m
      in GB_CPUClockCounterAdd 4 m)"

definition op_3F :: "'r machine \<Rightarrow> 'r machine" \<comment> \<open>CCF\<close> where
  "op_3F m =
     (let m = cpu_upd (AF_and_not (F_SUBTRACT OR F_HALFCARRY)) m;
          m = cpu_upd (\<lambda>c. set_flag F_CARRY (\<not> flag F_CARRY c) c) m
      in GB_CPUClockCounterAdd 4 m)"

definition op_76 :: "'r machine \<Rightarrow> 'r machine" \<comment> \<open>HALT\<close> where
  "op_76 m =
     (let m = GB_CPUClockCounterAdd 4 m;
          m = (if InterruptMasterEnable (snd m) = 1 then sys_upd (\<lambda>g. g\<lparr>CPUHalt := 1\<rparr>) m
               else if IO_Ports (snd m) (IF_REG - 0xFF00) AND HighRAM (snd m) (IE_REG - 0xFF80)
                         AND 0x1F \<noteq> 0
               then sys_upd (\<lambda>g. g\<lparr>halt_bug := 1\<rparr>) m
               else sys_upd (\<lambda>g. g\<lparr>CPUHalt := 1\<rparr>) m)
      in GB_CPUBreakLoop m)"

definition op_86 :: "'r environment \<Rightarrow> 'r machine \<Rightarrow> 'r machine" \<comment> \<open>ADD A,[HL]\<close> where
  "op_86 env m =
     (let m = GB_CPUClockCounterAdd 4 m;
          m = cpu_upd (AF_and_not F_SUBTRACT) m;
          temp = (ucast (R8_A (fst m)) :: u32);
          (v, m) = MemRead8 env (get16 reg_HL (fst m)) m;
          temp2 = (ucast v :: u32);
          m = cpu_upd (set_flag F_HALFCARRY ((temp AND 0xF) + (temp2 AND 0xF) > 0xF)) m;
          m = cpu_upd (\<lambda>c. c\<lparr>R8_A := R8_A c + ucast temp2\<rparr>) m;
          m = cpu_upd (\<lambda>c. set_flag F_ZERO (R8_A c = 0) c) m;
          m = cpu_upd (\<lambda>c. set_flag F_CARRY (temp > ucast (R8_A c)) c) m
      in GB_CPUClockCounterAdd 4 m)"

definition op_87 :: "'r machine \<Rightarrow> 'r machine" \<comment> \<open>ADD A,A\<close> where
  "op_87 m =
     (let m = cpu_upd (AF_and_not F_SUBTRACT) m;
          m = cpu_upd (\<lambda>c. set_flag F_HALFCARRY (R8_A c AND push_bit 3 1 \<noteq> 0) c) m;
          m = cpu_upd (\<lambda>c. set_flag F_CARRY (R8_A c AND push_bit 7 1 \<noteq> 0) c) m;
          m = cpu_upd (\<lambda>c. c\<lparr>R8_A := R8_A c + R8_A c\<rparr>) m;
          m = cpu_upd (\<lambda>c. set_flag F_ZERO (R8_A c = 0) c) m
      in GB_CPUClockCounterAdd 4 m)"

definition op_8E :: "'r environment \<Rightarrow> 'r machine \<Rightarrow> 'r machine" \<comment> \<open>ADC A,[HL]\<close> where
  "op_8E env m =
     (let m = GB_CPUClockCounterAdd 4 m;
          m = cpu_upd (AF_and_not F_SUBTRACT) m;
          (v, m) = MemRead8 env (get16 reg_HL (fst m)) m;
          temp = (ucast v :: u32);
          temp2 = ucast (R8_A (fst m)) + temp + F_C (fst m);
          m = cpu_upd (\<lambda>c. set_flag F_HALFCARRY
                (((ucast (R8_A c AND 0xF) :: u32) + (temp AND 0xF)) + F_C c > 0xF) c) m;
          m = cpu_upd (set_flag F_CARRY (temp2 > 0xFF)) m;
          temp2 = temp2 AND 0xFF;
          m = cpu_upd (\<lambda>c. c\<lparr>R8_A := ucast temp2\<rparr>) m;
          m = cpu_upd (set_flag F_ZERO (temp2 = 0)) m
      in GB_CPUClockCounterAdd 4 m)"

definition op_8F :: "'r machine \<Rightarrow> 'r machine" \<comment> \<open>ADC A,A\<close> where
  "op_8F m =
     (let m = cpu_upd (AF_and_not F_SUBTRACT) m;
          temp = push_bit 1 (ucast (R8_A (fst m)) :: u32) + F_C (fst m);
          m = cpu_upd (\<lambda>c. set_flag F_HALFCARRY (R8_A c AND 0x08 \<noteq> 0) c) m;
          m = cpu_upd (set_flag F_CARRY (temp > 0xFF)) m;
          temp = temp AND 0xFF;
          m = cpu_upd (\<lambda>c. c\<lparr>R8_A := ucast temp\<rparr>) m;
          m = cpu_upd (set_flag F_ZERO (temp = 0)) m
      in GB_CPUClockCounterAdd 4 m)"

definition op_96 :: "'r environment \<Rightarrow> 'r machine \<Rightarrow> 'r machine" \<comment> \<open>SUB A,[HL]\<close> where
  "op_96 env m =
     (let m = GB_CPUClockCounterAdd 4 m;
          (v, m) = MemRead8 env (get16 reg_HL (fst m)) m;
          temp = (ucast v :: u32);
          m = cpu_upd (\<lambda>c. c\<lparr>R8_F := F_SUBTRACT\<rparr>) m;
          m = cpu_upd (\<lambda>c. set_flag F_HALFCARRY (ucast (R8_A c AND 0xF) < temp AND 0xF) c) m;
          m = cpu_upd (\<lambda>c. set_flag F_CARRY (ucast (R8_A c) < temp) c) m;
          m = cpu_upd (\<lambda>c. c\<lparr>R8_A := R8_A c - ucast temp\<rparr>) m;
          m = cpu_upd (\<lambda>c. set_flag F_ZERO (R8_A c = 0) c) m
      in GB_CPUClockCounterAdd 4 m)"

definition op_97 :: "'r machine \<Rightarrow> 'r machine" \<comment> \<open>SUB A,A\<close> where
  "op_97 m =
     (let m = cpu_upd (\<lambda>c. c\<lparr>R8_F := F_SUBTRACT OR F_ZERO\<rparr>) m;
          m = cpu_upd (\<lambda>c. c\<lparr>R8_A := 0\<rparr>) m
      in GB_CPUClockCounterAdd 4 m)"

definition op_9E :: "'r environment \<Rightarrow> 'r machine \<Rightarrow> 'r machine" \<comment> \<open>SBC A,[HL]\<close> where
  "op_9E env m =
     (let m = GB_CPUClockCounterAdd 4 m;
          (temp2, m) = MemRead8 env (get16 reg_HL (fst m)) m;
          m = cpu_upd (sbc_a temp2) m
      in GB_CPUClockCounterAdd 4 m)"

definition op_9F :: "'r machine \<Rightarrow> 'r machine" \<comment> \<open>SBC A,A\<close> where
  "op_9F m =
     (let m = cpu_upd (\<lambda>c. if R8_F c AND F_CARRY \<noteq> 0
                 then c\<lparr>R8_A := 0xFF, R8_F := F_CARRY OR F_HALFCARRY OR F_SUBTRACT\<rparr>
                 else c\<lparr>R8_A := 0x00, R8_F := F_ZERO OR F_SUBTRACT\<rparr>) m
      in GB_CPUClockCounterAdd 4 m)"

definition op_A6 :: "'r environment \<Rightarrow> 'r machine \<Rightarrow> 'r machine" \<comment> \<open>AND A,[HL]\<close> where
  "op_A6 env m =
     (let m = GB_CPUClockCounterAdd 4 m;
          m = cpu_upd (AF_or F_HALFCARRY) m;
          m = cpu_upd (AF_and_not (F_SUBTRACT OR F_CARRY)) m;
          (v, m) = MemRead8 env (get16 reg_HL (fst m)) m;
          m = cpu_upd (\<lambda>c. c\<lparr>R8_A := R8_A c AND v\<rparr>) m;
          m = cpu_upd (\<lambda>c. set_flag F_ZERO (R8_A c = 0) c) m
      in GB_CPUClockCounterAdd 4 m)"

definition op_A7 :: "'r machine \<Rightarrow> 'r machine" \<comment> \<open>AND A,A\<close> where
  "op_A7 m =
     (let m = cpu_upd (AF_or F_HALFCARRY) m;
          m = cpu_upd (AF_and_not (F_SUBTRACT OR F_CARRY)) m;
          m = cpu_upd (\<lambda>c. set_flag F_ZERO (R8_A c = 0) c) m
      in GB_CPUClockCounterAdd 4 m)"

definition op_AE :: "'r environment \<Rightarrow> 'r machine \<Rightarrow> 'r machine" \<comment> \<open>XOR A,[HL]\<close> where
  "op_AE env m =
     (let m = GB_CPUClockCounterAdd 4 m;
          m = cpu_upd (AF_and_not (F_SUBTRACT OR F_CARRY OR F_HALFCARRY)) m;
          (v, m) = MemRead8 env (get16 reg_HL (fst m)) m;
          m = cpu_upd (\<lambda>c. c\<lparr>R8_A := R8_A c XOR v\<rparr>) m;
          m = cpu_upd (\<lambda>c. set_flag F_ZERO (R8_A c = 0) c) m
      in GB_CPUClockCounterAdd 4 m)"

definition op_AF :: "'r machine \<Rightarrow> 'r machine" \<comment> \<open>XOR A,A\<close> where
  "op_AF m =
     (let m = cpu_upd (\<lambda>c. c\<lparr>R8_A := 0x00, R8_F := F_ZERO\<rparr>) m
      in GB_CPUClockCounterAdd 4 m)"

definition op_B6 :: "'r environment \<Rightarrow> 'r machine \<Rightarrow> 'r machine" \<comment> \<open>OR A,[HL]\<close> where
  "op_B6 env m =
     (let m = GB_CPUClockCounterAdd 4 m;
          m = cpu_upd (AF_and_not (F_SUBTRACT OR F_CARRY OR F_HALFCARRY)) m;
          (v, m) = MemRead8 env (get16 reg_HL (fst m)) m;
          m = cpu_upd (\<lambda>c. c\<lparr>R8_A := R8_A c OR v\<rparr>) m;
          m = cpu_upd (\<lambda>c. set_flag F_ZERO (R8_A c = 0) c) m
      in GB_CPUClockCounterAdd 4 m)"

definition op_B7 :: "'r machine \<Rightarrow> 'r machine" \<comment> \<open>OR A,A\<close> where
  "op_B7 m =
     (let m = cpu_upd (AF_and_not (F_SUBTRACT OR F_CARRY OR F_HALFCARRY)) m;
          m = cpu_upd (\<lambda>c. set_flag F_ZERO (R8_A c = 0) c) m
      in GB_CPUClockCounterAdd 4 m)"

definition op_BE :: "'r environment \<Rightarrow> 'r machine \<Rightarrow> 'r machine" \<comment> \<open>CP A,[HL]\<close> where
  "op_BE env m =
     (let m = GB_CPUClockCounterAdd 4 m;
          m = cpu_upd (AF_or F_SUBTRACT) m;
          (v, m) = MemRead8 env (get16 reg_HL (fst m)) m;
          temp = (ucast v :: u32);
          m = cpu_upd (\<lambda>c. set_flag F_HALFCARRY (ucast (R8_A c AND 0xF) < temp AND 0xF) c) m;
          m = cpu_upd (\<lambda>c. set_flag F_CARRY (ucast (R8_A c) < temp) c) m;
          m = cpu_upd (\<lambda>c. set_flag F_ZERO (ucast (R8_A c) = temp) c) m
      in GB_CPUClockCounterAdd 4 m)"

definition op_BF :: "'r machine \<Rightarrow> 'r machine" \<comment> \<open>CP A,A\<close> where
  "op_BF m =
     (let m = cpu_upd (AF_or (F_SUBTRACT OR F_ZERO)) m;
          m = cpu_upd (AF_and_not (F_HALFCARRY OR F_CARRY)) m
      in GB_CPUClockCounterAdd 4 m)"

definition op_C3 :: "'r environment \<Rightarrow> 'r machine \<Rightarrow> 'r machine" \<comment> \<open>JP nnnn\<close> where
  "op_C3 env m =
     (let m = GB_CPUClockCounterAdd 4 m;
          (lo, m) = read_PC_inc env m;
          m = GB_CPUClockCounterAdd 4 m;
          (hi, m) = read_PC_inc env m;
          temp = pair16 hi lo;
          m = GB_CPUClockCounterAdd 4 m;
          m = cpu_upd (\<lambda>c. c\<lparr>R16_PC := temp\<rparr>) m
      in GB_CPUClockCounterAdd 4 m)"

definition op_C6 :: "'r environment \<Rightarrow> 'r machine \<Rightarrow> 'r machine" \<comment> \<open>ADD A,nn\<close> where
  "op_C6 env m =
     (let m = GB_CPUClockCounterAdd 4 m;
          m = cpu_upd (AF_and_not F_SUBTRACT) m;
          temp = (ucast (R8_A (fst m)) :: u32);
          (v, m) = read_PC_inc env m;
          temp2 = (ucast v :: u32);
          m = cpu_upd (set_flag F_HALFCARRY ((temp AND 0xF) + (temp2 AND 0xF) > 0xF)) m;
          m = cpu_upd (\<lambda>c. c\<lparr>R8_A := R8_A c + ucast temp2\<rparr>) m;
          m = cpu_upd (\<lambda>c. set_flag F_ZERO (R8_A c = 0) c) m;
          m = cpu_upd (\<lambda>c. set_flag F_CARRY (temp > ucast (R8_A c)) c) m
      in GB_CPUClockCounterAdd 4 m)"

definition op_C9 :: "'r environment \<Rightarrow> 'r machine \<Rightarrow> 'r machine" \<comment> \<open>RET\<close> where
  "op_C9 env m =
     (let m = GB_CPUClockCounterAdd 4 m;
          (lo, m) = read_SP_inc env m;
          m = GB_CPUClockCounterAdd 4 m;
          (hi, m) = read_SP_inc env m;
          temp = pair16 hi lo;
          m = GB_CPUClockCounterAdd 4 m;
          m = cpu_upd (\<lambda>c. c\<lparr>R16_PC := temp\<rparr>) m
      in GB_CPUClockCounterAdd 4 m)"

definition op_CD :: "'r environment \<Rightarrow> 'r machine \<Rightarrow> 'r machine" \<comment> \<open>CALL nnnn\<close> where
  "op_CD env m =
     (let m = GB_CPUClockCounterAdd 4 m;
          (lo, m) = read_PC_inc env m;
          m = GB_CPUClockCounterAdd 4 m;
          (hi, m) = read_PC_inc env m;
          temp = pair16 hi lo;
          m = GB_CPUClockCounterAdd 8 m;
          m = dec_SP_write env (PCH (fst m)) m;
          m = GB_CPUClockCounterAdd 4 m;
          m = dec_SP_write env (PCL (fst m)) m;
          m = cpu_upd (\<lambda>c. c\<lparr>R16_PC := temp\<rparr>) m
      in GB_CPUClockCounterAdd 4 m)"

definition op_CE :: "'r environment \<Rightarrow> 'r machine \<Rightarrow> 'r machine" \<comment> \<open>ADC A,nn\<close> where
  "op_CE env m =
     (let m = GB_CPUClockCounterAdd 4 m;
          m = cpu_upd (AF_and_not F_SUBTRACT) m;
          (v, m) = read_PC_inc env m;
          temp = (ucast v :: u32);
          temp2 = ucast (R8_A (fst m)) + temp + F_C (fst m);
          m = cpu_upd (\<lambda>c. set_flag F_HALFCARRY
                (((ucast (R8_A c AND 0xF) :: u32) + (temp AND 0xF)) + F_C c > 0xF) c) m;
          m = cpu_upd (set_flag F_CARRY (temp2 > 0xFF)) m;
          m = cpu_upd (\<lambda>c. c\<lparr>R8_A := ucast (temp2 AND 0xFF)\<rparr>) m;
          m = cpu_upd (\<lambda>c. set_flag F_ZERO (R8_A c = 0) c) m
      in GB_CPUClockCounterAdd 4 m)"

definition op_D6 :: "'r environment \<Rightarrow> 'r machine \<Rightarrow> 'r machine" \<comment> \<open>SUB A,nn\<close> where
  "op_D6 env m =
     (let m = GB_CPUClockCounterAdd 4 m;
          (v, m) = read_PC_inc env m;
          temp = (ucast v :: u32);
          m = cpu_upd (AF_or F_SUBTRACT) m;
          m = cpu_upd (\<lambda>c. set_flag F_HALFCARRY (ucast (R8_A c AND 0xF) < temp AND 0xF) c) m;
          m = cpu_upd (\<lambda>c. set_flag F_CARRY (ucast (R8_A c) < temp) c) m;
          m = cpu_upd (\<lambda>c. c\<lparr>R8_A := R8_A c - ucast temp\<rparr>) m;
          m = cpu_upd (\<lambda>c. set_flag F_ZERO (R8_A c = 0) c) m
      in GB_CPUClockCounterAdd 4 m)"

definition op_D9 :: "'r environment \<Rightarrow> 'r machine \<Rightarrow> 'r machine" \<comment> \<open>RETI\<close> where
  "op_D9 env m =
     (let m = GB_CPUClockCounterAdd 4 m;
          (lo, m) = read_SP_inc env m;
          m = GB_CPUClockCounterAdd 4 m;
          (hi, m) = read_SP_inc env m;
          temp = pair16 hi lo;
          m = GB_CPUClockCounterAdd 4 m;
          m = cpu_upd (\<lambda>c. c\<lparr>R16_PC := temp\<rparr>) m;
          m = sys_upd (\<lambda>g. g\<lparr>InterruptMasterEnable := 1\<rparr>) m;
          m = GB_CPUClockCounterAdd 4 m
      in GB_CPUBreakLoop m)"

definition op_DE :: "'r environment \<Rightarrow> 'r machine \<Rightarrow> 'r machine" \<comment> \<open>SBC A,nn\<close> where
  "op_DE env m =
     (let m = GB_CPUClockCounterAdd 4 m;
          (temp2, m) = read_PC_inc env m;
          m = cpu_upd (sbc_a temp2) m
      in GB_CPUClockCounterAdd 4 m)"

definition op_E0 :: "'r environment \<Rightarrow> 'r machine \<Rightarrow> 'r machine" \<comment> \<open>LD [0xFF00+nn],A\<close> where
  "op_E0 env m =
     (let m = GB_CPUClockCounterAdd 4 m;
          (v, m) = read_PC_inc env m;
          temp = 0xFF00 + (ucast v :: u32);
          m = GB_CPUClockCounterAdd 4 m;
          m = MemWrite8 env (ucast temp) (R8_A (fst m)) m
      in GB_CPUClockCounterAdd 4 m)"

definition op_E2 :: "'r environment \<Rightarrow> 'r machine \<Rightarrow> 'r machine" \<comment> \<open>LD [0xFF00+C],A\<close> where
  "op_E2 env m =
     (let m = GB_CPUClockCounterAdd 4 m;
          m = MemWrite8 env (ucast (0xFF00 + (ucast (R8_C (fst m)) :: u32))) (R8_A (fst m)) m
      in GB_CPUClockCounterAdd 4 m)"

definition op_E6 :: "'r environment \<Rightarrow> 'r machine \<Rightarrow> 'r machine" \<comment> \<open>AND A,nn\<close> where
  "op_E6 env m =
     (let m = GB_CPUClockCounterAdd 4 m;
          m = cpu_upd (AF_and_not (F_SUBTRACT OR F_CARRY)) m;
          m = cpu_upd (AF_or F_HALFCARRY) m;
          (v, m) = read_PC_inc env m;
          m = cpu_upd (\<lambda>c. c\<lparr>R8_A := R8_A c AND v\<rparr>) m;
          m = cpu_upd (\<lambda>c. set_flag F_ZERO (R8_A c = 0) c) m
      in GB_CPUClockCounterAdd 4 m)"

definition op_E8 :: "'r environment \<Rightarrow> 'r machine \<Rightarrow> 'r machine" \<comment> \<open>ADD SP,nn\<close> where
  "op_E8 env m =
     (let m = GB_CPUClockCounterAdd 4 m;
          (v, m) = read_PC_inc env m;
          temp = (ucast (scast v :: u16) :: u32);
          m = cpu_upd (\<lambda>c. c\<lparr>R8_F := 0\<rparr>) m;
          m = cpu_upd (\<lambda>c. set_flag F_CARRY
                ((ucast (R16_SP c AND 0x00FF) :: u32) + (temp AND 0x00FF) > 0x00FF) c) m;
          m = cpu_upd (\<lambda>c. set_flag F_HALFCARRY
                ((ucast (R16_SP c AND 0x000F) :: u32) + (temp AND 0x000F) > 0x000F) c) m;
          m = cpu_upd (\<lambda>c. c\<lparr>R16_SP := ucast (((ucast (R16_SP c) :: u32) + temp) AND 0xFFFF)\<rparr>) m
      in GB_CPUClockCounterAdd 12 m)"

definition op_E9 :: "'r machine \<Rightarrow> 'r machine" \<comment> \<open>JP HL\<close> where
  "op_E9 m =
     (let m = cpu_upd (\<lambda>c. c\<lparr>R16_PC := get16 reg_HL c\<rparr>) m
      in GB_CPUClockCounterAdd 4 m)"

definition op_EA :: "'r environment \<Rightarrow> 'r machine \<Rightarrow> 'r machine" \<comment> \<open>LD [nnnn],A\<close> where
  "op_EA env m =
     (let m = GB_CPUClockCounterAdd 4 m;
          (lo, m) = read_PC_inc env m;
          m = GB_CPUClockCounterAdd 4 m;
          (hi, m) = read_PC_inc env m;
          temp = pair16 hi lo;
          m = GB_CPUClockCounterAdd 4 m;
          m = MemWrite8 env temp (R8_A (fst m)) m
      in GB_CPUClockCounterAdd 4 m)"

definition op_EE :: "'r environment \<Rightarrow> 'r machine \<Rightarrow> 'r machine" \<comment> \<open>XOR A,nn\<close> where
  "op_EE env m =
     (let m = GB_CPUClockCounterAdd 4 m;
          m = cpu_upd (AF_and_not (F_SUBTRACT OR F_CARRY OR F_HALFCARRY)) m;
          (v, m) = read_PC_inc env m;
          m = cpu_upd (\<lambda>c. c\<lparr>R8_A := R8_A c XOR v\<rparr>) m;
          m = cpu_upd (\<lambda>c. set_flag F_ZERO (R8_A c = 0) c) m
      in GB_CPUClockCounterAdd 4 m)"

definition op_F0 :: "'r environment \<Rightarrow> 'r machine \<Rightarrow> 'r machine" \<comment> \<open>LD A,[0xFF00+nn]\<close> where
  "op_F0 env m =
     (let m = GB_CPUClockCounterAdd 4 m;
          (v, m) = read_PC_inc env m;
          temp = 0xFF00 + (ucast v :: u32);
          m = GB_CPUClockCounterAdd 4 m;
          (v, m) = MemRead8 env (ucast temp) m;
          m = cpu_upd (\<lambda>c. c\<lparr>R8_A := v\<rparr>) m
      in GB_CPUClockCounterAdd 4 m)"

definition op_F1 :: "'r environment \<Rightarrow> 'r machine \<Rightarrow> 'r machine" \<comment> \<open>POP AF\<close> where
  "op_F1 env m =
     (let m = gb_pop_r16 reg_A reg_F env m
      in cpu_upd (\<lambda>c. c\<lparr>R8_F := R8_F c AND 0xF0\<rparr>) m)"

definition op_F2 :: "'r environment \<Rightarrow> 'r machine \<Rightarrow> 'r machine" \<comment> \<open>LD A,[0xFF00+C]\<close> where
  "op_F2 env m =
     (let m = GB_CPUClockCounterAdd 4 m;
          (v, m) = MemRead8 env (ucast (0xFF00 + (ucast (R8_C (fst m)) :: u32))) m;
          m = cpu_upd (\<lambda>c. c\<lparr>R8_A := v\<rparr>) m
      in GB_CPUClockCounterAdd 4 m)"

definition op_F3 :: "'r machine \<Rightarrow> 'r machine" \<comment> \<open>DI\<close> where
  "op_F3 m =
     (let m = sys_upd (\<lambda>g. g\<lparr>InterruptMasterEnable := 0\<rparr>) m;
          m = sys_upd (\<lambda>g. g\<lparr>interrupts_enable_count := 0\<rparr>) m
      in GB_CPUClockCounterAdd 4 m)"

definition op_F6 :: "'r environment \<Rightarrow> 'r machine \<Rightarrow> 'r machine" \<comment> \<open>OR A,nn\<close> where
  "op_F6 env m =
     (let m = GB_CPUClockCounterAdd 4 m;
          m = cpu_upd (AF_and_not (F_SUBTRACT OR F_CARRY OR F_HALFCARRY)) m;
          (v, m) = read_PC_inc env m;
          m = cpu_upd (\<lambda>c. c\<lparr>R8_A := R8_A c OR v\<rparr>) m;
          m = cpu_upd (\<lambda>c. set_flag F_ZERO (R8_A c = 0) c) m
      in GB_CPUClockCounterAdd 4 m)"

definition op_F8 :: "'r environment \<Rightarrow> 'r machine \<Rightarrow> 'r machine" \<comment> \<open>LD HL,SP+nn\<close> where
  "op_F8 env m =
     (let m = GB_CPUClockCounterAdd 4 m;
          (v, m) = read_PC_inc env m;
          temp = (scast v :: s32);
          res = (ucast (R16_SP (fst m)) :: s32) + temp;
          m = cpu_upd (set16 reg_HL (ucast (res AND 0xFFFF))) m;
          m = cpu_upd (\<lambda>c. c\<lparr>R8_F := 0\<rparr>) m;
          m = cpu_upd (\<lambda>c. set_flag F_CARRY
                (0x00FF <s (ucast (R16_SP c AND 0x00FF) :: s32) + (temp AND 0x00FF)) c) m;
          m = cpu_upd (\<lambda>c. set_flag F_HALFCARRY
                (0x000F <s (ucast (R16_SP c AND 0x000F) :: s32) + (temp AND 0x000F)) c) m
      in GB_CPUClockCounterAdd 8 m)"

definition op_F9 :: "'r machine \<Rightarrow> 'r machine" \<comment> \<open>LD SP,HL\<close> where
  "op_F9 m =
     (let m = cpu_upd (\<lambda>c. c\<lparr>R16_SP := get16 reg_HL c\<rparr>) m
      in GB_CPUClockCounterAdd 8 m)"

definition op_FA :: "'r environment \<Rightarrow> 'r machine \<Rightarrow> 'r machine" \<comment> \<open>LD A,[nnnn]\<close> where
  "op_FA env m =
     (let m = GB_CPUClockCounterAdd 4 m;
          (lo, m) = read_PC_inc env m;
          m = GB_CPUClockCounterAdd 4 m;
          (hi, m) = read_PC_inc env m;
          temp = pair16 hi lo;
          m = GB_CPUClockCounterAdd 4 m;
          (v, m) = MemRead8 env temp m;
          m = cpu_upd (\<lambda>c. c\<lparr>R8_A := v\<rparr>) m
      in GB_CPUClockCounterAdd 4 m)"

definition op_FB :: "'r machine \<Rightarrow> 'r machine" \<comment> \<open>EI\<close> where
  "op_FB m =
     (let m = sys_upd (\<lambda>g. g\<lparr>interrupts_enable_count := 1\<rparr>) m
      in GB_CPUClockCounterAdd 4 m)"

definition op_FE :: "'r environment \<Rightarrow> 'r machine \<Rightarrow> 'r machine" \<comment> \<open>CP A,nn\<close> where
  "op_FE env m =
     (let m = GB_CPUClockCounterAdd 4 m;
          m = cpu_upd (AF_or F_SUBTRACT) m;
          (v, m) = read_PC_inc env m;
          temp = (ucast v :: u32);
          temp2 = (ucast (R8_A (fst m)) :: u32);
          m = cpu_upd (set_flag F_HALFCARRY (temp2 AND 0xF < temp AND 0xF)) m;
          m = cpu_upd (set_flag F_CARRY (temp2 < temp)) m;
          m = cpu_upd (set_flag F_ZERO (temp2 = temp)) m
      in GB_CPUClockCounterAdd 4 m)"

text \<open>
  The switch's \<^verbatim>\<open>default\<close>, which no value of a byte reaches: four clocks and a break to
  the debugger.
\<close>

definition op_default :: "'r machine \<Rightarrow> 'r machine" where
  "op_default m =
     (let m = GB_CPUClockCounterAdd 4 m
      in gb_break_to_debugger m)"

subsection \<open>The CB-prefixed opcodes on the byte at HL\<close>

definition cb_06 :: "'r environment \<Rightarrow> 'r machine \<Rightarrow> 'r machine" \<comment> \<open>RLC [HL]\<close> where
  "cb_06 env m =
     (let m = GB_CPUClockCounterAdd 4 m;
          (v, m) = MemRead8 env (get16 reg_HL (fst m)) m;
          temp = (ucast v :: u32);
          m = GB_CPUClockCounterAdd 4 m;
          m = cpu_upd (AF_and_not (F_SUBTRACT OR F_HALFCARRY)) m;
          m = cpu_upd (set_flag F_CARRY (temp AND 0x80 \<noteq> 0)) m;
          temp = push_bit 1 temp OR F_C (fst m);
          m = cpu_upd (set_flag F_ZERO (temp = 0)) m;
          m = MemWrite8 env (get16 reg_HL (fst m)) (ucast temp) m
      in GB_CPUClockCounterAdd 4 m)"

definition cb_0E :: "'r environment \<Rightarrow> 'r machine \<Rightarrow> 'r machine" \<comment> \<open>RRC [HL]\<close> where
  "cb_0E env m =
     (let m = GB_CPUClockCounterAdd 4 m;
          (v, m) = MemRead8 env (get16 reg_HL (fst m)) m;
          temp = (ucast v :: u32);
          m = GB_CPUClockCounterAdd 4 m;
          m = cpu_upd (AF_and_not (F_SUBTRACT OR F_HALFCARRY)) m;
          m = cpu_upd (set_flag F_CARRY (temp AND 0x01 \<noteq> 0)) m;
          temp = drop_bit 1 temp OR push_bit 7 (F_C (fst m));
          m = cpu_upd (set_flag F_ZERO (temp = 0)) m;
          m = MemWrite8 env (get16 reg_HL (fst m)) (ucast temp) m
      in GB_CPUClockCounterAdd 4 m)"

definition cb_16 :: "'r environment \<Rightarrow> 'r machine \<Rightarrow> 'r machine" \<comment> \<open>RL [HL]\<close> where
  "cb_16 env m =
     (let m = GB_CPUClockCounterAdd 4 m;
          (v, m) = MemRead8 env (get16 reg_HL (fst m)) m;
          temp2 = (ucast v :: u32);
          m = GB_CPUClockCounterAdd 4 m;
          m = cpu_upd (AF_and_not (F_SUBTRACT OR F_HALFCARRY)) m;
          temp = F_C (fst m);
          m = cpu_upd (set_flag F_CARRY (temp2 AND 0x80 \<noteq> 0)) m;
          temp2 = (push_bit 1 temp2 OR temp) AND 0xFF;
          m = cpu_upd (set_flag F_ZERO (temp2 = 0)) m;
          m = MemWrite8 env (get16 reg_HL (fst m)) (ucast temp2) m
      in GB_CPUClockCounterAdd 4 m)"

definition cb_1E :: "'r environment \<Rightarrow> 'r machine \<Rightarrow> 'r machine" \<comment> \<open>RR [HL]\<close> where
  "cb_1E env m =
     (let m = GB_CPUClockCounterAdd 4 m;
          (v, m) = MemRead8 env (get16 reg_HL (fst m)) m;
          temp2 = (ucast v :: u32);
          m = GB_CPUClockCounterAdd 4 m;
          m = cpu_upd (AF_and_not (F_SUBTRACT OR F_HALFCARRY)) m;
          temp = F_C (fst m);
          m = cpu_upd (set_flag F_CARRY (temp2 AND 0x01 \<noteq> 0)) m;
          temp2 = drop_bit 1 temp2 OR push_bit 7 temp;
          m = cpu_upd (set_flag F_ZERO (temp2 = 0)) m;
          m = MemWrite8 env (get16 reg_HL (fst m)) (ucast temp2) m
      in GB_CPUClockCounterAdd 4 m)"

definition cb_26 :: "'r environment \<Rightarrow> 'r machine \<Rightarrow> 'r machine" \<comment> \<open>SLA [HL]\<close> where
  "cb_26 env m =
     (let m = GB_CPUClockCounterAdd 4 m;
          (v, m) = MemRead8 env (get16 reg_HL (fst m)) m;
          temp = (ucast v :: u32);
          m = GB_CPUClockCounterAdd 4 m;
          m = cpu_upd (AF_and_not (F_SUBTRACT OR F_HALFCARRY)) m;
          m = cpu_upd (set_flag F_CARRY (temp AND 0x80 \<noteq> 0)) m;
          temp = push_bit 1 temp AND 0xFF;
          m = cpu_upd (set_flag F_ZERO (temp = 0)) m;
          m = MemWrite8 env (get16 reg_HL (fst m)) (ucast temp) m
      in GB_CPUClockCounterAdd 4 m)"

definition cb_2E :: "'r environment \<Rightarrow> 'r machine \<Rightarrow> 'r machine" \<comment> \<open>SRA [HL]\<close> where
  "cb_2E env m =
     (let m = GB_CPUClockCounterAdd 4 m;
          (v, m) = MemRead8 env (get16 reg_HL (fst m)) m;
          temp = (ucast v :: u32);
          m = GB_CPUClockCounterAdd 4 m;
          m = cpu_upd (AF_and_not (F_SUBTRACT OR F_HALFCARRY)) m;
          m = cpu_upd (set_flag F_CARRY (temp AND 0x01 \<noteq> 0)) m;
          temp = (temp AND 0x80) OR drop_bit 1 temp;
          m = cpu_upd (set_flag F_ZERO (temp = 0)) m;
          m = MemWrite8 env (get16 reg_HL (fst m)) (ucast temp) m
      in GB_CPUClockCounterAdd 4 m)"

definition cb_36 :: "'r environment \<Rightarrow> 'r machine \<Rightarrow> 'r machine" \<comment> \<open>SWAP [HL]\<close> where
  "cb_36 env m =
     (let m = GB_CPUClockCounterAdd 4 m;
          (v, m) = MemRead8 env (get16 reg_HL (fst m)) m;
          temp = (ucast v :: u32);
          m = GB_CPUClockCounterAdd 4 m;
          m = cpu_upd (AF_and_not (F_SUBTRACT OR F_HALFCARRY OR F_CARRY)) m;
          temp = (drop_bit 4 temp OR push_bit 4 temp) AND 0xFF;
          m = MemWrite8 env (get16 reg_HL (fst m)) (ucast temp) m;
          m = cpu_upd (set_flag F_ZERO (temp = 0)) m
      in GB_CPUClockCounterAdd 4 m)"

definition cb_3E :: "'r environment \<Rightarrow> 'r machine \<Rightarrow> 'r machine" \<comment> \<open>SRL [HL]\<close> where
  "cb_3E env m =
     (let m = GB_CPUClockCounterAdd 4 m;
          (v, m) = MemRead8 env (get16 reg_HL (fst m)) m;
          temp = (ucast v :: u32);
          m = GB_CPUClockCounterAdd 4 m;
          m = cpu_upd (AF_and_not (F_SUBTRACT OR F_HALFCARRY)) m;
          m = cpu_upd (set_flag F_CARRY (temp AND 0x01 \<noteq> 0)) m;
          temp = drop_bit 1 temp;
          m = cpu_upd (set_flag F_ZERO (temp = 0)) m;
          m = MemWrite8 env (get16 reg_HL (fst m)) (ucast temp) m
      in GB_CPUClockCounterAdd 4 m)"

text \<open>The \<^verbatim>\<open>default\<close> of the inner switch, unreachable as well.\<close>

definition cb_default :: "'r machine \<Rightarrow> 'r machine" where
  "cb_default m =
     (let m = GB_CPUClockCounterAdd 4 m
      in gb_break_to_debugger m)"

section \<open>cpu.c: the two switches\<close>

text \<open>
  The inner switch of the case 0xCB, as the list of its 256 cases in the order of the
  opcode: the case of opcode \<open>n\<close> is the entry \<open>n\<close>, a step on the machine.
\<close>

definition cb_table :: "'r environment \<Rightarrow> ('r machine \<Rightarrow> 'r machine) list" where
  "cb_table env =
    [
     gb_rlc_r8 reg_B,                    \<comment> \<open>00 RLC B\<close>
     gb_rlc_r8 reg_C,                    \<comment> \<open>01 RLC C\<close>
     gb_rlc_r8 reg_D,                    \<comment> \<open>02 RLC D\<close>
     gb_rlc_r8 reg_E,                    \<comment> \<open>03 RLC E\<close>
     gb_rlc_r8 reg_H,                    \<comment> \<open>04 RLC H\<close>
     gb_rlc_r8 reg_L,                    \<comment> \<open>05 RLC L\<close>
     cb_06 env,                          \<comment> \<open>06 RLC [HL]\<close>
     gb_rlc_r8 reg_A,                    \<comment> \<open>07 RLC A\<close>
     gb_rrc_r8 reg_B,                    \<comment> \<open>08 RRC B\<close>
     gb_rrc_r8 reg_C,                    \<comment> \<open>09 RRC C\<close>
     gb_rrc_r8 reg_D,                    \<comment> \<open>0A RRC D\<close>
     gb_rrc_r8 reg_E,                    \<comment> \<open>0B RRC E\<close>
     gb_rrc_r8 reg_H,                    \<comment> \<open>0C RRC H\<close>
     gb_rrc_r8 reg_L,                    \<comment> \<open>0D RRC L\<close>
     cb_0E env,                          \<comment> \<open>0E RRC [HL]\<close>
     gb_rrc_r8 reg_A,                    \<comment> \<open>0F RRC A\<close>
     gb_rl_r8 reg_B,                     \<comment> \<open>10 RL B\<close>
     gb_rl_r8 reg_C,                     \<comment> \<open>11 RL C\<close>
     gb_rl_r8 reg_D,                     \<comment> \<open>12 RL D\<close>
     gb_rl_r8 reg_E,                     \<comment> \<open>13 RL E\<close>
     gb_rl_r8 reg_H,                     \<comment> \<open>14 RL H\<close>
     gb_rl_r8 reg_L,                     \<comment> \<open>15 RL L\<close>
     cb_16 env,                          \<comment> \<open>16 RL [HL]\<close>
     gb_rl_r8 reg_A,                     \<comment> \<open>17 RL A\<close>
     gb_rr_r8 reg_B,                     \<comment> \<open>18 RR B\<close>
     gb_rr_r8 reg_C,                     \<comment> \<open>19 RR C\<close>
     gb_rr_r8 reg_D,                     \<comment> \<open>1A RR D\<close>
     gb_rr_r8 reg_E,                     \<comment> \<open>1B RR E\<close>
     gb_rr_r8 reg_H,                     \<comment> \<open>1C RR H\<close>
     gb_rr_r8 reg_L,                     \<comment> \<open>1D RR L\<close>
     cb_1E env,                          \<comment> \<open>1E RR [HL]\<close>
     gb_rr_r8 reg_A,                     \<comment> \<open>1F RR A\<close>
     gb_sla_r8 reg_B,                    \<comment> \<open>20 SLA B\<close>
     gb_sla_r8 reg_C,                    \<comment> \<open>21 SLA C\<close>
     gb_sla_r8 reg_D,                    \<comment> \<open>22 SLA D\<close>
     gb_sla_r8 reg_E,                    \<comment> \<open>23 SLA E\<close>
     gb_sla_r8 reg_H,                    \<comment> \<open>24 SLA H\<close>
     gb_sla_r8 reg_L,                    \<comment> \<open>25 SLA L\<close>
     cb_26 env,                          \<comment> \<open>26 SLA [HL]\<close>
     gb_sla_r8 reg_A,                    \<comment> \<open>27 SLA A\<close>
     gb_sra_r8 reg_B,                    \<comment> \<open>28 SRA B\<close>
     gb_sra_r8 reg_C,                    \<comment> \<open>29 SRA C\<close>
     gb_sra_r8 reg_D,                    \<comment> \<open>2A SRA D\<close>
     gb_sra_r8 reg_E,                    \<comment> \<open>2B SRA E\<close>
     gb_sra_r8 reg_H,                    \<comment> \<open>2C SRA H\<close>
     gb_sra_r8 reg_L,                    \<comment> \<open>2D SRA L\<close>
     cb_2E env,                          \<comment> \<open>2E SRA [HL]\<close>
     gb_sra_r8 reg_A,                    \<comment> \<open>2F SRA A\<close>
     gb_swap_r8 reg_B,                   \<comment> \<open>30 SWAP B\<close>
     gb_swap_r8 reg_C,                   \<comment> \<open>31 SWAP C\<close>
     gb_swap_r8 reg_D,                   \<comment> \<open>32 SWAP D\<close>
     gb_swap_r8 reg_E,                   \<comment> \<open>33 SWAP E\<close>
     gb_swap_r8 reg_H,                   \<comment> \<open>34 SWAP H\<close>
     gb_swap_r8 reg_L,                   \<comment> \<open>35 SWAP L\<close>
     cb_36 env,                          \<comment> \<open>36 SWAP [HL]\<close>
     gb_swap_r8 reg_A,                   \<comment> \<open>37 SWAP A\<close>
     gb_srl_r8 reg_B,                    \<comment> \<open>38 SRL B\<close>
     gb_srl_r8 reg_C,                    \<comment> \<open>39 SRL C\<close>
     gb_srl_r8 reg_D,                    \<comment> \<open>3A SRL D\<close>
     gb_srl_r8 reg_E,                    \<comment> \<open>3B SRL E\<close>
     gb_srl_r8 reg_H,                    \<comment> \<open>3C SRL H\<close>
     gb_srl_r8 reg_L,                    \<comment> \<open>3D SRL L\<close>
     cb_3E env,                          \<comment> \<open>3E SRL [HL]\<close>
     gb_srl_r8 reg_A,                    \<comment> \<open>3F SRL A\<close>
     gb_bit_n_r8 0 reg_B,                \<comment> \<open>40 BIT 0,B\<close>
     gb_bit_n_r8 0 reg_C,                \<comment> \<open>41 BIT 0,C\<close>
     gb_bit_n_r8 0 reg_D,                \<comment> \<open>42 BIT 0,D\<close>
     gb_bit_n_r8 0 reg_E,                \<comment> \<open>43 BIT 0,E\<close>
     gb_bit_n_r8 0 reg_H,                \<comment> \<open>44 BIT 0,H\<close>
     gb_bit_n_r8 0 reg_L,                \<comment> \<open>45 BIT 0,L\<close>
     gb_bit_n_ptr_hl 0 env,              \<comment> \<open>46 BIT 0,[HL]\<close>
     gb_bit_n_r8 0 reg_A,                \<comment> \<open>47 BIT 0,A\<close>
     gb_bit_n_r8 1 reg_B,                \<comment> \<open>48 BIT 1,B\<close>
     gb_bit_n_r8 1 reg_C,                \<comment> \<open>49 BIT 1,C\<close>
     gb_bit_n_r8 1 reg_D,                \<comment> \<open>4A BIT 1,D\<close>
     gb_bit_n_r8 1 reg_E,                \<comment> \<open>4B BIT 1,E\<close>
     gb_bit_n_r8 1 reg_H,                \<comment> \<open>4C BIT 1,H\<close>
     gb_bit_n_r8 1 reg_L,                \<comment> \<open>4D BIT 1,L\<close>
     gb_bit_n_ptr_hl 1 env,              \<comment> \<open>4E BIT 1,[HL]\<close>
     gb_bit_n_r8 1 reg_A,                \<comment> \<open>4F BIT 1,A\<close>
     gb_bit_n_r8 2 reg_B,                \<comment> \<open>50 BIT 2,B\<close>
     gb_bit_n_r8 2 reg_C,                \<comment> \<open>51 BIT 2,C\<close>
     gb_bit_n_r8 2 reg_D,                \<comment> \<open>52 BIT 2,D\<close>
     gb_bit_n_r8 2 reg_E,                \<comment> \<open>53 BIT 2,E\<close>
     gb_bit_n_r8 2 reg_H,                \<comment> \<open>54 BIT 2,H\<close>
     gb_bit_n_r8 2 reg_L,                \<comment> \<open>55 BIT 2,L\<close>
     gb_bit_n_ptr_hl 2 env,              \<comment> \<open>56 BIT 2,[HL]\<close>
     gb_bit_n_r8 2 reg_A,                \<comment> \<open>57 BIT 2,A\<close>
     gb_bit_n_r8 3 reg_B,                \<comment> \<open>58 BIT 3,B\<close>
     gb_bit_n_r8 3 reg_C,                \<comment> \<open>59 BIT 3,C\<close>
     gb_bit_n_r8 3 reg_D,                \<comment> \<open>5A BIT 3,D\<close>
     gb_bit_n_r8 3 reg_E,                \<comment> \<open>5B BIT 3,E\<close>
     gb_bit_n_r8 3 reg_H,                \<comment> \<open>5C BIT 3,H\<close>
     gb_bit_n_r8 3 reg_L,                \<comment> \<open>5D BIT 3,L\<close>
     gb_bit_n_ptr_hl 3 env,              \<comment> \<open>5E BIT 3,[HL]\<close>
     gb_bit_n_r8 3 reg_A,                \<comment> \<open>5F BIT 3,A\<close>
     gb_bit_n_r8 4 reg_B,                \<comment> \<open>60 BIT 4,B\<close>
     gb_bit_n_r8 4 reg_C,                \<comment> \<open>61 BIT 4,C\<close>
     gb_bit_n_r8 4 reg_D,                \<comment> \<open>62 BIT 4,D\<close>
     gb_bit_n_r8 4 reg_E,                \<comment> \<open>63 BIT 4,E\<close>
     gb_bit_n_r8 4 reg_H,                \<comment> \<open>64 BIT 4,H\<close>
     gb_bit_n_r8 4 reg_L,                \<comment> \<open>65 BIT 4,L\<close>
     gb_bit_n_ptr_hl 4 env,              \<comment> \<open>66 BIT 4,[HL]\<close>
     gb_bit_n_r8 4 reg_A,                \<comment> \<open>67 BIT 4,A\<close>
     gb_bit_n_r8 5 reg_B,                \<comment> \<open>68 BIT 5,B\<close>
     gb_bit_n_r8 5 reg_C,                \<comment> \<open>69 BIT 5,C\<close>
     gb_bit_n_r8 5 reg_D,                \<comment> \<open>6A BIT 5,D\<close>
     gb_bit_n_r8 5 reg_E,                \<comment> \<open>6B BIT 5,E\<close>
     gb_bit_n_r8 5 reg_H,                \<comment> \<open>6C BIT 5,H\<close>
     gb_bit_n_r8 5 reg_L,                \<comment> \<open>6D BIT 5,L\<close>
     gb_bit_n_ptr_hl 5 env,              \<comment> \<open>6E BIT 5,[HL]\<close>
     gb_bit_n_r8 5 reg_A,                \<comment> \<open>6F BIT 5,A\<close>
     gb_bit_n_r8 6 reg_B,                \<comment> \<open>70 BIT 6,B\<close>
     gb_bit_n_r8 6 reg_C,                \<comment> \<open>71 BIT 6,C\<close>
     gb_bit_n_r8 6 reg_D,                \<comment> \<open>72 BIT 6,D\<close>
     gb_bit_n_r8 6 reg_E,                \<comment> \<open>73 BIT 6,E\<close>
     gb_bit_n_r8 6 reg_H,                \<comment> \<open>74 BIT 6,H\<close>
     gb_bit_n_r8 6 reg_L,                \<comment> \<open>75 BIT 6,L\<close>
     gb_bit_n_ptr_hl 6 env,              \<comment> \<open>76 BIT 6,[HL]\<close>
     gb_bit_n_r8 6 reg_A,                \<comment> \<open>77 BIT 6,A\<close>
     gb_bit_n_r8 7 reg_B,                \<comment> \<open>78 BIT 7,B\<close>
     gb_bit_n_r8 7 reg_C,                \<comment> \<open>79 BIT 7,C\<close>
     gb_bit_n_r8 7 reg_D,                \<comment> \<open>7A BIT 7,D\<close>
     gb_bit_n_r8 7 reg_E,                \<comment> \<open>7B BIT 7,E\<close>
     gb_bit_n_r8 7 reg_H,                \<comment> \<open>7C BIT 7,H\<close>
     gb_bit_n_r8 7 reg_L,                \<comment> \<open>7D BIT 7,L\<close>
     gb_bit_n_ptr_hl 7 env,              \<comment> \<open>7E BIT 7,[HL]\<close>
     gb_bit_n_r8 7 reg_A,                \<comment> \<open>7F BIT 7,A\<close>
     gb_res_n_r8 0 reg_B,                \<comment> \<open>80 RES 0,B\<close>
     gb_res_n_r8 0 reg_C,                \<comment> \<open>81 RES 0,C\<close>
     gb_res_n_r8 0 reg_D,                \<comment> \<open>82 RES 0,D\<close>
     gb_res_n_r8 0 reg_E,                \<comment> \<open>83 RES 0,E\<close>
     gb_res_n_r8 0 reg_H,                \<comment> \<open>84 RES 0,H\<close>
     gb_res_n_r8 0 reg_L,                \<comment> \<open>85 RES 0,L\<close>
     gb_res_n_ptr_hl 0 env,              \<comment> \<open>86 RES 0,[HL]\<close>
     gb_res_n_r8 0 reg_A,                \<comment> \<open>87 RES 0,A\<close>
     gb_res_n_r8 1 reg_B,                \<comment> \<open>88 RES 1,B\<close>
     gb_res_n_r8 1 reg_C,                \<comment> \<open>89 RES 1,C\<close>
     gb_res_n_r8 1 reg_D,                \<comment> \<open>8A RES 1,D\<close>
     gb_res_n_r8 1 reg_E,                \<comment> \<open>8B RES 1,E\<close>
     gb_res_n_r8 1 reg_H,                \<comment> \<open>8C RES 1,H\<close>
     gb_res_n_r8 1 reg_L,                \<comment> \<open>8D RES 1,L\<close>
     gb_res_n_ptr_hl 1 env,              \<comment> \<open>8E RES 1,[HL]\<close>
     gb_res_n_r8 1 reg_A,                \<comment> \<open>8F RES 1,A\<close>
     gb_res_n_r8 2 reg_B,                \<comment> \<open>90 RES 2,B\<close>
     gb_res_n_r8 2 reg_C,                \<comment> \<open>91 RES 2,C\<close>
     gb_res_n_r8 2 reg_D,                \<comment> \<open>92 RES 2,D\<close>
     gb_res_n_r8 2 reg_E,                \<comment> \<open>93 RES 2,E\<close>
     gb_res_n_r8 2 reg_H,                \<comment> \<open>94 RES 2,H\<close>
     gb_res_n_r8 2 reg_L,                \<comment> \<open>95 RES 2,L\<close>
     gb_res_n_ptr_hl 2 env,              \<comment> \<open>96 RES 2,[HL]\<close>
     gb_res_n_r8 2 reg_A,                \<comment> \<open>97 RES 2,A\<close>
     gb_res_n_r8 3 reg_B,                \<comment> \<open>98 RES 3,B\<close>
     gb_res_n_r8 3 reg_C,                \<comment> \<open>99 RES 3,C\<close>
     gb_res_n_r8 3 reg_D,                \<comment> \<open>9A RES 3,D\<close>
     gb_res_n_r8 3 reg_E,                \<comment> \<open>9B RES 3,E\<close>
     gb_res_n_r8 3 reg_H,                \<comment> \<open>9C RES 3,H\<close>
     gb_res_n_r8 3 reg_L,                \<comment> \<open>9D RES 3,L\<close>
     gb_res_n_ptr_hl 3 env,              \<comment> \<open>9E RES 3,[HL]\<close>
     gb_res_n_r8 3 reg_A,                \<comment> \<open>9F RES 3,A\<close>
     gb_res_n_r8 4 reg_B,                \<comment> \<open>A0 RES 4,B\<close>
     gb_res_n_r8 4 reg_C,                \<comment> \<open>A1 RES 4,C\<close>
     gb_res_n_r8 4 reg_D,                \<comment> \<open>A2 RES 4,D\<close>
     gb_res_n_r8 4 reg_E,                \<comment> \<open>A3 RES 4,E\<close>
     gb_res_n_r8 4 reg_H,                \<comment> \<open>A4 RES 4,H\<close>
     gb_res_n_r8 4 reg_L,                \<comment> \<open>A5 RES 4,L\<close>
     gb_res_n_ptr_hl 4 env,              \<comment> \<open>A6 RES 4,[HL]\<close>
     gb_res_n_r8 4 reg_A,                \<comment> \<open>A7 RES 4,A\<close>
     gb_res_n_r8 5 reg_B,                \<comment> \<open>A8 RES 5,B\<close>
     gb_res_n_r8 5 reg_C,                \<comment> \<open>A9 RES 5,C\<close>
     gb_res_n_r8 5 reg_D,                \<comment> \<open>AA RES 5,D\<close>
     gb_res_n_r8 5 reg_E,                \<comment> \<open>AB RES 5,E\<close>
     gb_res_n_r8 5 reg_H,                \<comment> \<open>AC RES 5,H\<close>
     gb_res_n_r8 5 reg_L,                \<comment> \<open>AD RES 5,L\<close>
     gb_res_n_ptr_hl 5 env,              \<comment> \<open>AE RES 5,[HL]\<close>
     gb_res_n_r8 5 reg_A,                \<comment> \<open>AF RES 5,A\<close>
     gb_res_n_r8 6 reg_B,                \<comment> \<open>B0 RES 6,B\<close>
     gb_res_n_r8 6 reg_C,                \<comment> \<open>B1 RES 6,C\<close>
     gb_res_n_r8 6 reg_D,                \<comment> \<open>B2 RES 6,D\<close>
     gb_res_n_r8 6 reg_E,                \<comment> \<open>B3 RES 6,E\<close>
     gb_res_n_r8 6 reg_H,                \<comment> \<open>B4 RES 6,H\<close>
     gb_res_n_r8 6 reg_L,                \<comment> \<open>B5 RES 6,L\<close>
     gb_res_n_ptr_hl 6 env,              \<comment> \<open>B6 RES 6,[HL]\<close>
     gb_res_n_r8 6 reg_A,                \<comment> \<open>B7 RES 6,A\<close>
     gb_res_n_r8 7 reg_B,                \<comment> \<open>B8 RES 7,B\<close>
     gb_res_n_r8 7 reg_C,                \<comment> \<open>B9 RES 7,C\<close>
     gb_res_n_r8 7 reg_D,                \<comment> \<open>BA RES 7,D\<close>
     gb_res_n_r8 7 reg_E,                \<comment> \<open>BB RES 7,E\<close>
     gb_res_n_r8 7 reg_H,                \<comment> \<open>BC RES 7,H\<close>
     gb_res_n_r8 7 reg_L,                \<comment> \<open>BD RES 7,L\<close>
     gb_res_n_ptr_hl 7 env,              \<comment> \<open>BE RES 7,[HL]\<close>
     gb_res_n_r8 7 reg_A,                \<comment> \<open>BF RES 7,A\<close>
     gb_set_n_r8 0 reg_B,                \<comment> \<open>C0 SET 0,B\<close>
     gb_set_n_r8 0 reg_C,                \<comment> \<open>C1 SET 0,C\<close>
     gb_set_n_r8 0 reg_D,                \<comment> \<open>C2 SET 0,D\<close>
     gb_set_n_r8 0 reg_E,                \<comment> \<open>C3 SET 0,E\<close>
     gb_set_n_r8 0 reg_H,                \<comment> \<open>C4 SET 0,H\<close>
     gb_set_n_r8 0 reg_L,                \<comment> \<open>C5 SET 0,L\<close>
     gb_set_n_ptr_hl 0 env,              \<comment> \<open>C6 SET 0,[HL]\<close>
     gb_set_n_r8 0 reg_A,                \<comment> \<open>C7 SET 0,A\<close>
     gb_set_n_r8 1 reg_B,                \<comment> \<open>C8 SET 1,B\<close>
     gb_set_n_r8 1 reg_C,                \<comment> \<open>C9 SET 1,C\<close>
     gb_set_n_r8 1 reg_D,                \<comment> \<open>CA SET 1,D\<close>
     gb_set_n_r8 1 reg_E,                \<comment> \<open>CB SET 1,E\<close>
     gb_set_n_r8 1 reg_H,                \<comment> \<open>CC SET 1,H\<close>
     gb_set_n_r8 1 reg_L,                \<comment> \<open>CD SET 1,L\<close>
     gb_set_n_ptr_hl 1 env,              \<comment> \<open>CE SET 1,[HL]\<close>
     gb_set_n_r8 1 reg_A,                \<comment> \<open>CF SET 1,A\<close>
     gb_set_n_r8 2 reg_B,                \<comment> \<open>D0 SET 2,B\<close>
     gb_set_n_r8 2 reg_C,                \<comment> \<open>D1 SET 2,C\<close>
     gb_set_n_r8 2 reg_D,                \<comment> \<open>D2 SET 2,D\<close>
     gb_set_n_r8 2 reg_E,                \<comment> \<open>D3 SET 2,E\<close>
     gb_set_n_r8 2 reg_H,                \<comment> \<open>D4 SET 2,H\<close>
     gb_set_n_r8 2 reg_L,                \<comment> \<open>D5 SET 2,L\<close>
     gb_set_n_ptr_hl 2 env,              \<comment> \<open>D6 SET 2,[HL]\<close>
     gb_set_n_r8 2 reg_A,                \<comment> \<open>D7 SET 2,A\<close>
     gb_set_n_r8 3 reg_B,                \<comment> \<open>D8 SET 3,B\<close>
     gb_set_n_r8 3 reg_C,                \<comment> \<open>D9 SET 3,C\<close>
     gb_set_n_r8 3 reg_D,                \<comment> \<open>DA SET 3,D\<close>
     gb_set_n_r8 3 reg_E,                \<comment> \<open>DB SET 3,E\<close>
     gb_set_n_r8 3 reg_H,                \<comment> \<open>DC SET 3,H\<close>
     gb_set_n_r8 3 reg_L,                \<comment> \<open>DD SET 3,L\<close>
     gb_set_n_ptr_hl 3 env,              \<comment> \<open>DE SET 3,[HL]\<close>
     gb_set_n_r8 3 reg_A,                \<comment> \<open>DF SET 3,A\<close>
     gb_set_n_r8 4 reg_B,                \<comment> \<open>E0 SET 4,B\<close>
     gb_set_n_r8 4 reg_C,                \<comment> \<open>E1 SET 4,C\<close>
     gb_set_n_r8 4 reg_D,                \<comment> \<open>E2 SET 4,D\<close>
     gb_set_n_r8 4 reg_E,                \<comment> \<open>E3 SET 4,E\<close>
     gb_set_n_r8 4 reg_H,                \<comment> \<open>E4 SET 4,H\<close>
     gb_set_n_r8 4 reg_L,                \<comment> \<open>E5 SET 4,L\<close>
     gb_set_n_ptr_hl 4 env,              \<comment> \<open>E6 SET 4,[HL]\<close>
     gb_set_n_r8 4 reg_A,                \<comment> \<open>E7 SET 4,A\<close>
     gb_set_n_r8 5 reg_B,                \<comment> \<open>E8 SET 5,B\<close>
     gb_set_n_r8 5 reg_C,                \<comment> \<open>E9 SET 5,C\<close>
     gb_set_n_r8 5 reg_D,                \<comment> \<open>EA SET 5,D\<close>
     gb_set_n_r8 5 reg_E,                \<comment> \<open>EB SET 5,E\<close>
     gb_set_n_r8 5 reg_H,                \<comment> \<open>EC SET 5,H\<close>
     gb_set_n_r8 5 reg_L,                \<comment> \<open>ED SET 5,L\<close>
     gb_set_n_ptr_hl 5 env,              \<comment> \<open>EE SET 5,[HL]\<close>
     gb_set_n_r8 5 reg_A,                \<comment> \<open>EF SET 5,A\<close>
     gb_set_n_r8 6 reg_B,                \<comment> \<open>F0 SET 6,B\<close>
     gb_set_n_r8 6 reg_C,                \<comment> \<open>F1 SET 6,C\<close>
     gb_set_n_r8 6 reg_D,                \<comment> \<open>F2 SET 6,D\<close>
     gb_set_n_r8 6 reg_E,                \<comment> \<open>F3 SET 6,E\<close>
     gb_set_n_r8 6 reg_H,                \<comment> \<open>F4 SET 6,H\<close>
     gb_set_n_r8 6 reg_L,                \<comment> \<open>F5 SET 6,L\<close>
     gb_set_n_ptr_hl 6 env,              \<comment> \<open>F6 SET 6,[HL]\<close>
     gb_set_n_r8 6 reg_A,                \<comment> \<open>F7 SET 6,A\<close>
     gb_set_n_r8 7 reg_B,                \<comment> \<open>F8 SET 7,B\<close>
     gb_set_n_r8 7 reg_C,                \<comment> \<open>F9 SET 7,C\<close>
     gb_set_n_r8 7 reg_D,                \<comment> \<open>FA SET 7,D\<close>
     gb_set_n_r8 7 reg_E,                \<comment> \<open>FB SET 7,E\<close>
     gb_set_n_r8 7 reg_H,                \<comment> \<open>FC SET 7,H\<close>
     gb_set_n_r8 7 reg_L,                \<comment> \<open>FD SET 7,L\<close>
     gb_set_n_ptr_hl 7 env,              \<comment> \<open>FE SET 7,[HL]\<close>
     gb_set_n_r8 7 reg_A]"               \<comment> \<open>FF SET 7,A\<close>

definition cb_switch :: "u8 \<Rightarrow> 'r environment \<Rightarrow> 'r machine \<Rightarrow> 'r machine" where
  "cb_switch opcode env m =
     (if unat opcode < length (cb_table env) then (cb_table env ! unat opcode) m
      else cb_default m)"

definition op_CB :: "'r environment \<Rightarrow> 'r machine \<Rightarrow> 'r machine" where
  "op_CB env m =
     (let m = GB_CPUClockCounterAdd 4 m;
          (opcode, m) = read_PC_inc env m
      in cb_switch opcode env m)"

text \<open>The outer switch, in the same way.\<close>

definition opcode_table :: "'r environment \<Rightarrow> ('r machine \<Rightarrow> 'r machine) list" where
  "opcode_table env =
    [
     GB_CPUClockCounterAdd 4,            \<comment> \<open>00 NOP\<close>
     gb_ld_r16_nnnn reg_B reg_C env,     \<comment> \<open>01 LD BC,nnnn\<close>
     gb_ld_ptr_r16_r8 reg_BC reg_A env,  \<comment> \<open>02 LD [BC],A\<close>
     gb_inc_r16 reg_BC,                  \<comment> \<open>03 INC BC\<close>
     gb_inc_r8 reg_B,                    \<comment> \<open>04 INC B\<close>
     gb_dec_r8 reg_B,                    \<comment> \<open>05 DEC B\<close>
     gb_ld_r8_nn reg_B env,              \<comment> \<open>06 LD B,n\<close>
     op_07,                              \<comment> \<open>07 RLCA\<close>
     op_08 env,                          \<comment> \<open>08 LD [nnnn],SP\<close>
     gb_add_hl_r16 reg_BC,               \<comment> \<open>09 ADD HL,BC\<close>
     gb_ld_r8_ptr_r16 reg_A reg_BC env,  \<comment> \<open>0A LD A,[BC]\<close>
     gb_dec_r16 reg_BC,                  \<comment> \<open>0B DEC BC\<close>
     gb_inc_r8 reg_C,                    \<comment> \<open>0C INC C\<close>
     gb_dec_r8 reg_C,                    \<comment> \<open>0D DEC C\<close>
     gb_ld_r8_nn reg_C env,              \<comment> \<open>0E LD C,nn\<close>
     op_0F,                              \<comment> \<open>0F RRCA\<close>
     op_10 env,                          \<comment> \<open>10 STOP\<close>
     gb_ld_r16_nnnn reg_D reg_E env,     \<comment> \<open>11 LD DE,nnnn\<close>
     gb_ld_ptr_r16_r8 reg_DE reg_A env,  \<comment> \<open>12 LD [DE],A\<close>
     gb_inc_r16 reg_DE,                  \<comment> \<open>13 INC DE\<close>
     gb_inc_r8 reg_D,                    \<comment> \<open>14 INC D\<close>
     gb_dec_r8 reg_D,                    \<comment> \<open>15 DEC D\<close>
     gb_ld_r8_nn reg_D env,              \<comment> \<open>16 LD D,nn\<close>
     op_17,                              \<comment> \<open>17 RLA\<close>
     op_18 env,                          \<comment> \<open>18 JR nn\<close>
     gb_add_hl_r16 reg_DE,               \<comment> \<open>19 ADD HL,DE\<close>
     gb_ld_r8_ptr_r16 reg_A reg_DE env,  \<comment> \<open>1A LD A,[DE]\<close>
     gb_dec_r16 reg_DE,                  \<comment> \<open>1B DEC DE\<close>
     gb_inc_r8 reg_E,                    \<comment> \<open>1C INC E\<close>
     gb_dec_r8 reg_E,                    \<comment> \<open>1D DEC E\<close>
     gb_ld_r8_nn reg_E env,              \<comment> \<open>1E LD E,nn\<close>
     op_1F,                              \<comment> \<open>1F RRA\<close>
     gb_jr_cond_nn (\<lambda>c. \<not> flag F_ZERO c) env, \<comment> \<open>20 JR NZ,nn\<close>
     gb_ld_r16_nnnn reg_H reg_L env,     \<comment> \<open>21 LD HL,nnnn\<close>
     op_22 env,                          \<comment> \<open>22 LD [HL+],A\<close>
     gb_inc_r16 reg_HL,                  \<comment> \<open>23 INC HL\<close>
     gb_inc_r8 reg_H,                    \<comment> \<open>24 INC H\<close>
     gb_dec_r8 reg_H,                    \<comment> \<open>25 DEC H\<close>
     gb_ld_r8_nn reg_H env,              \<comment> \<open>26 LD H,nn\<close>
     op_27 env,                          \<comment> \<open>27 DAA\<close>
     gb_jr_cond_nn (flag F_ZERO) env,    \<comment> \<open>28 JR Z,nn\<close>
     op_29,                              \<comment> \<open>29 ADD HL,HL\<close>
     op_2A env,                          \<comment> \<open>2A LD A,[HL+]\<close>
     gb_dec_r16 reg_HL,                  \<comment> \<open>2B DEC HL\<close>
     gb_inc_r8 reg_L,                    \<comment> \<open>2C INC L\<close>
     gb_dec_r8 reg_L,                    \<comment> \<open>2D DEC L\<close>
     gb_ld_r8_nn reg_L env,              \<comment> \<open>2E LD L,nn\<close>
     op_2F,                              \<comment> \<open>2F CPL\<close>
     gb_jr_cond_nn (\<lambda>c. \<not> flag F_CARRY c) env, \<comment> \<open>30 JR NC,nn\<close>
     gb_ld_r16_nnnn reg_SPH reg_SPL env, \<comment> \<open>31 LD SP,nnnn\<close>
     op_32 env,                          \<comment> \<open>32 LD [HL-],A\<close>
     gb_inc_r16 reg_SP,                  \<comment> \<open>33 INC SP\<close>
     op_34 env,                          \<comment> \<open>34 INC [HL]\<close>
     op_35 env,                          \<comment> \<open>35 DEC [HL]\<close>
     op_36 env,                          \<comment> \<open>36 LD [HL],n\<close>
     op_37,                              \<comment> \<open>37 SCF\<close>
     gb_jr_cond_nn (flag F_CARRY) env,   \<comment> \<open>38 JR C,nn\<close>
     gb_add_hl_r16 reg_SP,               \<comment> \<open>39 ADD HL,SP\<close>
     op_3A env,                          \<comment> \<open>3A LD A,[HL-]\<close>
     gb_dec_r16 reg_SP,                  \<comment> \<open>3B DEC SP\<close>
     gb_inc_r8 reg_A,                    \<comment> \<open>3C INC A\<close>
     gb_dec_r8 reg_A,                    \<comment> \<open>3D DEC A\<close>
     gb_ld_r8_nn reg_A env,              \<comment> \<open>3E LD A,n\<close>
     op_3F,                              \<comment> \<open>3F CCF\<close>
     GB_CPUClockCounterAdd 4,            \<comment> \<open>40 LD B,B\<close>
     ld_r8_r8 reg_B reg_C,               \<comment> \<open>41 LD B,C\<close>
     ld_r8_r8 reg_B reg_D,               \<comment> \<open>42 LD B,D\<close>
     ld_r8_r8 reg_B reg_E,               \<comment> \<open>43 LD B,E\<close>
     ld_r8_r8 reg_B reg_H,               \<comment> \<open>44 LD B,H\<close>
     ld_r8_r8 reg_B reg_L,               \<comment> \<open>45 LD B,L\<close>
     gb_ld_r8_ptr_r16 reg_B reg_HL env,  \<comment> \<open>46 LD B,[HL]\<close>
     ld_r8_r8 reg_B reg_A,               \<comment> \<open>47 LD B,A\<close>
     ld_r8_r8 reg_C reg_B,               \<comment> \<open>48 LD C,B\<close>
     GB_CPUClockCounterAdd 4,            \<comment> \<open>49 LD C,C\<close>
     ld_r8_r8 reg_C reg_D,               \<comment> \<open>4A LD C,D\<close>
     ld_r8_r8 reg_C reg_E,               \<comment> \<open>4B LD C,E\<close>
     ld_r8_r8 reg_C reg_H,               \<comment> \<open>4C LD C,H\<close>
     ld_r8_r8 reg_C reg_L,               \<comment> \<open>4D LD C,L\<close>
     gb_ld_r8_ptr_r16 reg_C reg_HL env,  \<comment> \<open>4E LD C,[HL]\<close>
     ld_r8_r8 reg_C reg_A,               \<comment> \<open>4F LD C,A\<close>
     ld_r8_r8 reg_D reg_B,               \<comment> \<open>50 LD D,B\<close>
     ld_r8_r8 reg_D reg_C,               \<comment> \<open>51 LD D,C\<close>
     GB_CPUClockCounterAdd 4,            \<comment> \<open>52 LD D,D\<close>
     ld_r8_r8 reg_D reg_E,               \<comment> \<open>53 LD D,E\<close>
     ld_r8_r8 reg_D reg_H,               \<comment> \<open>54 LD D,H\<close>
     ld_r8_r8 reg_D reg_L,               \<comment> \<open>55 LD D,L\<close>
     gb_ld_r8_ptr_r16 reg_D reg_HL env,  \<comment> \<open>56 LD D,[HL]\<close>
     ld_r8_r8 reg_D reg_A,               \<comment> \<open>57 LD D,A\<close>
     ld_r8_r8 reg_E reg_B,               \<comment> \<open>58 LD E,B\<close>
     ld_r8_r8 reg_E reg_C,               \<comment> \<open>59 LD E,C\<close>
     ld_r8_r8 reg_E reg_D,               \<comment> \<open>5A LD E,D\<close>
     GB_CPUClockCounterAdd 4,            \<comment> \<open>5B LD E,E\<close>
     ld_r8_r8 reg_E reg_H,               \<comment> \<open>5C LD E,H\<close>
     ld_r8_r8 reg_E reg_L,               \<comment> \<open>5D LD E,L\<close>
     gb_ld_r8_ptr_r16 reg_E reg_HL env,  \<comment> \<open>5E LD E,[HL]\<close>
     ld_r8_r8 reg_E reg_A,               \<comment> \<open>5F LD E,A\<close>
     ld_r8_r8 reg_H reg_B,               \<comment> \<open>60 LD H,B\<close>
     ld_r8_r8 reg_H reg_C,               \<comment> \<open>61 LD H,C\<close>
     ld_r8_r8 reg_H reg_D,               \<comment> \<open>62 LD H,D\<close>
     ld_r8_r8 reg_H reg_E,               \<comment> \<open>63 LD H,E\<close>
     GB_CPUClockCounterAdd 4,            \<comment> \<open>64 LD H,H\<close>
     ld_r8_r8 reg_H reg_L,               \<comment> \<open>65 LD H,L\<close>
     gb_ld_r8_ptr_r16 reg_H reg_HL env,  \<comment> \<open>66 LD H,[HL]\<close>
     ld_r8_r8 reg_H reg_A,               \<comment> \<open>67 LD H,A\<close>
     ld_r8_r8 reg_L reg_B,               \<comment> \<open>68 LD L,B\<close>
     ld_r8_r8 reg_L reg_C,               \<comment> \<open>69 LD L,C\<close>
     ld_r8_r8 reg_L reg_D,               \<comment> \<open>6A LD L,D\<close>
     ld_r8_r8 reg_L reg_E,               \<comment> \<open>6B LD L,E\<close>
     ld_r8_r8 reg_L reg_H,               \<comment> \<open>6C LD L,H\<close>
     GB_CPUClockCounterAdd 4,            \<comment> \<open>6D LD L,L\<close>
     gb_ld_r8_ptr_r16 reg_L reg_HL env,  \<comment> \<open>6E LD L,[HL]\<close>
     ld_r8_r8 reg_L reg_A,               \<comment> \<open>6F LD L,A\<close>
     gb_ld_ptr_r16_r8 reg_HL reg_B env,  \<comment> \<open>70 LD [HL],B\<close>
     gb_ld_ptr_r16_r8 reg_HL reg_C env,  \<comment> \<open>71 LD [HL],C\<close>
     gb_ld_ptr_r16_r8 reg_HL reg_D env,  \<comment> \<open>72 LD [HL],D\<close>
     gb_ld_ptr_r16_r8 reg_HL reg_E env,  \<comment> \<open>73 LD [HL],E\<close>
     gb_ld_ptr_r16_r8 reg_HL reg_H env,  \<comment> \<open>74 LD [HL],H\<close>
     gb_ld_ptr_r16_r8 reg_HL reg_L env,  \<comment> \<open>75 LD [HL],L\<close>
     op_76,                              \<comment> \<open>76 HALT\<close>
     gb_ld_ptr_r16_r8 reg_HL reg_A env,  \<comment> \<open>77 LD [HL],A\<close>
     ld_r8_r8 reg_A reg_B,               \<comment> \<open>78 LD A,B\<close>
     ld_r8_r8 reg_A reg_C,               \<comment> \<open>79 LD A,C\<close>
     ld_r8_r8 reg_A reg_D,               \<comment> \<open>7A LD A,D\<close>
     ld_r8_r8 reg_A reg_E,               \<comment> \<open>7B LD A,E\<close>
     ld_r8_r8 reg_A reg_H,               \<comment> \<open>7C LD A,H\<close>
     ld_r8_r8 reg_A reg_L,               \<comment> \<open>7D LD A,L\<close>
     gb_ld_r8_ptr_r16 reg_A reg_HL env,  \<comment> \<open>7E LD A,[HL]\<close>
     GB_CPUClockCounterAdd 4,            \<comment> \<open>7F LD A,A\<close>
     gb_add_a_r8 reg_B,                  \<comment> \<open>80 ADD A,B\<close>
     gb_add_a_r8 reg_C,                  \<comment> \<open>81 ADD A,C\<close>
     gb_add_a_r8 reg_D,                  \<comment> \<open>82 ADD A,D\<close>
     gb_add_a_r8 reg_E,                  \<comment> \<open>83 ADD A,E\<close>
     gb_add_a_r8 reg_H,                  \<comment> \<open>84 ADD A,H\<close>
     gb_add_a_r8 reg_L,                  \<comment> \<open>85 ADD A,L\<close>
     op_86 env,                          \<comment> \<open>86 ADD A,[HL]\<close>
     op_87,                              \<comment> \<open>87 ADD A,A\<close>
     gb_adc_a_r8 reg_B,                  \<comment> \<open>88 ADC A,B\<close>
     gb_adc_a_r8 reg_C,                  \<comment> \<open>89 ADC A,C\<close>
     gb_adc_a_r8 reg_D,                  \<comment> \<open>8A ADC A,D\<close>
     gb_adc_a_r8 reg_E,                  \<comment> \<open>8B ADC A,E\<close>
     gb_adc_a_r8 reg_H,                  \<comment> \<open>8C ADC A,H\<close>
     gb_adc_a_r8 reg_L,                  \<comment> \<open>8D ADC A,L\<close>
     op_8E env,                          \<comment> \<open>8E ADC A,[HL]\<close>
     op_8F,                              \<comment> \<open>8F ADC A,A\<close>
     gb_sub_a_r8 reg_B,                  \<comment> \<open>90 SUB A,B\<close>
     gb_sub_a_r8 reg_C,                  \<comment> \<open>91 SUB A,C\<close>
     gb_sub_a_r8 reg_D,                  \<comment> \<open>92 SUB A,D\<close>
     gb_sub_a_r8 reg_E,                  \<comment> \<open>93 SUB A,E\<close>
     gb_sub_a_r8 reg_H,                  \<comment> \<open>94 SUB A,H\<close>
     gb_sub_a_r8 reg_L,                  \<comment> \<open>95 SUB A,L\<close>
     op_96 env,                          \<comment> \<open>96 SUB A,[HL]\<close>
     op_97,                              \<comment> \<open>97 SUB A,A\<close>
     gb_sbc_a_r8 reg_B,                  \<comment> \<open>98 SBC A,B\<close>
     gb_sbc_a_r8 reg_C,                  \<comment> \<open>99 SBC A,C\<close>
     gb_sbc_a_r8 reg_D,                  \<comment> \<open>9A SBC A,D\<close>
     gb_sbc_a_r8 reg_E,                  \<comment> \<open>9B SBC A,E\<close>
     gb_sbc_a_r8 reg_H,                  \<comment> \<open>9C SBC A,H\<close>
     gb_sbc_a_r8 reg_L,                  \<comment> \<open>9D SBC A,L\<close>
     op_9E env,                          \<comment> \<open>9E SBC A,[HL]\<close>
     op_9F,                              \<comment> \<open>9F SBC A,A\<close>
     gb_and_a_r8 reg_B,                  \<comment> \<open>A0 AND A,B\<close>
     gb_and_a_r8 reg_C,                  \<comment> \<open>A1 AND A,C\<close>
     gb_and_a_r8 reg_D,                  \<comment> \<open>A2 AND A,D\<close>
     gb_and_a_r8 reg_E,                  \<comment> \<open>A3 AND A,E\<close>
     gb_and_a_r8 reg_H,                  \<comment> \<open>A4 AND A,H\<close>
     gb_and_a_r8 reg_L,                  \<comment> \<open>A5 AND A,L\<close>
     op_A6 env,                          \<comment> \<open>A6 AND A,[HL]\<close>
     op_A7,                              \<comment> \<open>A7 AND A,A\<close>
     gb_xor_a_r8 reg_B,                  \<comment> \<open>A8 XOR A,B\<close>
     gb_xor_a_r8 reg_C,                  \<comment> \<open>A9 XOR A,C\<close>
     gb_xor_a_r8 reg_D,                  \<comment> \<open>AA XOR A,D\<close>
     gb_xor_a_r8 reg_E,                  \<comment> \<open>AB XOR A,E\<close>
     gb_xor_a_r8 reg_H,                  \<comment> \<open>AC XOR A,H\<close>
     gb_xor_a_r8 reg_L,                  \<comment> \<open>AD XOR A,L\<close>
     op_AE env,                          \<comment> \<open>AE XOR A,[HL]\<close>
     op_AF,                              \<comment> \<open>AF XOR A,A\<close>
     gb_or_a_r8 reg_B,                   \<comment> \<open>B0 OR A,B\<close>
     gb_or_a_r8 reg_C,                   \<comment> \<open>B1 OR A,C\<close>
     gb_or_a_r8 reg_D,                   \<comment> \<open>B2 OR A,D\<close>
     gb_or_a_r8 reg_E,                   \<comment> \<open>B3 OR A,E\<close>
     gb_or_a_r8 reg_H,                   \<comment> \<open>B4 OR A,H\<close>
     gb_or_a_r8 reg_L,                   \<comment> \<open>B5 OR A,L\<close>
     op_B6 env,                          \<comment> \<open>B6 OR A,[HL]\<close>
     op_B7,                              \<comment> \<open>B7 OR A,A\<close>
     gb_cp_a_r8 reg_B,                   \<comment> \<open>B8 CP A,B\<close>
     gb_cp_a_r8 reg_C,                   \<comment> \<open>B9 CP A,C\<close>
     gb_cp_a_r8 reg_D,                   \<comment> \<open>BA CP A,D\<close>
     gb_cp_a_r8 reg_E,                   \<comment> \<open>BB CP A,E\<close>
     gb_cp_a_r8 reg_H,                   \<comment> \<open>BC CP A,H\<close>
     gb_cp_a_r8 reg_L,                   \<comment> \<open>BD CP A,L\<close>
     op_BE env,                          \<comment> \<open>BE CP A,[HL]\<close>
     op_BF,                              \<comment> \<open>BF CP A,A\<close>
     gb_ret_cond (\<lambda>c. \<not> flag F_ZERO c) env, \<comment> \<open>C0 RET NZ\<close>
     gb_pop_r16 reg_B reg_C env,         \<comment> \<open>C1 POP BC\<close>
     gb_jp_cond_nnnn (\<lambda>c. \<not> flag F_ZERO c) env, \<comment> \<open>C2 JP NZ,nnnn\<close>
     op_C3 env,                          \<comment> \<open>C3 JP nnnn\<close>
     gb_call_cond_nnnn (\<lambda>c. \<not> flag F_ZERO c) env, \<comment> \<open>C4 CALL NZ,nnnn\<close>
     gb_push_r16 reg_B reg_C env,        \<comment> \<open>C5 PUSH BC\<close>
     op_C6 env,                          \<comment> \<open>C6 ADD A,nn\<close>
     gb_rst_nnnn 0x0000 env,             \<comment> \<open>C7 RST 0x0000\<close>
     gb_ret_cond (flag F_ZERO) env,      \<comment> \<open>C8 RET Z\<close>
     op_C9 env,                          \<comment> \<open>C9 RET\<close>
     gb_jp_cond_nnnn (flag F_ZERO) env,  \<comment> \<open>CA JP Z,nnnn\<close>
     op_CB env,                          \<comment> \<open>CB PREFIX CB\<close>
     gb_call_cond_nnnn (flag F_ZERO) env, \<comment> \<open>CC CALL Z,nnnn\<close>
     op_CD env,                          \<comment> \<open>CD CALL nnnn\<close>
     op_CE env,                          \<comment> \<open>CE ADC A,nn\<close>
     gb_rst_nnnn 0x0008 env,             \<comment> \<open>CF RST 0x0008\<close>
     gb_ret_cond (\<lambda>c. \<not> flag F_CARRY c) env, \<comment> \<open>D0 RET NC\<close>
     gb_pop_r16 reg_D reg_E env,         \<comment> \<open>D1 POP DE\<close>
     gb_jp_cond_nnnn (\<lambda>c. \<not> flag F_CARRY c) env, \<comment> \<open>D2 JP NC,nnnn\<close>
     gb_undefined_opcode,                \<comment> \<open>D3 Undefined\<close>
     gb_call_cond_nnnn (\<lambda>c. \<not> flag F_CARRY c) env, \<comment> \<open>D4 CALL NC,nnnn\<close>
     gb_push_r16 reg_D reg_E env,        \<comment> \<open>D5 PUSH DE\<close>
     op_D6 env,                          \<comment> \<open>D6 SUB A,nn\<close>
     gb_rst_nnnn 0x0010 env,             \<comment> \<open>D7 RST 0x0010\<close>
     gb_ret_cond (flag F_CARRY) env,     \<comment> \<open>D8 RET C\<close>
     op_D9 env,                          \<comment> \<open>D9 RETI\<close>
     gb_jp_cond_nnnn (flag F_CARRY) env, \<comment> \<open>DA JP C,nnnn\<close>
     gb_undefined_opcode,                \<comment> \<open>DB Undefined\<close>
     gb_call_cond_nnnn (flag F_CARRY) env, \<comment> \<open>DC CALL C,nnnn\<close>
     gb_undefined_opcode,                \<comment> \<open>DD Undefined\<close>
     op_DE env,                          \<comment> \<open>DE SBC A,nn\<close>
     gb_rst_nnnn 0x0018 env,             \<comment> \<open>DF RST 0x0018\<close>
     op_E0 env,                          \<comment> \<open>E0 LD [0xFF00+nn],A\<close>
     gb_pop_r16 reg_H reg_L env,         \<comment> \<open>E1 POP HL\<close>
     op_E2 env,                          \<comment> \<open>E2 LD [0xFF00+C],A\<close>
     gb_undefined_opcode,                \<comment> \<open>E3 Undefined\<close>
     gb_undefined_opcode,                \<comment> \<open>E4 Undefined\<close>
     gb_push_r16 reg_H reg_L env,        \<comment> \<open>E5 PUSH HL\<close>
     op_E6 env,                          \<comment> \<open>E6 AND A,nn\<close>
     gb_rst_nnnn 0x0020 env,             \<comment> \<open>E7 RST 0x0020\<close>
     op_E8 env,                          \<comment> \<open>E8 ADD SP,nn\<close>
     op_E9,                              \<comment> \<open>E9 JP HL\<close>
     op_EA env,                          \<comment> \<open>EA LD [nnnn],A\<close>
     gb_undefined_opcode,                \<comment> \<open>EB Undefined\<close>
     gb_undefined_opcode,                \<comment> \<open>EC Undefined\<close>
     gb_undefined_opcode,                \<comment> \<open>ED Undefined\<close>
     op_EE env,                          \<comment> \<open>EE XOR A,nn\<close>
     gb_rst_nnnn 0x0028 env,             \<comment> \<open>EF RST 0x0028\<close>
     op_F0 env,                          \<comment> \<open>F0 LD A,[0xFF00+nn]\<close>
     op_F1 env,                          \<comment> \<open>F1 POP AF\<close>
     op_F2 env,                          \<comment> \<open>F2 LD A,[0xFF00+C]\<close>
     op_F3,                              \<comment> \<open>F3 DI\<close>
     gb_undefined_opcode,                \<comment> \<open>F4 Undefined\<close>
     gb_push_r16 reg_A reg_F env,        \<comment> \<open>F5 PUSH AF\<close>
     op_F6 env,                          \<comment> \<open>F6 OR A,nn\<close>
     gb_rst_nnnn 0x0030 env,             \<comment> \<open>F7 RST 0x0030\<close>
     op_F8 env,                          \<comment> \<open>F8 LD HL,SP+nn\<close>
     op_F9,                              \<comment> \<open>F9 LD SP,HL\<close>
     op_FA env,                          \<comment> \<open>FA LD A,[nnnn]\<close>
     op_FB,                              \<comment> \<open>FB EI\<close>
     gb_undefined_opcode,                \<comment> \<open>FC Undefined\<close>
     gb_undefined_opcode,                \<comment> \<open>FD Undefined\<close>
     op_FE env,                          \<comment> \<open>FE CP A,nn\<close>
     gb_rst_nnnn 0x0038 env]"            \<comment> \<open>FF RST 0x0038\<close>

definition opcode_switch :: "u8 \<Rightarrow> 'r environment \<Rightarrow> 'r machine \<Rightarrow> 'r machine" where
  "opcode_switch opcode env m =
     (if unat opcode < length (opcode_table env) then (opcode_table env ! unat opcode) m
      else op_default m)"

section \<open>cpu.c: running the CPU\<close>

text \<open>
  One pass of the loop of \<^verbatim>\<open>GB_CPUExecute\<close> from the EI delay to the end of the switch: the
  pending enable of EI takes effect and asks for a break after this instruction, the
  opcode is fetched, the halt bug undoes the increment of PC once, the opcode is executed.
\<close>

definition fetch_execute :: "'r environment \<Rightarrow> 'r machine \<Rightarrow> 'r machine" where
  "fetch_execute env m =
     (let m = (if interrupts_enable_count (snd m) \<noteq> 0 then
                 (let m = sys_upd (\<lambda>g. g\<lparr>interrupts_enable_count := 0\<rparr>) m;
                      m = sys_upd (\<lambda>g. g\<lparr>InterruptMasterEnable := 1\<rparr>) m
                  in GB_CPUBreakLoop m)
               else m);
          (opcode, m) = read_PC_inc env m;
          m = (if halt_bug (snd m) \<noteq> 0 then
                 (let m = sys_upd (\<lambda>g. g\<lparr>halt_bug := 0\<rparr>) m
                  in cpu_upd (\<lambda>c. c\<lparr>R16_PC := R16_PC c - 1\<rparr>) m)
               else m)
      in opcode_switch opcode env m)"

text \<open>
  The loop of \<^verbatim>\<open>GB_CPUExecute\<close>. It ends when the clock counter has reached
  \<open>finish_clocks\<close>, at a breakpoint, or after an instruction that has left one of the two
  break flags set; a run that never ends has no result.
\<close>

partial_function (option) GB_CPUExecute_loop ::
  "'r environment \<Rightarrow> s32 \<Rightarrow> 'r machine \<Rightarrow> 'r machine option" where
  "GB_CPUExecute_loop env finish_clocks m =
     (if GB_CPUClockCounterGet m <s finish_clocks then
        (if GB_DebugCPUIsBreakpoint env (R16_PC (fst m)) then Some (gb_break_to_debugger m)
         else
           (let m = fetch_execute env m
            in if gb_break_cpu_loop (snd m) \<noteq> 0
               then Some (sys_upd (\<lambda>g. g\<lparr>gb_break_cpu_loop := 0\<rparr>) m)
               else if gb_break_execution (snd m) \<noteq> 0 then Some m
               else GB_CPUExecute_loop env finish_clocks m))
      else Some m)"

declare GB_CPUExecute_loop.simps [code]

definition GB_CPUExecute :: "'r environment \<Rightarrow> s32 \<Rightarrow> 'r machine \<Rightarrow> (s32 \<times> 'r machine) option" where
  "GB_CPUExecute env clocks m =
     (let previous_clocks_counter = GB_CPUClockCounterGet m;
          finish_clocks = GB_CPUClockCounterGet m + clocks
      in map_option (\<lambda>m. (GB_CPUClockCounterGet m - previous_clocks_counter, m))
           (GB_CPUExecute_loop env finish_clocks m))"

text \<open>
  \<^verbatim>\<open>GB_ClockCountersReset\<close>: the counter of the CPU, which is in \<^verbatim>\<open>cpu.c\<close>, and those of the
  other subsystems.
\<close>

definition GB_ClockCountersReset :: "'r environment \<Rightarrow> 'r machine \<Rightarrow> 'r machine" where
  "GB_ClockCountersReset env m =
     (let m = sys_upd (\<lambda>g. g\<lparr>gb_cpu_clock_counter := 0\<rparr>) m
      in sys_upd (reset_subsystem_clock_counters env) m)"

text \<open>
  \<^verbatim>\<open>GB_RunFor\<close>. \<open>run_window\<close> is the body of \<^verbatim>\<open>if (clocks_to_next_event > 0)\<close> up to the
  clocks it has executed: the speed switch, else the DMA, else the interrupt dispatcher,
  else the CPU or, when it is halted, the idle clocks.
\<close>

definition run_window :: "'r environment \<Rightarrow> s32 \<Rightarrow> 'r machine \<Rightarrow> (s32 \<times> 'r machine) option" where
  "run_window env clocks_to_next_event m =
     (if cpu_change_speed_clocks (snd m) \<noteq> 0 then
        (let (executed_clocks, m) =
               (if cpu_change_speed_clocks (snd m) \<le>s clocks_to_next_event
                then (cpu_change_speed_clocks (snd m),
                      sys_upd (\<lambda>g. g\<lparr>cpu_change_speed_clocks := 0, CPUHalt := 0\<rparr>) m)
                else (clocks_to_next_event,
                      sys_upd (\<lambda>g. g\<lparr>cpu_change_speed_clocks :=
                                cpu_change_speed_clocks g - clocks_to_next_event\<rparr>) m))
         in Some (executed_clocks, GB_CPUClockCounterAdd executed_clocks m))
      else
        (let (dma_executed_clocks, m) = GB_DMAExecute env clocks_to_next_event m
         in if dma_executed_clocks = 0 then
              (let (irq_executed_clocks, m) = GB_InterruptsExecute env m
               in if irq_executed_clocks = 0 then
                    (if CPUHalt (snd m) = 0 then GB_CPUExecute env clocks_to_next_event m
                     else Some (clocks_to_next_event, GB_CPUClockCounterAdd clocks_to_next_event m))
                  else Some (irq_executed_clocks, m))
            else Some (dma_executed_clocks, m)))"

definition event_window :: "'r environment \<Rightarrow> 'r gb_system \<Rightarrow> s32" where
  "event_window env g =
     GB_ClocksForNextEvent (GB_TimersGetClocksToNextEvent env g) (GB_PPUGetClocksToNextEvent env g)
       (GB_SerialGetClocksToNextEvent env g) (GB_DMAGetClocksToNextEvent env g)
       (GB_SoundGetClocksToNextEvent env g)"

partial_function (option) GB_RunFor_loop ::
  "'r environment \<Rightarrow> s32 \<Rightarrow> 'r machine \<Rightarrow> (s32 \<times> 'r machine) option" where
  "GB_RunFor_loop env run_for_clocks m =
     (let clocks_to_next_event = event_window env (snd m);
          clocks_to_next_event = min_s32 clocks_to_next_event run_for_clocks
      in case (if 0 <s clocks_to_next_event then run_window env clocks_to_next_event m
               else Some (0, m)) of
           None \<Rightarrow> None
         | Some (executed_clocks, m) \<Rightarrow>
             (let run_for_clocks = run_for_clocks - executed_clocks;
                  m = sys_upd (GB_UpdateCounterToClocks env (GB_CPUClockCounterGet m)) m
              in if run_for_clocks \<le>s 0 \<or> FrameDrawn (snd m) \<noteq> 0 then
                   Some (0, sys_upd (\<lambda>g. g\<lparr>gb_last_residual_clocks := run_for_clocks,
                                              FrameDrawn := 0\<rparr>) m)
                 else if gb_break_execution (snd m) \<noteq> 0 then
                   Some (1, sys_upd (\<lambda>g. g\<lparr>gb_last_residual_clocks := 0\<rparr>) m)
                 else GB_RunFor_loop env run_for_clocks m))"

declare GB_RunFor_loop.simps [code]

definition GB_RunFor :: "'r environment \<Rightarrow> s32 \<Rightarrow> 'r machine \<Rightarrow> (s32 \<times> 'r machine) option" where
  "GB_RunFor env run_for_clocks m =
     (let m = sys_upd (\<lambda>g. g\<lparr>gb_break_execution := 0\<rparr>) m;
          run_for_clocks = run_for_clocks + gb_last_residual_clocks (snd m);
          run_for_clocks = (if run_for_clocks <s 0 then 1 else run_for_clocks);
          m = GB_ClockCountersReset env m
      in GB_RunFor_loop env run_for_clocks m)"

text \<open>
  \<^verbatim>\<open>GB_CPUInit\<close>. With a hardware type outside the seven known ones the registers AF, BC,
  DE and HL keep what they held.
\<close>

definition set_AF :: "u16 \<Rightarrow> gb_cpu \<Rightarrow> gb_cpu" where
  "set_AF v c = c\<lparr>R8_A := hi8 v, R8_F := lo8 v\<rparr>"

definition init_registers :: "u16 \<Rightarrow> u16 \<Rightarrow> u16 \<Rightarrow> u16 \<Rightarrow> gb_cpu \<Rightarrow> gb_cpu" where
  "init_registers af bc de hl c = set16 reg_HL hl (set16 reg_DE de (set16 reg_BC bc (set_AF af c)))"

definition GB_CPUInit :: "'r environment \<Rightarrow> 'r machine \<Rightarrow> 'r machine" where
  "GB_CPUInit env m =
     (let m = GB_ClockCountersReset env m;
          m = sys_upd (\<lambda>g. g\<lparr>gb_break_cpu_loop := 0, gb_last_residual_clocks := 0\<rparr>) m;
          m = sys_upd (\<lambda>g. g\<lparr>CPUHalt := 0, DoubleSpeed := 0, halt_bug := 0,
                              cpu_change_speed_clocks := 0\<rparr>) m;
          m = (if \<not> boot_rom_loaded (snd m) then
                 (let m = cpu_upd (\<lambda>c. c\<lparr>R16_SP := 0xFFFE, R16_PC := 0x0100\<rparr>) m
                  in case HardwareType (snd m) of
                       Some HW_GB \<Rightarrow> cpu_upd (init_registers 0x01B0 0x0013 0x00D8 0x014D) m
                     | Some HW_GBP \<Rightarrow> cpu_upd (init_registers 0xFFB0 0x0013 0x00D8 0x014D) m
                     | Some HW_SGB \<Rightarrow> cpu_upd (init_registers 0x0100 0x0014 0x0000 0xC060) m
                     | Some HW_SGB2 \<Rightarrow> cpu_upd (init_registers 0xFF00 0x0014 0x0000 0xC060) m
                     | Some HW_GBC \<Rightarrow>
                         (if game_supports_gbc (snd m)
                          then cpu_upd (init_registers 0x1180 0x0000 0xFF56 0x000D) m
                          else cpu_upd (init_registers 0x1100 0x0000 0x0008 0x007C) m)
                     | Some HW_GBA \<Rightarrow>
                         (if game_supports_gbc (snd m)
                          then cpu_upd (init_registers 0x1180 0x0100 0xFF56 0x000D) m
                          else cpu_upd (init_registers 0x1100 0x0100 0x0008 0x007C) m)
                     | Some HW_GBA_SP \<Rightarrow>
                         (if game_supports_gbc (snd m)
                          then cpu_upd (init_registers 0x1180 0x0100 0xFF56 0x000D) m
                          else cpu_upd (init_registers 0x1100 0x0100 0x0008 0x007C) m)
                     | None \<Rightarrow> m)
               else
                 (let m = cpu_upd (init_registers 0x0000 0x0000 0x0000 0x0000) m
                  in cpu_upd (\<lambda>c. c\<lparr>R16_PC := 0x0000, R16_SP := 0x0000\<rparr>) m))
      in if CGBEnabled (snd m)
         then sys_upd (\<lambda>g. g\<lparr>IO_Ports := (IO_Ports g)(KEY1_REG - 0xFF00 := 0x7E)\<rparr>) m
         else m)"

section \<open>What the sources leave out, for the examples\<close>

text \<open>
  Modelled from the spec: the contents of \<^verbatim>\<open>gb_daa_table\<close>, whose file \<^verbatim>\<open>daa_table.c\<close> is
  not among the sources. The decimal adjustment of A given the flags N, H and C: after an
  addition 0x06 is added when the low nibble is above 9 or H was set, and 0x60 when A is
  above 0x99 or C was set; after a subtraction 0x06 is subtracted when H was set and 0x60
  when C was set. The flag byte has Z from the result, N as it was, H cleared, and C set
  when 0x60 was applied.
\<close>

definition daa_adjust :: "u8 \<Rightarrow> bool \<Rightarrow> bool \<Rightarrow> bool \<Rightarrow> u8 \<times> u8" where
  "daa_adjust a n h c =
     (let low = (h \<or> (\<not> n \<and> 9 < a AND 0x0F));
          high = (c \<or> (\<not> n \<and> 0x99 < a));
          d = (if low then 0x06 else 0) + (if high then 0x60 else 0);
          r = (if n then a - d else a + d)
      in (r, (if r = 0 then F_ZERO else 0) OR (if n then F_SUBTRACT else 0)
              OR (if high then F_CARRY else 0)))"

text \<open>
  The table made of it, in the layout that the DAA opcode reads: the entry of A and the
  three flags is at the byte index \<open>16 * A + 8 * N + 4 * H + 2 * C\<close>, the adjusted A first
  and the flag byte second.
\<close>

definition spec_daa_table :: "nat \<Rightarrow> u8" where
  "spec_daa_table i =
     (let e = i div 2;
          (r, f) = daa_adjust (of_nat (e div 8)) (odd (e div 4)) (odd (e div 2)) (odd e)
      in if even i then r else f)"

text \<open>
  Modelled from the spec: \<^verbatim>\<open>GB_InterruptsExecute\<close> of \<^verbatim>\<open>interrupts.c\<close>, which is not
  among the sources. With IME set and a bit of \<open>IF AND IE AND 0x1F\<close> set, the lowest such
  bit is dispatched: PC is pushed, PC becomes 0x40 plus 8 times the bit, the bit of IF
  and IME are cleared, the halt ends, and 20 clocks are used. With IME clear and a
  pending bit, a halt ends without a dispatch. Otherwise nothing happens. The result is
  the clocks used. The bus write is the one of the environment.
\<close>

definition lowest_pending :: "u8 \<Rightarrow> nat" where
  "lowest_pending p =
     (if bit p 0 then 0 else if bit p 1 then 1 else if bit p 2 then 2 else if bit p 3 then 3 else 4)"

definition spec_InterruptsExecute ::
  "('r gb_system \<Rightarrow> u16 \<Rightarrow> u8 \<Rightarrow> 'r gb_system) \<Rightarrow> 'r machine \<Rightarrow> s32 \<times> 'r machine" where
  "spec_InterruptsExecute write m =
     (let pending = IO_Ports (snd m) (IF_REG - 0xFF00) AND HighRAM (snd m) (IE_REG - 0xFF80)
                      AND 0x1F
      in if pending = 0 then (0, m)
         else if InterruptMasterEnable (snd m) = 0 then
           (0, sys_upd (\<lambda>g. g\<lparr>CPUHalt := (if CPUHalt g = 1 then 0 else CPUHalt g)\<rparr>) m)
         else
           (let n = lowest_pending pending;
                m = sys_upd (\<lambda>g. g\<lparr>CPUHalt := (if CPUHalt g = 1 then 0 else CPUHalt g)\<rparr>) m;
                m = cpu_upd (\<lambda>c. c\<lparr>R16_SP := R16_SP c - 1\<rparr>) m;
                m = sys_upd (\<lambda>g. write g (R16_SP (fst m)) (PCH (fst m))) m;
                m = cpu_upd (\<lambda>c. c\<lparr>R16_SP := R16_SP c - 1\<rparr>) m;
                m = sys_upd (\<lambda>g. write g (R16_SP (fst m)) (PCL (fst m))) m;
                m = cpu_upd (\<lambda>c. c\<lparr>R16_PC := 0x40 + 8 * of_nat n\<rparr>) m;
                m = sys_upd (\<lambda>g. g\<lparr>IO_Ports := (IO_Ports g)
                       (IF_REG - 0xFF00 := IO_Ports g (IF_REG - 0xFF00) AND NOT (push_bit n 1)),
                       InterruptMasterEnable := 0\<rparr>) m
            in (20, GB_CPUClockCounterAdd 20 m)))"

text \<open>
  An environment to run examples in: a flat memory of 64 KiB in the field \<open>other\<close>, with IF
  and IE at their addresses FF0F and FFFF, no breakpoint, no DMA, no event of another
  subsystem ahead, the table and the dispatcher modelled above.
\<close>

definition flat_read :: "(u16 \<Rightarrow> u8) gb_system \<Rightarrow> u16 \<Rightarrow> u8 \<times> (u16 \<Rightarrow> u8) gb_system" where
  "flat_read g a =
     (if a = 0xFF0F then IO_Ports g (IF_REG - 0xFF00)
      else if a = 0xFFFF then HighRAM g (IE_REG - 0xFF80)
      else other g a, g)"

definition flat_write :: "(u16 \<Rightarrow> u8) gb_system \<Rightarrow> u16 \<Rightarrow> u8 \<Rightarrow> (u16 \<Rightarrow> u8) gb_system" where
  "flat_write g a v =
     (if a = 0xFF0F then g\<lparr>IO_Ports := (IO_Ports g)(IF_REG - 0xFF00 := v)\<rparr>
      else if a = 0xFFFF then g\<lparr>HighRAM := (HighRAM g)(IE_REG - 0xFF80 := v)\<rparr>
      else g\<lparr>other := (other g)(a := v)\<rparr>)"

definition flat_env :: "(u16 \<Rightarrow> u8) environment" where
  "flat_env = \<lparr>GB_MemRead8 = flat_read, GB_MemWrite8 = flat_write,
     gb_daa_table = spec_daa_table, GB_DebugCPUIsBreakpoint = (\<lambda>_. False),
     GB_TimersGetClocksToNextEvent = (\<lambda>_. 0x7FFFFFFF),
     GB_PPUGetClocksToNextEvent = (\<lambda>_. 0x7FFFFFFF),
     GB_SerialGetClocksToNextEvent = (\<lambda>_. 0x7FFFFFFF),
     GB_DMAGetClocksToNextEvent = (\<lambda>_. 0x7FFFFFFF),
     GB_SoundGetClocksToNextEvent = (\<lambda>_. 0x7FFFFFFF),
     GB_DMAExecute = (\<lambda>clocks m. (0, m)),
     GB_InterruptsExecute = spec_InterruptsExecute flat_write,
     GB_UpdateCounterToClocks = (\<lambda>clocks g. g),
     reset_subsystem_clock_counters = (\<lambda>g. g)\<rparr>"

text \<open>
  A machine on that memory: registers zero but for SP = FFFE and PC = 0100, interrupts
  disabled, nothing pending, not halted, with the given bytes from 0100 on and zero
  everywhere else.
\<close>

definition program_at :: "u16 \<Rightarrow> u8 list \<Rightarrow> u16 \<Rightarrow> u8" where
  "program_at base bytes a =
     (if unat (a - base) < length bytes then bytes ! unat (a - base) else 0)"

definition flat_machine :: "u8 list \<Rightarrow> (u16 \<Rightarrow> u8) machine" where
  "flat_machine bytes =
     (\<lparr>R8_A = 0, R8_F = 0, R8_B = 0, R8_C = 0, R8_D = 0, R8_E = 0, R8_H = 0, R8_L = 0,
       R16_SP = 0xFFFE, R16_PC = 0x0100\<rparr>,
      \<lparr>showconsole = False, console = [], game_supports_gbc = False,
       HardwareType = Some HW_GB, CGBEnabled = False, SGBEnabled = False,
       enable_boot_rom = False, boot_rom_loaded = False, HasBattery = False, HasTimer = False,
       EnableBank0Switch = False, MemoryController = MEM_NONE, RAM_Banks = 0, ROM_Banks = 2,
       Rom_Pointer = None, IO_Ports = (\<lambda>_. 0), HighRAM = (\<lambda>_. 0),
       InterruptMasterEnable = 0, interrupts_enable_count = 0, lcd_on = 0, stat_signal = 0,
       ScreenMode = 0, FrameDrawn = 0, CPUHalt = 0, halt_bug = 0, DoubleSpeed = 0,
       cpu_change_speed_clocks = 0, gb_cpu_clock_counter = 0, gb_break_cpu_loop = 0,
       gb_break_execution = 0, gb_last_residual_clocks = 0,
       other = program_at 0x0100 bytes\<rparr>)"

text \<open>The same machine with the V-Blank interrupt enabled in IE and latched in IF.\<close>

definition vblank_pending :: "'r machine \<Rightarrow> 'r machine" where
  "vblank_pending m =
     sys_upd (\<lambda>g. g\<lparr>IO_Ports := (IO_Ports g)(IF_REG - 0xFF00 := 0x01),
                     HighRAM := (HighRAM g)(IE_REG - 0xFF80 := 0x01)\<rparr>) m"

text \<open>A machine with the V-Blank interrupt enabled in IE, and one with IME set.\<close>

definition vblank_enabled :: "'r machine \<Rightarrow> 'r machine" where
  "vblank_enabled m =
     sys_upd (\<lambda>g. g\<lparr>HighRAM := (HighRAM g)(IE_REG - 0xFF80 := 0x01)\<rparr>) m"

definition interrupts_on :: "'r machine \<Rightarrow> 'r machine" where
  "interrupts_on m = sys_upd (\<lambda>g. g\<lparr>InterruptMasterEnable := 1\<rparr>) m"

section \<open>Properties of a step\<close>

text \<open>The low four bits of F are zero; a step on the machine keeps them so.\<close>

definition F_low_zero :: "gb_cpu \<Rightarrow> bool" where
  "F_low_zero c \<longleftrightarrow> R8_F c AND 0x0F = 0"

definition keeps_F :: "('r machine \<Rightarrow> 'r machine) \<Rightarrow> bool" where
  "keeps_F f \<longleftrightarrow> (\<forall>m. F_low_zero (fst m) \<longrightarrow> F_low_zero (fst (f m)))"

text \<open>The flag bytes of the table, at the odd indices, have their low four bits zero.\<close>

definition daa_flags_high :: "(nat \<Rightarrow> u8) \<Rightarrow> bool" where
  "daa_flags_high t \<longleftrightarrow> (\<forall>i < gb_daa_table_size div 2. t (2 * i + 1) AND 0x0F = 0)"



definition bus_keeps_break :: "'r environment \<Rightarrow> bool" where
  "bus_keeps_break env \<longleftrightarrow>
     (\<forall>g a v. gb_break_cpu_loop g \<noteq> 0 \<longrightarrow>
        gb_break_cpu_loop (snd (GB_MemRead8 env g a)) \<noteq> 0
        \<and> gb_break_cpu_loop (GB_MemWrite8 env g a v) \<noteq> 0)"

text \<open>
  The DMA engine and the interrupt dispatcher, which are not among the sources, leave the
  low four bits of F zero.
\<close>

definition peripherals_keep_F :: "'r environment \<Rightarrow> bool" where
  "peripherals_keep_F env \<longleftrightarrow>
     (\<forall>n m. F_low_zero (fst m) \<longrightarrow>
        F_low_zero (fst (snd (GB_DMAExecute env n m)))
        \<and> F_low_zero (fst (snd (GB_InterruptsExecute env m))))"

section \<open>Theorems: the scheduling window\<close>

lemma min_s32_sint: "sint (min_s32 a b) = min (sint a) (sint b)"
  by (auto simp: min_s32_def word_sless_alt)

lemma bit_int_4: "bit (4::int) n \<longleftrightarrow> n = 2"
proof -
  have "(4::int) = push_bit 2 1" by simp
  then show ?thesis by (simp only: bit_push_bit_iff bit_1_iff) auto
qed

lemma bit_int_3: "bit (3::int) n \<longleftrightarrow> n < 2"
proof -
  have "(3::int) = mask 2" by (simp add: mask_eq_exp_minus_1)
  then show ?thesis by (simp only: bit_mask_iff) simp
qed

lemma bit_int_minus_4: "bit (- 4::int) n \<longleftrightarrow> 2 \<le> n"
proof -
  have "(- 4::int) = NOT 3" by simp
  then show ?thesis by (simp only: bit_not_iff bit_int_3) auto
qed

text \<open>Setting bit 2 and clearing bits 0 and 1 keeps the bits from 3 upwards.\<close>

lemma int_window: "((x::int) OR 4) AND NOT 3 = 8 * (x div 8) + 4"
proof -
  have a: "8 * (x div 8) = push_bit 3 (drop_bit 3 x)"
    by (simp add: push_bit_eq_mult drop_bit_eq_div)
  have d: "push_bit 3 (drop_bit 3 x) AND (4::int) = 0"
    by (rule bit_eqI) (simp add: bit_and_iff bit_push_bit_iff bit_int_4)
  have b: "push_bit 3 (drop_bit 3 x) + 4 = push_bit 3 (drop_bit 3 x) OR (4::int)"
    using d by (simp add: disjunctive_add_eq_or)
  have c: "(x OR 4) AND NOT 3 = push_bit 3 (drop_bit 3 x) OR (4::int)"
    by (rule bit_eqI)
       (auto simp add: bit_and_iff bit_or_iff bit_not_iff bit_push_bit_iff bit_drop_bit_eq
          bit_int_4 bit_int_minus_4)
  show ?thesis by (simp only: a b c)
qed

lemma sint_window: "sint ((m OR 4) AND - 4 :: 32 word) = 8 * (sint m div 8) + 4"
proof -
  have "sint ((m OR 4) AND NOT 3 :: 32 word) = (sint m OR 4) AND NOT 3"
    by (simp add: signed_and_eq signed_or_eq signed_not_eq)
  then have "sint ((m OR 4) AND NOT 3 :: 32 word) = 8 * (sint m div 8) + 4"
    by (simp only: int_window)
  then show ?thesis by simp
qed

lemma window_closed_form:
  "sint (GB_ClocksForNextEvent t p s d a) =
     8 * (min5 (sint t) (sint p) (sint s) (sint d) (sint a) div 8) + 4"
proof -
  have "min_s32 (min_s32 (min_s32 (min_s32 (min_s32 t p) s) d) a) a =
        min_s32 (min_s32 (min_s32 (min_s32 t p) s) d) a"
    by (simp add: min_s32_def)
  then show ?thesis
    by (simp add: GB_ClocksForNextEvent_def Let_def sint_window min_s32_sint min5_def min.assoc)
qed

lemma window_vs_align_up4:
  "(8 * (m div 8) + 4 = align_up4 m) \<longleftrightarrow> (1 \<le> m mod 8 \<and> m mod 8 \<le> 4)"
  unfolding align_up4_def by presburger

text \<open>
  C3, as stated: the window is the least multiple of 4 at or above the minimum of the five
  distances. With every subsystem 8 clocks from its next event the code answers 12, and the
  least multiple of 4 at or above 8 is 8.
\<close>

theorem C3_window_not_aligned_up:
  "sint (GB_ClocksForNextEvent 8 8 8 8 8) = 12 \<and> align_up4 (min5 8 8 8 8 8) = 8"
  by (simp add: GB_ClocksForNextEvent_def min_s32_def align_up4_def min5_def)

text \<open>
  C3, amended: the window is the minimum \<open>m\<close> of the five distances with bit 2 set and
  bits 0 and 1 cleared, that is \<open>8 * (m div 8) + 4\<close>. It is a multiple of 4, it is above
  \<open>m - 4\<close> and at most \<open>m + 4\<close>, and it is the least multiple of 4 at or above \<open>m\<close>
  exactly when \<open>m mod 8\<close> is 1, 2, 3 or 4.
\<close>

theorem C3_window_sets_bit2:
  fixes t p s d a :: s32
  defines "m \<equiv> min5 (sint t) (sint p) (sint s) (sint d) (sint a)"
  defines "w \<equiv> sint (GB_ClocksForNextEvent t p s d a)"
  shows "w = 8 * (m div 8) + 4 \<and> w mod 4 = 0 \<and> m - 4 < w \<and> w \<le> m + 4
         \<and> ((w = align_up4 m) \<longleftrightarrow> (1 \<le> m mod 8 \<and> m mod 8 \<le> 4))"
proof -
  have w: "w = 8 * (m div 8) + 4"
    unfolding w_def m_def by (rule window_closed_form)
  have "w mod 4 = 0" "m - 4 < w" "w \<le> m + 4"
    unfolding w by presburger+
  moreover have "(w = align_up4 m) \<longleftrightarrow> (1 \<le> m mod 8 \<and> m mod 8 \<le> 4)"
    unfolding w by (rule window_vs_align_up4)
  ultimately show ?thesis using w by blast
qed

section \<open>Theorems: loading a cartridge\<close>

lemma header_sum_loop_closed:
  "header_sum_loop p s xs = s - word_of_int (\<Sum>x\<leftarrow>xs. uint (p ! x)) - word_of_nat (length xs)"
  unfolding header_sum_loop_def
proof (induction xs arbitrary: s)
  case Nil
  then show ?case by simp
next
  case (Cons x xs)
  have "(ucast (p ! x) :: u32) = word_of_int (uint (p ! x))"
    by simp
  then show ?case by (simp add: Cons.IH)
qed

lemma uint_and_FF: "uint ((word_of_int k :: u32) AND 0xFF) = k mod 256"
proof -
  have "(0xFF :: u32) = mask 8" by (simp add: mask_eq_exp_minus_1)
  then have "uint ((word_of_int k :: u32) AND 0xFF) = take_bit 8 (uint (word_of_int k :: u32))"
    by (simp only: unsigned_take_bit_eq flip: take_bit_eq_mask)
  also have "\<dots> = take_bit 8 k"
    by (simp add: uint_word_of_int_eq)
  finally show ?thesis by (simp add: take_bit_eq_mod)
qed

lemma header_sum_spec: "uint (header_sum p) = spec_header_checksum p"
proof -
  have l: "length [0x134 ..< 0x14D::nat] = 0x19" by simp
  have s: "(\<Sum>x\<leftarrow>[0x134 ..< 0x14D]. uint (p ! x)) = (\<Sum>i = 0x134..0x14C. uint (p ! i))"
  proof -
    have "{0x134..0x14C::nat} = {0x134..<0x14D}" by auto
    then show ?thesis by (simp only: interv_sum_list_conv_sum_set_nat set_upt)
  qed
  have "header_sum p = word_of_int (- (\<Sum>i = 0x134..0x14C. uint (p ! i)) - 0x19) AND 0xFF"
    unfolding header_sum_def header_sum_loop_closed l s by simp
  then show ?thesis by (simp only: uint_and_FF spec_header_checksum_def)
qed

lemma rom_sizes_values:
  "map_of rom_sizes c = Some b \<Longrightarrow> b \<in> {2, 4, 8, 16, 32, 64, 128, 256, 512}"
  by (auto simp: rom_sizes_def split: if_splits)

lemma rom_banks_bytes:
  assumes "map_of rom_sizes c = Some b"
  shows "unat (b * 16 * 1024) = unat b * 16 * 1024"
  using rom_sizes_values [OF assms] by auto

lemma console_request_console [simp]: "console (request_console cfg s) = console s"
  by (simp add: request_console_def)

lemma ROM_Banks_request_console [simp]: "ROM_Banks (request_console cfg s) = ROM_Banks s"
  by (simp add: request_console_def)

lemma console_ConsolePrint [simp]: "console (ConsolePrint l s) = console s @ [l]"
  by (simp add: ConsolePrint_def)

lemma ROM_Banks_ConsolePrint [simp]: "ROM_Banks (ConsolePrint l s) = ROM_Banks s"
  by (simp add: ConsolePrint_def)

lemma check_file_size_go_on:
  "fst (check_file_size cfg rs s) \<longleftrightarrow> \<not> rs < ROM_Banks s * 16 * 1024"
  by (auto simp: check_file_size_def Let_def)

lemma check_file_size_ROM_Banks [simp]:
  "ROM_Banks (snd (check_file_size cfg rs s)) = ROM_Banks s"
  by (simp add: check_file_size_def Let_def)

lemma check_file_size_console:
  "console (snd (check_file_size cfg rs s)) =
     console s
     @ (if rs \<noteq> ROM_Banks s * 16 * 1024 then [ROM_file_size_incorrect rs (ROM_Banks s * 16)] else [])
     @ (if rs < ROM_Banks s * 16 * 1024 then [File_smaller_aborting] else [])"
  by (auto simp: check_file_size_def Let_def)

lemma check_header_sum_console:
  "console (check_header_sum cfg p s) =
     console s @ [Header_checksum_line (header_checksum p) (header_sum p)]
     @ (if ucast (header_checksum p) \<noteq> header_sum p then [Header_checksum_incorrect] else [])"
  by (simp add: check_header_sum_def Let_def)

lemma check_header_sum_ROM_Banks [simp]: "ROM_Banks (check_header_sum cfg p s) = ROM_Banks s"
  by (simp add: check_header_sum_def Let_def)

lemma check_global_sum_console:
  "console (check_global_sum cfg p s) =
     console s
     @ [Global_checksum_line (global_checksum p) (global_sum p (unat (ROM_Banks s * 16 * 1024)))]
     @ (if ucast (global_checksum p) \<noteq> global_sum p (unat (ROM_Banks s * 16 * 1024))
        then [Global_checksum_incorrect] else [])"
  by (simp add: check_global_sum_def Let_def)

lemma check_logo_console:
  "console (check_logo cfg p s) =
     console s @ [if nintendologo p = gb_nintendo_logo then Logo_correct else Logo_incorrect]"
  by (simp add: check_logo_def)

lemma select_hardware_defined:
  "hardware_type cfg \<noteq> Force_undefined \<Longrightarrow> \<exists>h. select_hardware cfg en = Some h"
  by (cases en; cases "hardware_type cfg") (auto simp: select_hardware_def)

lemma console_detect_models:
  "set (console (snd (detect_models cfg p s))) =
     set (console s)
     \<union> (if cgb_flag p AND 0x80 \<noteq> 0 \<and> cgb_flag p \<noteq> 0xC0 \<and> cgb_flag p \<noteq> 0x80
        then {Unknown_GBC_flag} else {})"
  by (auto simp: detect_models_def Let_def)

lemma console_set_model_flags [simp]: "console (set_model_flags h s) = console s"
  by (simp add: set_model_flags_def)

lemma console_load_boot_rom:
  "set (console (load_boot_rom cfg s)) =
     set (console s)
     \<union> (if load_from_boot_rom cfg \<and> boot_rom_file_loads cfg then {Boot_ROM_loaded} else {})"
  by (auto simp: load_boot_rom_def Let_def)

lemma load_supported:
  assumes len: "0x150 \<le> length p" and sz: "unat rs = length p"
    and sup: "header_supported cfg p" and d: "declared_size p = Some d"
  shows "\<exists>s. GB_CartridgeLoad cfg e0 p rs = Some (if length p < d then 0 else 1, s)
           \<and> (File_smaller_aborting \<in> set (console s) \<longleftrightarrow> length p < d)
           \<and> ((\<exists>kb. ROM_file_size_incorrect rs kb \<in> set (console s)) \<longleftrightarrow> length p \<noteq> d)
           \<and> (Header_checksum_incorrect \<in> set (console s) \<longleftrightarrow>
                d \<le> length p \<and> ucast (header_checksum p) \<noteq> header_sum p)"
proof -
  from sup obtain h where hw: "select_hardware cfg (fst (detect_models cfg p (e0\<lparr>showconsole := False, console := []\<rparr>))) = Some h"
    using select_hardware_defined unfolding header_supported_def by blast
  from sup obtain mc b t k where ct: "map_of cartridge_types (cartridge_type p) = Some (mc, b, t, k)"
    unfolding header_supported_def by auto
  from sup obtain rb where ram: "map_of ram_sizes (ram_size_code p) = Some rb"
    unfolding header_supported_def by auto
  from d obtain banks where rom: "map_of rom_sizes (rom_size_code p) = Some banks"
    and dd: "d = unat banks * 16 * 1024"
    unfolding declared_size_def by auto
  have bytes: "unat (banks * 16 * 1024) = d"
    using rom_banks_bytes [OF rom] dd by simp
  have lt: "rs < banks * 16 * 1024 \<longleftrightarrow> length p < d"
    using bytes sz by (simp add: word_less_nat_alt)
  have ne: "rs = banks * 16 * 1024 \<longleftrightarrow> length p = d"
    using bytes sz by (metis word_unat_eq_iff)
  show ?thesis
    unfolding GB_CartridgeLoad_def
    using len hw ct ram rom ne lt bytes
    by (auto simp add: Let_def split_beta check_file_size_go_on check_file_size_console
         check_logo_console check_global_sum_console check_header_sum_console
         console_detect_models console_load_boot_rom)
qed

lemma load_unsupported:
  assumes len: "0x150 \<le> length p" and sup: "\<not> header_supported cfg p"
  shows "\<exists>s. GB_CartridgeLoad cfg e0 p rs = Some (0, s)"
proof (cases "select_hardware cfg (fst (detect_models cfg p (e0\<lparr>showconsole := False, console := []\<rparr>)))")
  case None
  then show ?thesis
    unfolding GB_CartridgeLoad_def using len by (simp add: Let_def split_beta)
next
  case (Some h)
  then have "hardware_type cfg \<noteq> Force_undefined"
    by (auto simp: select_hardware_def split: prod.splits)
  with sup have "map_of cartridge_types (cartridge_type p) = None
     \<or> map_of ram_sizes (ram_size_code p) = None
     \<or> map_of rom_sizes (rom_size_code p) = None"
    unfolding header_supported_def by blast
  then show ?thesis
    unfolding GB_CartridgeLoad_def using len Some
    by (auto simp add: Let_def split_beta split: option.splits)
qed

lemma header_fields_update:
  assumes "i = 0x14D"
  shows "header_supported cfg (p[i := v]) = header_supported cfg p"
    and "declared_size (p[i := v]) = declared_size p"
  using assms
  by (simp_all add: header_supported_def declared_size_def cartridge_type_def ram_size_code_def
      rom_size_code_def)

lemma load_return_value:
  assumes len: "0x150 \<le> length p" and sz: "unat rs = length p"
  shows "map_option fst (GB_CartridgeLoad cfg e0 p rs) =
     Some (if header_supported cfg p \<and> (\<exists>d. declared_size p = Some d \<and> d \<le> length p) then 1 else 0)"
proof (cases "header_supported cfg p")
  case False
  then show ?thesis using load_unsupported [OF len False, of e0 rs] by auto
next
  case True
  then obtain d where d: "declared_size p = Some d"
    unfolding header_supported_def declared_size_def by auto
  show ?thesis using load_supported [OF len sz True d, of e0] True d by auto
qed

text \<open>
  C7: the header checksum the loader computes is \<open>(- \<Sum> bytes[0x134..0x14C] - 0x19) mod 256\<close>.
  It is compared with the header's checksum byte, and a mismatch is only reported: an image
  with a supported header that is not shorter than declared loads (the loader returns 1)
  whether the two agree or not, the line about the incorrect checksum being printed exactly
  when they differ; and the value returned is the same whatever the checksum byte at 0x14D is.
\<close>

theorem C7_header_checksum_mismatch_not_fatal:
  assumes len: "0x150 \<le> length p" and sz: "unat rom_size = length p"
  shows "uint (header_sum p) = spec_header_checksum p
     \<and> (header_supported cfg p \<and> declared_size p = Some d \<and> d \<le> length p \<longrightarrow>
          (\<exists>s. GB_CartridgeLoad cfg e0 p rom_size = Some (1, s)
             \<and> (Header_checksum_incorrect \<in> set (console s) \<longleftrightarrow>
                  ucast (header_checksum p) \<noteq> header_sum p)))
     \<and> map_option fst (GB_CartridgeLoad cfg e0 (p[0x14D := v]) rom_size) =
         map_option fst (GB_CartridgeLoad cfg e0 p rom_size)"
proof -
  have a: "uint (header_sum p) = spec_header_checksum p" by (rule header_sum_spec)
  have b: "\<exists>s. GB_CartridgeLoad cfg e0 p rom_size = Some (1, s)
             \<and> (Header_checksum_incorrect \<in> set (console s) \<longleftrightarrow>
                  ucast (header_checksum p) \<noteq> header_sum p)"
    if "header_supported cfg p" "declared_size p = Some d" "d \<le> length p"
    using load_supported [OF len sz that(1,2), of e0] that(3) by auto
  have c: "map_option fst (GB_CartridgeLoad cfg e0 (p[0x14D := v]) rom_size) =
         map_option fst (GB_CartridgeLoad cfg e0 p rom_size)"
  proof -
    have 1: "map_option fst (GB_CartridgeLoad cfg e0 (p[0x14D := v]) rom_size) =
      Some (if header_supported cfg (p[0x14D := v])
               \<and> (\<exists>d. declared_size (p[0x14D := v]) = Some d \<and> d \<le> length (p[0x14D := v]))
            then 1 else 0)"
      by (rule load_return_value) (simp_all add: len sz)
    show ?thesis
      by (simp only: 1 load_return_value [OF len sz] header_fields_update length_list_update)
  qed
  from a b c show ?thesis by blast
qed

lemma foldl_add_zeros: "foldl (\<lambda>sum b. sum + ucast b) a (replicate n (0::u8)) = (a::u32)"
  by (induction n) simp_all

lemma header_supported_zeros: "0x150 \<le> n \<Longrightarrow> header_supported default_config (replicate n 0)"
  by (simp add: header_supported_def default_config_def cartridge_type_def ram_size_code_def
      rom_size_code_def cartridge_types_def ram_sizes_def rom_sizes_def)

lemma declared_size_zeros: "0x150 \<le> n \<Longrightarrow> declared_size (replicate n 0) = Some 0x8000"
  by (simp add: declared_size_def rom_size_code_def rom_sizes_def)

lemma header_sum_zeros: "0x150 \<le> n \<Longrightarrow> header_sum (replicate n 0) = 0xE7"
proof -
  assume n: "0x150 \<le> n"
  have "uint (header_sum (replicate n 0)) = (- (\<Sum>i = 0x134..0x14C. uint (replicate n (0::u8) ! i)) - 0x19) mod 256"
    by (simp only: header_sum_spec spec_header_checksum_def)
  also have "(\<Sum>i = 0x134..0x14C. uint (replicate n (0::u8) ! i)) = 0"
    using n by (intro sum.neutral) auto
  finally have "uint (header_sum (replicate n 0)) = uint (0xE7 :: u32)" by simp
  then show ?thesis by (simp only: word_uint_eq_iff)
qed

theorem C7_header_checksum_mismatch_not_fatal_witness:
  "uint (header_sum (replicate 0x8000 0)) = spec_header_checksum (replicate 0x8000 0)
   \<and> ucast (header_checksum (replicate 0x8000 0)) \<noteq> header_sum (replicate 0x8000 0)
   \<and> (\<exists>s. GB_CartridgeLoad default_config blank_state (replicate 0x8000 0) 0x8000 = Some (1, s)
         \<and> Header_checksum_incorrect \<in> set (console s))"
  using C7_header_checksum_mismatch_not_fatal [of "replicate 0x8000 0" "0x8000" default_config "0x8000" blank_state 0]
  by (simp add: header_supported_zeros declared_size_zeros header_sum_zeros header_checksum_def)






section \<open>Theorems: the real-time clock in the save file\<close>

lemma carry_mod:
  fixes s D b :: nat
  assumes "s < b"
  shows "(if b \<le> s + D mod b then s + D mod b - b else s + D mod b) = (s + D) mod b"
proof -
  have b: "0 < b" using assms by simp
  have e: "(s + D) mod b = (s + D mod b) mod b" by (simp add: mod_add_right_eq)
  have lt: "s + D mod b < b + b" using assms mod_less_divisor [OF b, of D] by linarith
  show ?thesis
  proof (cases "b \<le> s + D mod b")
    case True
    then have "(s + D mod b) mod b = (s + D mod b - b) mod b" by (rule le_mod_geq)
    also have "\<dots> = s + D mod b - b" using lt True by (intro mod_less) linarith
    finally show ?thesis using True e by simp
  next
    case False
    then show ?thesis using e by simp
  qed
qed

lemma carry_div:
  fixes s D b :: nat
  assumes "s < b"
  shows "(D + (if b \<le> s + D mod b then b else 0)) div b = (s + D) div b"
proof -
  have b: "0 < b" using assms by simp
  have lt: "s + D mod b < b + b" using assms mod_less_divisor [OF b, of D] by linarith
  have e: "(s + D) div b = D div b + (s + D mod b) div b"
    using assms div_add1_eq [of s D b] by simp
  show ?thesis
  proof (cases "b \<le> s + D mod b")
    case True
    then have "(s + D mod b) div b = Suc ((s + D mod b - b) div b)" using b by (simp add: le_div_geq)
    moreover have "(s + D mod b - b) div b = 0" using lt True by (intro div_less) linarith
    moreover have "(D + b) div b = Suc (D div b)" using b div_add_self2 [of b D] by linarith
    ultimately show ?thesis using True e b by simp
  next
    case False
    then show ?thesis using e by simp
  qed
qed

lemma total_split:
  fixes s m h d Dn :: nat
  defines "T \<equiv> s + 60 * m + 3600 * h + 86400 * d + Dn"
  defines "B \<equiv> m + (s + Dn) div 60"
  defines "C \<equiv> h + B div 60"
  shows "T mod 60 = (s + Dn) mod 60"
    and "(T div 60) mod 60 = B mod 60"
    and "(T div 3600) mod 24 = C mod 24"
    and "T div 86400 = d + C div 24"
proof -
  have T1: "T = (s + Dn) + 60 * (m + 60 * h + 1440 * d)" by (simp add: T_def)
  show "T mod 60 = (s + Dn) mod 60" unfolding T1 by (rule mod_mult_self2)
  have q1: "T div 60 = B + 60 * (h + 24 * d)"
    unfolding T1 B_def by (subst div_mult_self2) simp_all
  show "(T div 60) mod 60 = B mod 60" unfolding q1 by (rule mod_mult_self2)
  have "T div 3600 = (T div 60) div 60" by (simp add: div_mult2_eq)
  also have "\<dots> = C + 24 * d" unfolding q1 C_def by (subst div_mult_self2) simp_all
  finally have q2: "T div 3600 = C + 24 * d" .
  show "(T div 3600) mod 24 = C mod 24" unfolding q2 by (rule mod_mult_self2)
  have "T div 86400 = (T div 3600) div 24" by (simp add: div_mult2_eq)
  also have "\<dots> = d + C div 24" unfolding q2 by (subst div_mult_self2) simp_all
  finally show "T div 86400 = d + C div 24" .
qed

lemma div_3600:
  fixes x :: nat
  shows "x div 3600 = x div 60 div 60" and "(x + 3600) div 3600 = (x div 60 + 60) div 60"
proof -
  show a: "x div 3600 = x div 60 div 60" for x :: nat
    using div_mult2_eq [of x 60 60] by simp
  have "(x + 60 * 60) div 60 = 60 + x div 60" by (rule div_mult_self2) simp
  then show "(x + 3600) div 3600 = (x div 60 + 60) div 60"
    by (simp add: a [of "x + 3600"] add.commute)
qed

lemma div_86400:
  fixes x :: nat
  shows "x div 86400 = x div 3600 div 24" and "(x + 86400) div 86400 = (x div 3600 + 24) div 24"
proof -
  show a: "x div 86400 = x div 3600 div 24" for x :: nat
    using div_mult2_eq [of x 3600 24] by simp
  have "(x + 3600 * 24) div 3600 = 24 + x div 3600" by (rule div_mult_self2) simp
  then show "(x + 86400) div 86400 = (x div 3600 + 24) div 24"
    by (simp add: a [of "x + 86400"] add.commute)
qed

lemma add_u64_unat:
  assumes "unat f + unat v < 2 ^ 32"
  shows "unat (add_u64 f v) = unat f + unat v"
proof -
  have u: "unat (ucast f :: u64) = unat f"
  proof -
    have "unat f < 2 ^ 64" using unsigned_less [of f, where 'a=nat] by simp
    then show ?thesis by (simp add: unsigned_ucast_eq take_bit_nat_eq_self)
  qed
  have a: "unat ((ucast f :: u64) + v) = unat f + unat v"
    using assms by (subst unat_add_lem [THEN iffD1]) (simp_all add: u)
  show ?thesis
    unfolding add_u64_def using assms
    by (simp add: unsigned_ucast_eq a take_bit_nat_eq_self)
qed

lemma days_loop_once: "days_loop d c = (if d > 511 then (d AND 511, 1) else (d, c))"
proof -
  have "\<not> 511 < d AND 511"
    using word_and_le1 [of d 511] by (simp add: not_less)
  then have "days_loop (d AND 511) 1 = (d AND 511, 1)"
    by (subst days_loop.simps) simp
  then show ?thesis by (subst days_loop.simps) simp
qed

lemma unat_and_511: "unat ((d::u32) AND 511) = unat d mod 512"
proof -
  have "(511::u32) = mask 9" by (simp add: mask_eq_exp_minus_1)
  then have "d AND 511 = take_bit 9 d" by (simp add: take_bit_eq_mask)
  then show ?thesis by (simp add: unsigned_take_bit_eq take_bit_eq_mod unat_mod)
qed



lemma unat_u64_add_small:
  "unat (x::u64) < 2 ^ 34 \<Longrightarrow> k < 2 ^ 32 \<Longrightarrow> unat (x + word_of_nat k) = unat x + k"
  by (subst unat_add_lem [THEN iffD1]) (simp_all add: unat_of_nat)

lemma word_carry_step:
  fixes f fa bw bwp :: u32 and q bq :: u64 and b :: nat
  assumes f: "unat f < b" and b: "b < 65536" and q: "unat q = Q"
    and ub: "unat bq = b" and ub32: "unat bw = b" and ub1: "unat bwp = b - 1"
    and fa: "fa = add_u64 f (q mod bq)"
  shows "unat (if bwp < fa then fa - bw else fa) = (unat f + Q) mod b"
    and "(bwp < fa) = (b \<le> unat f + Q mod b)"
proof -
  have b0: "0 < b" using f by simp
  have m: "unat (q mod bq) = Q mod b" by (simp add: unat_mod ub q)
  have "Q mod b < b" using b0 by simp
  then have "unat f + Q mod b < 4294967296" using f b by linarith
  then have "unat f + Q mod b < 2 ^ 32" by simp
  then have u1: "unat fa = unat f + Q mod b" unfolding fa by (subst add_u64_unat) (simp_all add: m)
  show c: "(bwp < fa) = (b \<le> unat f + Q mod b)"
    using b0 unfolding word_less_nat_alt ub1 u1 by linarith
  have s: "unat (fa - bw) = unat fa - b" if "b \<le> unat fa"
    using that by (subst unat_sub) (simp_all add: word_le_nat_alt ub32)
  show "unat (if bwp < fa then fa - bw else fa) = (unat f + Q) mod b"
    using carry_mod [OF f, of Q] s u1 unfolding c by (simp split: if_splits)
qed

lemmas word_carry_60 = word_carry_step [where b = 60 and bw = 60 and bwp = 59 and bq = 60, simplified]
lemmas word_carry_24 = word_carry_step [where b = 24 and bw = 24 and bwp = 23 and bq = 24, simplified]


lemma advance_clock_fields:
  assumes r: "clock_in_range t" and D: "unat delta < 2 ^ 32"
  defines "T \<equiv> clock_seconds t + unat delta"
  shows "unat (sec (advance_clock t delta)) = T mod 60
       \<and> unat (min_rtc (advance_clock t delta)) = (T div 60) mod 60
       \<and> unat (hour (advance_clock t delta)) = (T div 3600) mod 24
       \<and> unat (days (advance_clock t delta)) = (T div 86400) mod 512
       \<and> carry (advance_clock t delta) = (if 511 < T div 86400 then 1 else carry t)
       \<and> halt (advance_clock t delta) = halt t"
proof -
  define s m h d Dn where "s = unat (sec t)" and "m = unat (min_rtc t)" and "h = unat (hour t)"
    and "d = unat (days t)" and "Dn = unat delta"
  have rs: "s < 60" "m < 60" "h < 24" "d < 512"
    using r unfolding clock_in_range_def s_def m_def h_def d_def
    by (simp_all add: word_less_nat_alt)
  have Dn: "Dn < 4294967296" using D by (simp add: Dn_def)
  have T: "T = s + 60 * m + 3600 * h + 86400 * d + Dn"
    by (simp add: T_def clock_seconds_def s_def m_def h_def d_def Dn_def)
  define Q1 Q2 Q3 where "Q1 = (s + Dn) div 60" and "Q2 = (m + Q1) div 60" and "Q3 = (h + Q2) div 24"
  \<comment> \<open>seconds\<close>
  define sec1 where "sec1 = add_u64 (sec t) (delta mod 60)"
  define c1 where "c1 \<longleftrightarrow> 59 < sec1"
  define sec2 where "sec2 = (if c1 then sec1 - 60 else sec1)"
  define delta1 where "delta1 = (if c1 then delta + 60 else delta)"
  have sec2: "unat sec2 = (s + Dn) mod 60"
    unfolding sec2_def c1_def s_def Dn_def
    by (rule word_carry_60(1) [OF _ refl sec1_def]) (use rs in \<open>simp add: s_def\<close>)
  have c1: "c1 \<longleftrightarrow> 60 \<le> s + Dn mod 60"
    unfolding c1_def s_def Dn_def
    by (rule word_carry_60(2) [OF _ refl sec1_def]) (use rs in \<open>simp add: s_def\<close>)
  have delta1: "unat delta1 = Dn + (if 60 \<le> s + Dn mod 60 then 60 else 0)"
    unfolding delta1_def c1 [symmetric] using Dn unat_u64_add_small [of delta 60]
    by (simp add: Dn_def)
  have q1: "unat (delta1 div 60) = Q1"
    unfolding Q1_def unat_div delta1 using carry_div [of s 60 Dn] rs by simp
  \<comment> \<open>minutes\<close>
  define min1 where "min1 = add_u64 (min_rtc t) ((delta1 div 60) mod 60)"
  define c2 where "c2 \<longleftrightarrow> 59 < min1"
  define min2 where "min2 = (if c2 then min1 - 60 else min1)"
  define delta2 where "delta2 = (if c2 then delta1 + 3600 else delta1)"
  have min2: "unat min2 = (m + Q1) mod 60"
    unfolding min2_def c2_def m_def
    by (rule word_carry_60(1) [OF _ q1 min1_def]) (use rs in \<open>simp add: m_def\<close>)
  have c2: "c2 \<longleftrightarrow> 60 \<le> m + Q1 mod 60"
    unfolding c2_def m_def
    by (rule word_carry_60(2) [OF _ q1 min1_def]) (use rs in \<open>simp add: m_def\<close>)
  have d1b: "unat delta1 < 2 ^ 34" unfolding delta1 using Dn by simp
  have delta2: "unat delta2 = unat delta1 + (if 60 \<le> m + Q1 mod 60 then 3600 else 0)"
    unfolding delta2_def c2 [symmetric] using d1b unat_u64_add_small [of delta1 3600]
    by simp
  have "unat delta2 div 3600 = (unat delta1 div 60 + (if 60 \<le> m + Q1 mod 60 then 60 else 0)) div 60"
    unfolding delta2 by (simp add: div_3600 [of "unat delta1"])
  then have q2: "unat (delta2 div 3600) = Q2"
    unfolding Q2_def unat_div using carry_div [of m 60 Q1] rs q1 by (simp add: unat_div)
  \<comment> \<open>hours\<close>
  define hour1 where "hour1 = add_u64 (hour t) ((delta2 div 3600) mod 24)"
  define c3 where "c3 \<longleftrightarrow> 23 < hour1"
  define hour2 where "hour2 = (if c3 then hour1 - 24 else hour1)"
  define delta3 where "delta3 = (if c3 then delta2 + 3600 * 24 else delta2)"
  have hour2: "unat hour2 = (h + Q2) mod 24"
    unfolding hour2_def c3_def h_def
    by (rule word_carry_24(1) [OF _ q2 hour1_def]) (use rs in \<open>simp add: h_def\<close>)
  have c3: "c3 \<longleftrightarrow> 24 \<le> h + Q2 mod 24"
    unfolding c3_def h_def
    by (rule word_carry_24(2) [OF _ q2 hour1_def]) (use rs in \<open>simp add: h_def\<close>)
  have d2b: "unat delta2 < 2 ^ 34" unfolding delta2 delta1 using Dn by simp
  have delta3: "unat delta3 = unat delta2 + (if 24 \<le> h + Q2 mod 24 then 86400 else 0)"
    unfolding delta3_def c3 [symmetric] using d2b unat_u64_add_small [of delta2 86400]
    by simp
  have "unat delta3 div 86400 = (unat delta2 div 3600 + (if 24 \<le> h + Q2 mod 24 then 24 else 0)) div 24"
    unfolding delta3 by (simp add: div_86400 [of "unat delta2"])
  then have q3: "unat (delta3 div 86400) = Q3"
    unfolding Q3_def using carry_div [of h 24 Q2] rs q2 by (simp add: unat_div)
  \<comment> \<open>days\<close>
  define days1 where "days1 = add_u64 (days t) (delta3 div (3600 * 24))"
  have "Q3 < 4294966784"
  proof -
    have "unat delta3 < 17179869184" unfolding delta3 delta2 delta1 using Dn by simp
    then have "unat delta3 div 86400 < 4294966784" by simp
    then show ?thesis using q3 by (simp add: unat_div)
  qed
  then have "d + Q3 < 2 ^ 32" using rs by simp
  then have days1: "unat days1 = d + Q3"
    unfolding days1_def d_def using q3 by (subst add_u64_unat) simp_all
  have adv: "advance_clock t delta =
      t\<lparr>sec := sec2, min_rtc := min2, hour := hour2,
        days := fst (days_loop days1 (carry t)), carry := snd (days_loop days1 (carry t))\<rparr>"
    unfolding advance_clock_def Let_def sec1_def [symmetric]
    apply (simp only: split_beta if_distrib [of fst] if_distrib [of snd] fst_conv snd_conv
        c1_def [symmetric] sec2_def [symmetric] delta1_def [symmetric])
    apply (simp only: min1_def [symmetric]
        c2_def [symmetric] min2_def [symmetric] delta2_def [symmetric])
    apply (simp only: hour1_def [symmetric]
        c3_def [symmetric] hour2_def [symmetric] delta3_def [symmetric] days1_def [symmetric])
    done
  have Tq: "T mod 60 = (s + Dn) mod 60" "(T div 60) mod 60 = (m + Q1) mod 60"
    "(T div 3600) mod 24 = (h + Q2) mod 24" "T div 86400 = d + Q3"
    unfolding T Q1_def Q2_def Q3_def by (rule total_split)+
  have big: "511 < days1 \<longleftrightarrow> 511 < d + Q3"
    by (simp add: word_less_nat_alt days1)
  have f1: "unat (sec (advance_clock t delta)) = T mod 60"
    unfolding adv Tq using sec2 by simp
  have f2: "unat (min_rtc (advance_clock t delta)) = (T div 60) mod 60"
    unfolding adv Tq using min2 by simp
  have f3: "unat (hour (advance_clock t delta)) = (T div 3600) mod 24"
    unfolding adv Tq using hour2 by simp
  have f4: "unat (days (advance_clock t delta)) = (T div 86400) mod 512"
  proof (cases "511 < days1")
    case True
    then show ?thesis unfolding adv Tq by (simp add: days_loop_once unat_and_511 days1)
  next
    case False
    then have "d + Q3 < 512" using big by simp
    then have "(d + Q3) mod 512 = d + Q3" by (rule mod_less)
    then show ?thesis unfolding adv Tq using False by (simp add: days_loop_once days1)
  qed
  have f5: "carry (advance_clock t delta) = (if 511 < T div 86400 then 1 else carry t)"
    unfolding adv Tq big [symmetric] by (simp add: days_loop_once)
  have f6: "halt (advance_clock t delta) = halt t"
    unfolding adv by simp
  from f1 f2 f3 f4 f5 f6 show ?thesis by blast
qed

lemma bit_below:
  fixes x :: "'a::len word"
  assumes "x < 2 ^ k"
  shows "bit x n \<longleftrightarrow> n < k \<and> bit x n"
proof -
  have "x AND mask k = x" using assms by (rule less_mask_eq)
  then have "take_bit k x = x" by (simp add: take_bit_eq_mask)
  then have "bit x n = bit (take_bit k x) n" by simp
  then show ?thesis by (simp add: bit_take_bit_iff)
qed

lemma of_le_bytes_le_bytes: "of_le_bytes (le_bytes w) = w"
proof (rule bit_eqI)
  fix n
  assume "possible_bit TYPE(u32) n"
  then have n: "n < 32" by simp
  consider "n < 8" | "8 \<le> n" "n < 16" | "16 \<le> n" "n < 24" | "24 \<le> n" "n < 32"
    using n by linarith
  then show "bit (of_le_bytes (le_bytes w)) n = bit w n"
    unfolding of_le_bytes_def le_bytes_def
    by cases (auto simp add: bit_simps)
qed

lemma fread4_le_bytes: "fread4 dst (le_bytes w @ rest) = (4, w, rest)"
proof -
  have l: "length (le_bytes w) = 4" by (simp add: le_bytes_def)
  show ?thesis
    unfolding fread4_def Let_def using l of_le_bytes_le_bytes [of w]
    by (simp add: le_bytes_def)
qed

lemma word_lt_2_cases: "(x::u32) < 2 \<Longrightarrow> x = 0 \<or> x = 1"
  by unat_arith

lemma decode_days:
  fixes d h c :: u32
  assumes d: "d < 512" and h: "h < 2" and c: "c < 2"
  defines "hi \<equiv> drop_bit 8 d OR push_bit 6 h OR push_bit 7 c"
  shows "((d AND 0xFF) AND 0xFF) OR push_bit 8 (hi AND 0x01) = d"
    and "drop_bit 7 (hi AND push_bit 7 1) = c"
    and "drop_bit 6 (hi AND push_bit 6 1) = h"
proof -
  have m: "(0xFF :: u32) = mask 8" by (simp add: mask_eq_exp_minus_1)
  have db: "bit d n \<longleftrightarrow> n < 9 \<and> bit d n" for n
    using bit_below [of d 9 n] d by simp
  have hb: "bit h n \<longleftrightarrow> n = 0 \<and> h = 1" for n
    using word_lt_2_cases [OF h] by (auto simp: bit_1_iff)
  have cb: "bit c n \<longleftrightarrow> n = 0 \<and> c = 1" for n
    using word_lt_2_cases [OF c] by (auto simp: bit_1_iff)
  have b256: "bit (256::u32) n \<longleftrightarrow> n = 8" for n
    using bit_exp_iff [where 'a=u32, of 8 n] by auto
  have b128: "bit (128::u32) n \<longleftrightarrow> n = 7" for n
    using bit_exp_iff [where 'a=u32, of 7 n] by auto
  have b64: "bit (64::u32) n \<longleftrightarrow> n = 6" for n
    using bit_exp_iff [where 'a=u32, of 6 n] by auto
  have "bit (d AND mask 8 AND mask 8 OR push_bit 8 ((drop_bit 8 d OR push_bit 6 h OR push_bit 7 c) AND 1)) n
        = bit d n" for n
  proof -
    consider "n < 8" | "n = 8" | "8 < n" by linarith
    then show ?thesis
      using db [of n] by cases (auto simp add: bit_simps hb cb b256)
  qed
  then show "((d AND 0xFF) AND 0xFF) OR push_bit 8 (hi AND 0x01) = d"
    unfolding hi_def m by (intro bit_eqI) simp
  have "bit (drop_bit 7 ((drop_bit 8 d OR push_bit 6 h OR push_bit 7 c) AND push_bit 7 1)) n = bit c n" for n
    using db [of "15 + n"] by (auto simp add: bit_simps hb cb b128)
  then show "drop_bit 7 (hi AND push_bit 7 1) = c"
    unfolding hi_def by (intro bit_eqI) simp
  have "bit (drop_bit 6 ((drop_bit 8 d OR push_bit 6 h OR push_bit 7 c) AND push_bit 6 1)) n = bit h n" for n
    using db [of "14 + n"] by (auto simp add: bit_simps hb cb b64)
  then show "drop_bit 6 (hi AND push_bit 6 1) = h"
    unfolding hi_def by (intro bit_eqI) simp
qed

lemma timestamp_words:
  "(ucast (ucast (ts::u64) :: u32) :: u64) OR push_bit 32 (ucast (ucast (drop_bit 32 ts) :: u32) :: u64) = ts"
proof (rule bit_eqI)
  fix n :: nat
  consider "n < 32" | "32 \<le> n" by linarith
  then show "bit ((ucast (ucast ts :: u32) :: u64) OR push_bit 32 (ucast (ucast (drop_bit 32 ts) :: u32) :: u64)) n
     = bit ts n"
    by cases (auto simp add: bit_simps dest: bit_imp_le_length)
qed

lemma read_clock_words:
  assumes "clock_storable t"
  shows "\<exists>dl. read_clock t0 l0 (clock_words t @ rest) = (t, dl, False, rest)"
proof -
  have d: "days t < 512" "halt t < 2" "carry t < 2"
    using assms by (simp_all add: clock_storable_def)
  have "\<lparr>sec = sec t, min_rtc = min_rtc t, hour = hour t, days = days t, carry = carry t,
         halt = halt t\<rparr> = t" by simp
  then show ?thesis
    unfolding read_clock_def clock_words_def Let_def append_assoc
    by (simp only: fread4_le_bytes prod.case fst_conv snd_conv decode_days [OF d]) simp
qed

lemma read_rtc_block_roundtrip:
  assumes "clock_storable t" "clock_storable lt"
  shows "read_rtc_block g now (rtc_block t lt ts @ rest) l = (g\<lparr>Timer := t, LatchedTime := lt\<rparr>, ts, False)"
proof -
  obtain dl where 1: "read_clock (Timer g) (days_low l, days_hi l)
      (clock_words t @ clock_words lt @ le_bytes (ucast ts) @ le_bytes (ucast (drop_bit 32 ts)) @ rest)
      = (t, dl, False, clock_words lt @ le_bytes (ucast ts) @ le_bytes (ucast (drop_bit 32 ts)) @ rest)"
    using read_clock_words [OF assms(1)] by blast
  obtain dl2 where 2: "read_clock (LatchedTime g) dl
      (clock_words lt @ le_bytes (ucast ts) @ le_bytes (ucast (drop_bit 32 ts)) @ rest)
      = (lt, dl2, False, le_bytes (ucast ts) @ le_bytes (ucast (drop_bit 32 ts)) @ rest)"
    using read_clock_words [OF assms(2)] by blast
  show ?thesis
    unfolding read_rtc_block_def rtc_block_def
    by (simp add: 1 2 fread4_le_bytes timestamp_words)
qed

text \<open>
  C9: reloading an RTC block moves the live clock on by the seconds between the stored
  timestamp and the current time. For a stored live clock within the calendar ranges that
  is not halted, and a gap below \<open>2 ^ 32\<close> seconds, the loaded live clock counts the stored
  seconds plus the gap: seconds, minutes and hours are the remainders, the day counter is
  the number of days masked to 9 bits, and the carry bit is set when that number exceeds
  511 (and kept otherwise). The latched clock is the stored one. The witness is the spec's
  scenario: a zero clock stored at \<open>T\<close> and reloaded at \<open>T + 3600\<close> reads 0 seconds,
  0 minutes, 1 hour, 0 days, no carry.
\<close>

theorem C9_rtc_load_advances_live_clock:
  fixes g :: rtc_state and t lt :: rtc_time and ts now :: u64 and rest :: "u8 list"
    and l :: rtc_locals
  assumes timer: "HasTimer g"
    and t: "clock_in_range t" "halt t = 0" and lt: "clock_storable lt"
    and ts: "ts \<le> now" "unat now - unat ts < 2 ^ 32"
  defines "g' \<equiv> GB_RTC_Load g now (rtc_block t lt ts @ rest) l"
  defines "T \<equiv> clock_seconds t + (unat now - unat ts)"
  shows "unat (sec (Timer g')) = T mod 60
       \<and> unat (min_rtc (Timer g')) = (T div 60) mod 60
       \<and> unat (hour (Timer g')) = (T div 3600) mod 24
       \<and> unat (days (Timer g')) = (T div 86400) mod 512
       \<and> carry (Timer g') = (if 511 < T div 86400 then 1 else carry t)
       \<and> halt (Timer g') = 0
       \<and> LatchedTime g' = lt"
proof -
  have st: "clock_storable t"
    using t by (simp add: clock_in_range_def clock_storable_def)
  have d: "unat (now - ts) = unat now - unat ts"
    using ts(1) by (simp add: unat_sub)
  have g': "g' = g\<lparr>Timer := advance_clock t (now - ts), LatchedTime := lt\<rparr>"
    unfolding g'_def GB_RTC_Load_def read_rtc_block_roundtrip [OF st lt]
    using timer t(2) by simp
  show ?thesis
    using advance_clock_fields [OF t(1), of "now - ts"] ts(2) t(2)
    unfolding g' T_def d by simp
qed

theorem C9_rtc_load_advances_live_clock_witness:
  "unat (sec (Timer (GB_RTC_Load timer_cartridge 1003600 (rtc_block zero_clock zero_clock 1000000) zero_locals))) = 0
   \<and> unat (min_rtc (Timer (GB_RTC_Load timer_cartridge 1003600 (rtc_block zero_clock zero_clock 1000000) zero_locals))) = 0
   \<and> unat (hour (Timer (GB_RTC_Load timer_cartridge 1003600 (rtc_block zero_clock zero_clock 1000000) zero_locals))) = 1
   \<and> unat (days (Timer (GB_RTC_Load timer_cartridge 1003600 (rtc_block zero_clock zero_clock 1000000) zero_locals))) = 0
   \<and> carry (Timer (GB_RTC_Load timer_cartridge 1003600 (rtc_block zero_clock zero_clock 1000000) zero_locals)) = 0"
  using C9_rtc_load_advances_live_clock [of timer_cartridge zero_clock zero_clock 1000000 1003600 "[]" zero_locals]
  by (simp add: timer_cartridge_def zero_clock_def clock_in_range_def clock_storable_def
      clock_seconds_def)

lemma read_rtc_block_fst: "fst (read_rtc_block g now f l) = fst (read_rtc_block g now' f l)"
  by (simp add: read_rtc_block_def Let_def split_beta)

text \<open>
  C10: when the halt flag decoded from the file is 1, the loader returns right after the
  reading half: the state is the decoded one, whatever the current time is, so the result
  is the same for every gap; for a block in the layout of the save file both clocks are
  exactly the stored ones.
\<close>

theorem C10_halted_clock_not_advanced:
  assumes timer: "HasTimer g"
    and h: "halt (Timer (fst (read_rtc_block g now f l))) = 1"
  shows "GB_RTC_Load g now f l = fst (read_rtc_block g now f l)
       \<and> GB_RTC_Load g now' f l = GB_RTC_Load g now f l
       \<and> (clock_storable t \<and> clock_storable lt \<and> f = rtc_block t lt ts @ rest \<longrightarrow>
            Timer (GB_RTC_Load g now' f l) = t \<and> LatchedTime (GB_RTC_Load g now' f l) = lt)"
proof -
  have h': "halt (Timer (fst (read_rtc_block g now' f l))) = 1"
    using h read_rtc_block_fst [of g now f l now'] by simp
  have a: "GB_RTC_Load g now f l = fst (read_rtc_block g now f l)"
    using timer h by (simp add: GB_RTC_Load_def split_beta)
  have b: "GB_RTC_Load g now' f l = fst (read_rtc_block g now' f l)"
    using timer h' by (simp add: GB_RTC_Load_def split_beta)
  have c: "Timer (GB_RTC_Load g now' f l) = t \<and> LatchedTime (GB_RTC_Load g now' f l) = lt"
    if "clock_storable t" "clock_storable lt" "f = rtc_block t lt ts @ rest"
    using b read_rtc_block_roundtrip [OF that(1,2), of g now' ts rest l] unfolding that(3) by simp
  show ?thesis
    using a b c read_rtc_block_fst [of g now f l now'] by simp
qed

theorem C10_halted_clock_not_advanced_witness:
  "Timer (GB_RTC_Load timer_cartridge 1003600 (rtc_block halted_clock zero_clock 1000000) zero_locals) = halted_clock
   \<and> LatchedTime (GB_RTC_Load timer_cartridge 1003600 (rtc_block halted_clock zero_clock 1000000) zero_locals) = zero_clock"
proof -
  have s: "clock_storable halted_clock" "clock_storable zero_clock"
    by (simp_all add: clock_storable_def halted_clock_def zero_clock_def)
  have r: "read_rtc_block timer_cartridge 0 (rtc_block halted_clock zero_clock 1000000 @ []) zero_locals
      = (timer_cartridge\<lparr>Timer := halted_clock, LatchedTime := zero_clock\<rparr>, 1000000, False)"
    by (rule read_rtc_block_roundtrip [OF s])
  have h: "halt (Timer (fst (read_rtc_block timer_cartridge 0 (rtc_block halted_clock zero_clock 1000000 @ []) zero_locals))) = 1"
    unfolding r by (simp add: halted_clock_def)
  have t: "HasTimer timer_cartridge" by (simp add: timer_cartridge_def)
  show ?thesis
    using C10_halted_clock_not_advanced [OF t h, of 1003600 halted_clock zero_clock 1000000 "[]"] s r by simp
qed

section \<open>Theorems: the STAT signal\<close>

lemma ucast_enable_bit:
  fixes s :: u8
  assumes "n < 8"
  shows "(ucast s :: u32) AND 2 ^ n \<noteq> 0 \<longleftrightarrow> bit s n"
  using assms by (simp add: and_exp_eq_0_iff_not_bit bit_ucast_iff)

lemma enable_hbl_bit: "(ucast (s::u8) :: u32) AND IENABLE_HBL \<noteq> 0 \<longleftrightarrow> bit s 3"
  using ucast_enable_bit [of 3 s] by (simp add: IENABLE_HBL_def)

lemma enable_vbl_bit: "(ucast (s::u8) :: u32) AND IENABLE_VBL \<noteq> 0 \<longleftrightarrow> bit s 4"
  using ucast_enable_bit [of 4 s] by (simp add: IENABLE_VBL_def)

lemma enable_oam_bit: "(ucast (s::u8) :: u32) AND IENABLE_OAM \<noteq> 0 \<longleftrightarrow> bit s 5"
  using ucast_enable_bit [of 5 s] by (simp add: IENABLE_OAM_def)

lemma enable_lyc_bit: "(ucast (s::u8) :: u32) AND IENABLE_LY_COMPARE \<noteq> 0 \<longleftrightarrow> bit s 6"
  using ucast_enable_bit [of 6 s] by (simp add: IENABLE_LY_COMPARE_def)

lemma enable_vbl_oam_bits:
  "(ucast (s::u8) :: u32) AND (IENABLE_VBL OR IENABLE_OAM) \<noteq> 0 \<longleftrightarrow> bit s 4 \<or> bit s 5"
  using enable_vbl_bit [of s] enable_oam_bit [of s]
  by (simp only: bit.conj_disj_distrib or_eq_0_iff) blast

text \<open>The condition the code computes is the combined signal of the spec.\<close>

lemma any_condition_met_stat_line: "any_condition_met g = stat_line g"
  unfolding any_condition_met_def stat_line_def Let_def
  by (simp only: enable_hbl_bit enable_oam_bit enable_lyc_bit enable_vbl_oam_bits) blast

text \<open>
  C4, as stated: the interrupt is raised on every 0 to 1 transition of the OR of the four
  sources. With the LCD off, mode 0 and the mode-0 source enabled, the OR is 1 and the
  remembered signal is 0, yet the check raises nothing and remembers 0: the context is
  returned as it was.
\<close>

theorem C4_lcd_off_no_stat_irq:
  "stat_line (blank_system\<lparr>IO_Ports := (\<lambda>_. 0)(0x41 := 0x08)\<rparr>)
   \<and> lcd_on (blank_system\<lparr>IO_Ports := (\<lambda>_. 0)(0x41 := 0x08)\<rparr>) = 0
   \<and> stat_signal (blank_system\<lparr>IO_Ports := (\<lambda>_. 0)(0x41 := 0x08)\<rparr>) = 0
   \<and> GB_PPUCheckStatSignal (blank_system\<lparr>IO_Ports := (\<lambda>_. 0)(0x41 := 0x08)\<rparr>)
       = blank_system\<lparr>IO_Ports := (\<lambda>_. 0)(0x41 := 0x08)\<rparr>
   \<and> \<not> bit (IO_Ports (blank_system\<lparr>IO_Ports := (\<lambda>_. 0)(0x41 := 0x08)\<rparr>) (IF_REG - 0xFF00)) 1"
proof -
  have "any_condition_met (blank_system\<lparr>IO_Ports := (\<lambda>_. 0)(0x41 := 0x08)\<rparr>)"
    by (simp add: any_condition_met_def blank_system_def STAT_REG_def LY_REG_def LYC_REG_def
        IENABLE_HBL_def)
  then show ?thesis
    by (simp add: any_condition_met_stat_line GB_PPUCheckStatSignal_def IF_REG_def
        blank_system_def)
qed

text \<open>
  C4, amended: the line is the OR of the four sources while the LCD is on, and 0 while it
  is off. A check raises the STAT interrupt (sets bit 1 of IF and changes no other port)
  exactly when the line is 1 and the remembered value is 0; in every other case the ports
  are left alone. After the check the remembered value is the line.
\<close>

theorem C4_stat_irq_on_rising_edge:
  "GB_PPUCheckStatSignal g =
     (let line = (lcd_on g \<noteq> 0 \<and> stat_line g) in
      (if line \<and> stat_signal g = 0 then GB_InterruptsSetFlag I_STAT g else g)
        \<lparr>stat_signal := (if line then 1 else 0)\<rparr>)
   \<and> IO_Ports (GB_InterruptsSetFlag I_STAT g) =
       (IO_Ports g)(0x0F := IO_Ports g 0x0F OR 2)
   \<and> bit (IO_Ports (GB_InterruptsSetFlag I_STAT g) 0x0F) 1"
  by (simp add: GB_PPUCheckStatSignal_def any_condition_met_stat_line Let_def
      GB_InterruptsSetFlag_def IF_REG_def I_STAT_def bit_or_iff)

section \<open>Steps on the machine, by components\<close>

lemma fst_cpu_upd [simp]: "fst (cpu_upd f m) = f (fst m)"
  by (simp add: cpu_upd_def)

lemma snd_cpu_upd [simp]: "snd (cpu_upd f m) = snd m"
  by (simp add: cpu_upd_def)

lemma fst_sys_upd [simp]: "fst (sys_upd f m) = fst m"
  by (simp add: sys_upd_def)

lemma snd_sys_upd [simp]: "snd (sys_upd f m) = f (snd m)"
  by (simp add: sys_upd_def)

lemma fst_GB_CPUClockCounterAdd [simp]: "fst (GB_CPUClockCounterAdd n m) = fst m"
  by (simp add: GB_CPUClockCounterAdd_def)

lemma snd_GB_CPUClockCounterAdd [simp]:
  "snd (GB_CPUClockCounterAdd n m) = (snd m)\<lparr>gb_cpu_clock_counter := gb_cpu_clock_counter (snd m) + n\<rparr>"
  by (simp add: GB_CPUClockCounterAdd_def)

lemma fst_GB_CPUBreakLoop [simp]: "fst (GB_CPUBreakLoop m) = fst m"
  by (simp add: GB_CPUBreakLoop_def)

lemma snd_GB_CPUBreakLoop [simp]: "snd (GB_CPUBreakLoop m) = (snd m)\<lparr>gb_break_cpu_loop := 1\<rparr>"
  by (simp add: GB_CPUBreakLoop_def)

lemma fst_gb_break_to_debugger [simp]: "fst (gb_break_to_debugger m) = fst m"
  by (simp add: gb_break_to_debugger_def)

lemma snd_gb_break_to_debugger [simp]:
  "snd (gb_break_to_debugger m) = (snd m)\<lparr>gb_break_execution := 1\<rparr>"
  by (simp add: gb_break_to_debugger_def)

lemma fst_MemWrite8 [simp]: "fst (MemWrite8 env a v m) = fst m"
  by (simp add: MemWrite8_def)

lemma snd_MemWrite8 [simp]: "snd (MemWrite8 env a v m) = GB_MemWrite8 env (snd m) a v"
  by (simp add: MemWrite8_def)

lemma fst_MemRead8 [simp]: "fst (MemRead8 env a m) = fst (GB_MemRead8 env (snd m) a)"
  by (simp add: MemRead8_def split_beta)

lemma snd_MemRead8 [simp]: "snd (MemRead8 env a m) = (fst m, snd (GB_MemRead8 env (snd m) a))"
  by (simp add: MemRead8_def split_beta)

lemma fst_read_PC_inc [simp]:
  "fst (read_PC_inc env m) = fst (GB_MemRead8 env (snd m) (R16_PC (fst m)))"
  by (simp add: read_PC_inc_def split_beta)

lemma snd_read_PC_inc [simp]:
  "snd (read_PC_inc env m) =
     ((fst m)\<lparr>R16_PC := R16_PC (fst m) + 1\<rparr>, snd (GB_MemRead8 env (snd m) (R16_PC (fst m))))"
  by (simp add: read_PC_inc_def split_beta cpu_upd_def)

lemma fst_read_SP_inc [simp]:
  "fst (read_SP_inc env m) = fst (GB_MemRead8 env (snd m) (R16_SP (fst m)))"
  by (simp add: read_SP_inc_def split_beta)

lemma snd_read_SP_inc [simp]:
  "snd (read_SP_inc env m) =
     ((fst m)\<lparr>R16_SP := R16_SP (fst m) + 1\<rparr>, snd (GB_MemRead8 env (snd m) (R16_SP (fst m))))"
  by (simp add: read_SP_inc_def split_beta cpu_upd_def)

lemma fst_dec_SP_write [simp]:
  "fst (dec_SP_write env v m) = (fst m)\<lparr>R16_SP := R16_SP (fst m) - 1\<rparr>"
  by (simp add: dec_SP_write_def Let_def)

lemma snd_dec_SP_write [simp]:
  "snd (dec_SP_write env v m) = GB_MemWrite8 env (snd m) (R16_SP (fst m) - 1) v"
  by (simp add: dec_SP_write_def Let_def)

section \<open>The low four bits of F\<close>

lemma low_nibble_iff: "(x :: u8) AND 0x0F = 0 \<longleftrightarrow> (\<forall>n<4. \<not> bit x n)"
proof -
  have "(0x0F :: u8) = mask 4" by (simp add: mask_eq_exp_minus_1)
  then have "x AND 0x0F = take_bit 4 x" by (simp only: take_bit_eq_mask)
  then show ?thesis by (auto simp add: bit_eq_iff bit_take_bit_iff dest: bit_imp_le_length)
qed

lemma flag_masks [simp]:
  "F_CARRY AND 0x0F = 0" "F_HALFCARRY AND 0x0F = 0" "F_SUBTRACT AND 0x0F = 0" "F_ZERO AND 0x0F = 0"
  by (simp_all add: F_CARRY_def F_HALFCARRY_def F_SUBTRACT_def F_ZERO_def)

lemma or_low_nibble [simp]:
  "(a OR b) AND (0x0F :: u8) = 0 \<longleftrightarrow> a AND 0x0F = 0 \<and> b AND 0x0F = 0"
  by (auto simp add: low_nibble_iff bit_or_iff)

lemma and_not_low_nibble:
  "msk AND (0x0F :: u8) = 0 \<Longrightarrow> (f AND NOT msk) AND 0x0F = 0 \<longleftrightarrow> f AND 0x0F = 0"
  by (auto simp add: low_nibble_iff bit_and_iff bit_not_iff)

lemma and_low_nibble [simp]: "f AND (0x0F :: u8) = 0 \<Longrightarrow> (f AND g) AND 0x0F = 0"
  by (auto simp add: low_nibble_iff bit_and_iff)

lemma and_F0_low_nibble [simp]: "(f AND 0xF0) AND (0x0F :: u8) = 0"
proof -
  have "(f AND 0xF0) AND 0x0F = f AND (0xF0 AND 0x0F)" by (rule and.assoc)
  also have "\<dots> = 0" by simp
  finally show ?thesis .
qed

lemma F_set_flag [simp]: "msk AND 0x0F = 0 \<Longrightarrow> F_low_zero (set_flag msk b c) = F_low_zero c"
  by (simp add: F_low_zero_def set_flag_def and_not_low_nibble)

lemma F_AF_and_not [simp]: "F_low_zero c \<Longrightarrow> F_low_zero (AF_and_not msk c)"
  by (simp add: F_low_zero_def AF_and_not_def)

lemma F_AF_or [simp]: "msk AND 0x0F = 0 \<Longrightarrow> F_low_zero (AF_or msk c) = F_low_zero c"
  by (simp add: F_low_zero_def AF_or_def)

lemma F_set8 [simp]: "r \<noteq> reg_F \<Longrightarrow> F_low_zero (set8 r v c) = F_low_zero c"
  by (cases r) (simp_all add: F_low_zero_def)

lemma F_set16 [simp]: "F_low_zero (set16 r v c) = F_low_zero c"
  by (cases r) (simp_all add: F_low_zero_def)

lemma F_update [simp]:
  "F_low_zero (c\<lparr>R8_A := a\<rparr>) = F_low_zero c"
  "F_low_zero (c\<lparr>R8_B := a\<rparr>) = F_low_zero c"
  "F_low_zero (c\<lparr>R8_C := a\<rparr>) = F_low_zero c"
  "F_low_zero (c\<lparr>R8_D := a\<rparr>) = F_low_zero c"
  "F_low_zero (c\<lparr>R8_E := a\<rparr>) = F_low_zero c"
  "F_low_zero (c\<lparr>R8_H := a\<rparr>) = F_low_zero c"
  "F_low_zero (c\<lparr>R8_L := a\<rparr>) = F_low_zero c"
  "F_low_zero (c\<lparr>R16_PC := w\<rparr>) = F_low_zero c"
  "F_low_zero (c\<lparr>R16_SP := w\<rparr>) = F_low_zero c"
  "F_low_zero (c\<lparr>R8_F := f\<rparr>) \<longleftrightarrow> f AND 0x0F = 0"
  by (simp_all add: F_low_zero_def)

lemma F_sbc_a [simp]: "F_low_zero (sbc_a v c)"
  by (simp add: sbc_a_def Let_def)



section \<open>The index of the DAA table\<close>

lemma and_7_take_bit: "(x :: u32) AND 7 = take_bit 3 x"
proof -
  have "(7 :: u32) = mask 3" by (simp add: mask_eq_exp_minus_1)
  then show ?thesis by (simp only: take_bit_eq_mask)
qed

lemma unat_index_bits:
  fixes a f :: u8
  assumes "i + 8 \<le> 32" and "j + k \<le> 32"
  shows "unat (push_bit i (ucast a :: u32) OR push_bit j (take_bit k (drop_bit l (ucast f :: u32))))
       = push_bit i (unat a) OR push_bit j (take_bit k (drop_bit l (unat f)))"
  using assms by (intro bit_eqI) (auto simp add: bit_simps dest: bit_imp_le_length)

lemma or_index_sum:
  fixes x y :: nat
  assumes "j + k \<le> i"
  shows "push_bit i x OR push_bit j (take_bit k y) = push_bit i x + push_bit j (take_bit k y)"
  using assms by (intro disjunctive_add [symmetric]) (auto simp add: bit_simps)

lemma daa_index_sum:
  "daa_index c = 16 * unat (R8_A c) + 2 * (unat (R8_F c) div 16 mod 8)"
proof -
  have "daa_index c = push_bit (3 + 1) (unat (R8_A c))
          OR push_bit 1 (take_bit 3 (drop_bit 4 (unat (R8_F c))))"
    unfolding daa_index_def and_7_take_bit by (rule unat_index_bits) simp_all
  also have "\<dots> = push_bit (3 + 1) (unat (R8_A c))
          + push_bit 1 (take_bit 3 (drop_bit 4 (unat (R8_F c))))"
    by (rule or_index_sum) simp
  finally show ?thesis
    by (simp add: push_bit_eq_mult take_bit_eq_mod drop_bit_eq_div)
qed






lemma daa_flag_byte:
  assumes "daa_flags_high t"
  shows "t (daa_index c + 1) AND 0x0F = 0"
proof -
  have "unat (R8_A c) < 256" using unsigned_less [of "R8_A c"] by simp
  moreover have "unat (R8_F c) div 16 mod 8 < 8" by simp
  ultimately have "8 * unat (R8_A c) + unat (R8_F c) div 16 mod 8 < gb_daa_table_size div 2"
    unfolding gb_daa_table_size_def by linarith
  with assms have "t (2 * (8 * unat (R8_A c) + unat (R8_F c) div 16 mod 8) + 1) AND 0x0F = 0"
    unfolding daa_flags_high_def by blast
  then show ?thesis by (simp add: daa_index_sum)
qed

section \<open>Every opcode keeps the low four bits of F zero\<close>

lemma keeps_F_gb_ld_r16_nnnn: "reg_hi \<noteq> reg_F \<Longrightarrow> reg_low \<noteq> reg_F \<Longrightarrow> keeps_F (gb_ld_r16_nnnn reg_hi reg_low env)"
  by (simp add: keeps_F_def gb_ld_r16_nnnn_def Let_def split_beta)

lemma keeps_F_gb_ld_r8_nn: "reg8 \<noteq> reg_F \<Longrightarrow> keeps_F (gb_ld_r8_nn reg8 env)"
  by (simp add: keeps_F_def gb_ld_r8_nn_def Let_def split_beta)

lemma keeps_F_gb_ld_ptr_r16_r8: "keeps_F (gb_ld_ptr_r16_r8 reg16 r8 env)"
  by (simp add: keeps_F_def gb_ld_ptr_r16_r8_def Let_def split_beta)

lemma keeps_F_gb_ld_r8_ptr_r16: "r8 \<noteq> reg_F \<Longrightarrow> keeps_F (gb_ld_r8_ptr_r16 r8 reg16 env)"
  by (simp add: keeps_F_def gb_ld_r8_ptr_r16_def Let_def split_beta)

lemma keeps_F_gb_inc_r16: "keeps_F (gb_inc_r16 reg16)"
  by (simp add: keeps_F_def gb_inc_r16_def Let_def split_beta)

lemma keeps_F_gb_dec_r16: "keeps_F (gb_dec_r16 reg16)"
  by (simp add: keeps_F_def gb_dec_r16_def Let_def split_beta)

lemma keeps_F_gb_inc_r8: "reg8 \<noteq> reg_F \<Longrightarrow> keeps_F (gb_inc_r8 reg8)"
  by (simp add: keeps_F_def gb_inc_r8_def Let_def split_beta)

lemma keeps_F_gb_dec_r8: "reg8 \<noteq> reg_F \<Longrightarrow> keeps_F (gb_dec_r8 reg8)"
  by (simp add: keeps_F_def gb_dec_r8_def Let_def split_beta)

lemma keeps_F_gb_add_hl_r16: "keeps_F (gb_add_hl_r16 reg16)"
  by (simp add: keeps_F_def gb_add_hl_r16_def Let_def split_beta)

lemma keeps_F_gb_add_a_r8: "keeps_F (gb_add_a_r8 reg8)"
  by (simp add: keeps_F_def gb_add_a_r8_def Let_def split_beta)

lemma keeps_F_gb_adc_a_r8: "keeps_F (gb_adc_a_r8 reg8)"
  by (simp add: keeps_F_def gb_adc_a_r8_def Let_def split_beta)

lemma keeps_F_gb_sub_a_r8: "keeps_F (gb_sub_a_r8 reg8)"
  by (simp add: keeps_F_def gb_sub_a_r8_def Let_def split_beta)

lemma keeps_F_gb_sbc_a_r8: "keeps_F (gb_sbc_a_r8 reg8)"
  by (simp add: keeps_F_def gb_sbc_a_r8_def Let_def split_beta)

lemma keeps_F_gb_and_a_r8: "keeps_F (gb_and_a_r8 reg8)"
  by (simp add: keeps_F_def gb_and_a_r8_def Let_def split_beta)

lemma keeps_F_gb_xor_a_r8: "keeps_F (gb_xor_a_r8 reg8)"
  by (simp add: keeps_F_def gb_xor_a_r8_def Let_def split_beta)

lemma keeps_F_gb_or_a_r8: "keeps_F (gb_or_a_r8 reg8)"
  by (simp add: keeps_F_def gb_or_a_r8_def Let_def split_beta)

lemma keeps_F_gb_cp_a_r8: "keeps_F (gb_cp_a_r8 reg8)"
  by (simp add: keeps_F_def gb_cp_a_r8_def Let_def split_beta)

lemma keeps_F_gb_rst_nnnn: "keeps_F (gb_rst_nnnn addr env)"
  by (simp add: keeps_F_def gb_rst_nnnn_def Let_def split_beta)

lemma keeps_F_gb_push_r16: "keeps_F (gb_push_r16 reg_hi reg_low env)"
  by (simp add: keeps_F_def gb_push_r16_def Let_def split_beta)

lemma keeps_F_gb_pop_r16: "reg_hi \<noteq> reg_F \<Longrightarrow> reg_low \<noteq> reg_F \<Longrightarrow> keeps_F (gb_pop_r16 reg_hi reg_low env)"
  by (simp add: keeps_F_def gb_pop_r16_def Let_def split_beta)

lemma keeps_F_gb_call_cond_nnnn: "keeps_F (gb_call_cond_nnnn cond env)"
  by (simp add: keeps_F_def gb_call_cond_nnnn_def Let_def split_beta)

lemma keeps_F_gb_ret_cond: "keeps_F (gb_ret_cond cond env)"
  by (simp add: keeps_F_def gb_ret_cond_def Let_def split_beta)

lemma keeps_F_gb_jp_cond_nnnn: "keeps_F (gb_jp_cond_nnnn cond env)"
  by (simp add: keeps_F_def gb_jp_cond_nnnn_def Let_def split_beta)

lemma keeps_F_gb_jr_cond_nn: "keeps_F (gb_jr_cond_nn cond env)"
  by (simp add: keeps_F_def gb_jr_cond_nn_def Let_def split_beta)

lemma keeps_F_gb_rlc_r8: "reg8 \<noteq> reg_F \<Longrightarrow> keeps_F (gb_rlc_r8 reg8)"
  by (simp add: keeps_F_def gb_rlc_r8_def Let_def split_beta)

lemma keeps_F_gb_rrc_r8: "reg8 \<noteq> reg_F \<Longrightarrow> keeps_F (gb_rrc_r8 reg8)"
  by (simp add: keeps_F_def gb_rrc_r8_def Let_def split_beta)

lemma keeps_F_gb_rl_r8: "reg8 \<noteq> reg_F \<Longrightarrow> keeps_F (gb_rl_r8 reg8)"
  by (simp add: keeps_F_def gb_rl_r8_def Let_def split_beta)

lemma keeps_F_gb_rr_r8: "reg8 \<noteq> reg_F \<Longrightarrow> keeps_F (gb_rr_r8 reg8)"
  by (simp add: keeps_F_def gb_rr_r8_def Let_def split_beta)

lemma keeps_F_gb_sla_r8: "reg8 \<noteq> reg_F \<Longrightarrow> keeps_F (gb_sla_r8 reg8)"
  by (simp add: keeps_F_def gb_sla_r8_def Let_def split_beta)

lemma keeps_F_gb_sra_r8: "reg8 \<noteq> reg_F \<Longrightarrow> keeps_F (gb_sra_r8 reg8)"
  by (simp add: keeps_F_def gb_sra_r8_def Let_def split_beta)

lemma keeps_F_gb_swap_r8: "reg8 \<noteq> reg_F \<Longrightarrow> keeps_F (gb_swap_r8 reg8)"
  by (simp add: keeps_F_def gb_swap_r8_def Let_def split_beta)

lemma keeps_F_gb_srl_r8: "reg8 \<noteq> reg_F \<Longrightarrow> keeps_F (gb_srl_r8 reg8)"
  by (simp add: keeps_F_def gb_srl_r8_def Let_def split_beta)

lemma keeps_F_gb_bit_n_r8: "keeps_F (gb_bit_n_r8 bitn reg8)"
  by (simp add: keeps_F_def gb_bit_n_r8_def Let_def split_beta)

lemma keeps_F_gb_bit_n_ptr_hl: "keeps_F (gb_bit_n_ptr_hl bitn env)"
  by (simp add: keeps_F_def gb_bit_n_ptr_hl_def Let_def split_beta)

lemma keeps_F_gb_res_n_r8: "reg8 \<noteq> reg_F \<Longrightarrow> keeps_F (gb_res_n_r8 bitn reg8)"
  by (simp add: keeps_F_def gb_res_n_r8_def Let_def split_beta)

lemma keeps_F_gb_res_n_ptr_hl: "keeps_F (gb_res_n_ptr_hl bitn env)"
  by (simp add: keeps_F_def gb_res_n_ptr_hl_def Let_def split_beta)

lemma keeps_F_gb_set_n_r8: "reg8 \<noteq> reg_F \<Longrightarrow> keeps_F (gb_set_n_r8 bitn reg8)"
  by (simp add: keeps_F_def gb_set_n_r8_def Let_def split_beta)

lemma keeps_F_gb_set_n_ptr_hl: "keeps_F (gb_set_n_ptr_hl bitn env)"
  by (simp add: keeps_F_def gb_set_n_ptr_hl_def Let_def split_beta)

lemma keeps_F_gb_undefined_opcode: "keeps_F gb_undefined_opcode"
  by (simp add: keeps_F_def gb_undefined_opcode_def Let_def split_beta)

lemma keeps_F_ld_r8_r8: "dst \<noteq> reg_F \<Longrightarrow> keeps_F (ld_r8_r8 dst src)"
  by (simp add: keeps_F_def ld_r8_r8_def Let_def split_beta)

lemma keeps_F_op_07: "keeps_F op_07"
  by (simp add: keeps_F_def op_07_def Let_def split_beta)

lemma keeps_F_op_08: "keeps_F (op_08 env)"
  by (simp add: keeps_F_def op_08_def Let_def split_beta)

lemma keeps_F_op_0F: "keeps_F op_0F"
  by (simp add: keeps_F_def op_0F_def Let_def split_beta)

lemma keeps_F_op_10: "keeps_F (op_10 env)"
  by (simp add: keeps_F_def op_10_def Let_def split_beta)

lemma keeps_F_op_17: "keeps_F op_17"
  by (simp add: keeps_F_def op_17_def Let_def split_beta)

lemma keeps_F_op_18: "keeps_F (op_18 env)"
  by (simp add: keeps_F_def op_18_def Let_def split_beta)

lemma keeps_F_op_1F: "keeps_F op_1F"
  by (simp add: keeps_F_def op_1F_def Let_def split_beta)

lemma keeps_F_op_22: "keeps_F (op_22 env)"
  by (simp add: keeps_F_def op_22_def Let_def split_beta)

lemma keeps_F_op_27: "daa_flags_high (gb_daa_table env) \<Longrightarrow> keeps_F (op_27 env)"
  using daa_flag_byte [of "gb_daa_table env"] by (simp add: keeps_F_def op_27_def Let_def)

lemma keeps_F_op_29: "keeps_F op_29"
  by (simp add: keeps_F_def op_29_def Let_def split_beta)

lemma keeps_F_op_2A: "keeps_F (op_2A env)"
  by (simp add: keeps_F_def op_2A_def Let_def split_beta)

lemma keeps_F_op_2F: "keeps_F op_2F"
  by (simp add: keeps_F_def op_2F_def Let_def split_beta)

lemma keeps_F_op_32: "keeps_F (op_32 env)"
  by (simp add: keeps_F_def op_32_def Let_def split_beta)

lemma keeps_F_op_34: "keeps_F (op_34 env)"
  by (simp add: keeps_F_def op_34_def Let_def split_beta)

lemma keeps_F_op_35: "keeps_F (op_35 env)"
  by (simp add: keeps_F_def op_35_def Let_def split_beta)

lemma keeps_F_op_36: "keeps_F (op_36 env)"
  by (simp add: keeps_F_def op_36_def Let_def split_beta)

lemma keeps_F_op_37: "keeps_F op_37"
  by (simp add: keeps_F_def op_37_def Let_def split_beta)

lemma keeps_F_op_3A: "keeps_F (op_3A env)"
  by (simp add: keeps_F_def op_3A_def Let_def split_beta)

lemma keeps_F_op_3F: "keeps_F op_3F"
  by (simp add: keeps_F_def op_3F_def Let_def split_beta)

lemma keeps_F_op_76: "keeps_F op_76"
  by (simp add: keeps_F_def op_76_def Let_def split_beta)

lemma keeps_F_op_86: "keeps_F (op_86 env)"
  by (simp add: keeps_F_def op_86_def Let_def split_beta)

lemma keeps_F_op_87: "keeps_F op_87"
  by (simp add: keeps_F_def op_87_def Let_def split_beta)

lemma keeps_F_op_8E: "keeps_F (op_8E env)"
  by (simp add: keeps_F_def op_8E_def Let_def split_beta)

lemma keeps_F_op_8F: "keeps_F op_8F"
  by (simp add: keeps_F_def op_8F_def Let_def split_beta)

lemma keeps_F_op_96: "keeps_F (op_96 env)"
  by (simp add: keeps_F_def op_96_def Let_def split_beta)

lemma keeps_F_op_97: "keeps_F op_97"
  by (simp add: keeps_F_def op_97_def Let_def split_beta)

lemma keeps_F_op_9E: "keeps_F (op_9E env)"
  by (simp add: keeps_F_def op_9E_def Let_def split_beta)

lemma keeps_F_op_9F: "keeps_F op_9F"
  by (simp add: keeps_F_def op_9F_def Let_def split_beta)

lemma keeps_F_op_A6: "keeps_F (op_A6 env)"
  by (simp add: keeps_F_def op_A6_def Let_def split_beta)

lemma keeps_F_op_A7: "keeps_F op_A7"
  by (simp add: keeps_F_def op_A7_def Let_def split_beta)

lemma keeps_F_op_AE: "keeps_F (op_AE env)"
  by (simp add: keeps_F_def op_AE_def Let_def split_beta)

lemma keeps_F_op_AF: "keeps_F op_AF"
  by (simp add: keeps_F_def op_AF_def Let_def split_beta)

lemma keeps_F_op_B6: "keeps_F (op_B6 env)"
  by (simp add: keeps_F_def op_B6_def Let_def split_beta)

lemma keeps_F_op_B7: "keeps_F op_B7"
  by (simp add: keeps_F_def op_B7_def Let_def split_beta)

lemma keeps_F_op_BE: "keeps_F (op_BE env)"
  by (simp add: keeps_F_def op_BE_def Let_def split_beta)

lemma keeps_F_op_BF: "keeps_F op_BF"
  by (simp add: keeps_F_def op_BF_def Let_def split_beta)

lemma keeps_F_op_C3: "keeps_F (op_C3 env)"
  by (simp add: keeps_F_def op_C3_def Let_def split_beta)

lemma keeps_F_op_C6: "keeps_F (op_C6 env)"
  by (simp add: keeps_F_def op_C6_def Let_def split_beta)

lemma keeps_F_op_C9: "keeps_F (op_C9 env)"
  by (simp add: keeps_F_def op_C9_def Let_def split_beta)

lemma keeps_F_op_CD: "keeps_F (op_CD env)"
  by (simp add: keeps_F_def op_CD_def Let_def split_beta)

lemma keeps_F_op_CE: "keeps_F (op_CE env)"
  by (simp add: keeps_F_def op_CE_def Let_def split_beta)

lemma keeps_F_op_D6: "keeps_F (op_D6 env)"
  by (simp add: keeps_F_def op_D6_def Let_def split_beta)

lemma keeps_F_op_D9: "keeps_F (op_D9 env)"
  by (simp add: keeps_F_def op_D9_def Let_def split_beta)

lemma keeps_F_op_DE: "keeps_F (op_DE env)"
  by (simp add: keeps_F_def op_DE_def Let_def split_beta)

lemma keeps_F_op_E0: "keeps_F (op_E0 env)"
  by (simp add: keeps_F_def op_E0_def Let_def split_beta)

lemma keeps_F_op_E2: "keeps_F (op_E2 env)"
  by (simp add: keeps_F_def op_E2_def Let_def split_beta)

lemma keeps_F_op_E6: "keeps_F (op_E6 env)"
  by (simp add: keeps_F_def op_E6_def Let_def split_beta)

lemma keeps_F_op_E8: "keeps_F (op_E8 env)"
  by (simp add: keeps_F_def op_E8_def Let_def split_beta)

lemma keeps_F_op_E9: "keeps_F op_E9"
  by (simp add: keeps_F_def op_E9_def Let_def split_beta)

lemma keeps_F_op_EA: "keeps_F (op_EA env)"
  by (simp add: keeps_F_def op_EA_def Let_def split_beta)

lemma keeps_F_op_EE: "keeps_F (op_EE env)"
  by (simp add: keeps_F_def op_EE_def Let_def split_beta)

lemma keeps_F_op_F0: "keeps_F (op_F0 env)"
  by (simp add: keeps_F_def op_F0_def Let_def split_beta)

lemma keeps_F_op_F1: "keeps_F (op_F1 env)"
  by (simp add: keeps_F_def op_F1_def Let_def split_beta)

lemma keeps_F_op_F2: "keeps_F (op_F2 env)"
  by (simp add: keeps_F_def op_F2_def Let_def split_beta)

lemma keeps_F_op_F3: "keeps_F op_F3"
  by (simp add: keeps_F_def op_F3_def Let_def split_beta)

lemma keeps_F_op_F6: "keeps_F (op_F6 env)"
  by (simp add: keeps_F_def op_F6_def Let_def split_beta)

lemma keeps_F_op_F8: "keeps_F (op_F8 env)"
  by (simp add: keeps_F_def op_F8_def Let_def split_beta)

lemma keeps_F_op_F9: "keeps_F op_F9"
  by (simp add: keeps_F_def op_F9_def Let_def split_beta)

lemma keeps_F_op_FA: "keeps_F (op_FA env)"
  by (simp add: keeps_F_def op_FA_def Let_def split_beta)

lemma keeps_F_op_FB: "keeps_F op_FB"
  by (simp add: keeps_F_def op_FB_def Let_def split_beta)

lemma keeps_F_op_FE: "keeps_F (op_FE env)"
  by (simp add: keeps_F_def op_FE_def Let_def split_beta)

lemma keeps_F_op_default: "keeps_F op_default"
  by (simp add: keeps_F_def op_default_def Let_def split_beta)

lemma keeps_F_cb_06: "keeps_F (cb_06 env)"
  by (simp add: keeps_F_def cb_06_def Let_def split_beta)

lemma keeps_F_cb_0E: "keeps_F (cb_0E env)"
  by (simp add: keeps_F_def cb_0E_def Let_def split_beta)

lemma keeps_F_cb_16: "keeps_F (cb_16 env)"
  by (simp add: keeps_F_def cb_16_def Let_def split_beta)

lemma keeps_F_cb_1E: "keeps_F (cb_1E env)"
  by (simp add: keeps_F_def cb_1E_def Let_def split_beta)

lemma keeps_F_cb_26: "keeps_F (cb_26 env)"
  by (simp add: keeps_F_def cb_26_def Let_def split_beta)

lemma keeps_F_cb_2E: "keeps_F (cb_2E env)"
  by (simp add: keeps_F_def cb_2E_def Let_def split_beta)

lemma keeps_F_cb_36: "keeps_F (cb_36 env)"
  by (simp add: keeps_F_def cb_36_def Let_def split_beta)

lemma keeps_F_cb_3E: "keeps_F (cb_3E env)"
  by (simp add: keeps_F_def cb_3E_def Let_def split_beta)

lemma keeps_F_cb_default: "keeps_F cb_default"
  by (simp add: keeps_F_def cb_default_def Let_def split_beta)

lemma keeps_F_GB_CPUClockCounterAdd: "keeps_F (GB_CPUClockCounterAdd n)"
  by (simp add: keeps_F_def)

lemmas keeps_F_steps =
  keeps_F_gb_ld_r16_nnnn keeps_F_gb_ld_r8_nn keeps_F_gb_ld_ptr_r16_r8
  keeps_F_gb_ld_r8_ptr_r16 keeps_F_gb_inc_r16 keeps_F_gb_dec_r16 keeps_F_gb_inc_r8
  keeps_F_gb_dec_r8 keeps_F_gb_add_hl_r16 keeps_F_gb_add_a_r8 keeps_F_gb_adc_a_r8
  keeps_F_gb_sub_a_r8 keeps_F_gb_sbc_a_r8 keeps_F_gb_and_a_r8 keeps_F_gb_xor_a_r8
  keeps_F_gb_or_a_r8 keeps_F_gb_cp_a_r8 keeps_F_gb_rst_nnnn keeps_F_gb_push_r16
  keeps_F_gb_pop_r16 keeps_F_gb_call_cond_nnnn keeps_F_gb_ret_cond keeps_F_gb_jp_cond_nnnn
  keeps_F_gb_jr_cond_nn keeps_F_gb_rlc_r8 keeps_F_gb_rrc_r8 keeps_F_gb_rl_r8
  keeps_F_gb_rr_r8 keeps_F_gb_sla_r8 keeps_F_gb_sra_r8 keeps_F_gb_swap_r8 keeps_F_gb_srl_r8
  keeps_F_gb_bit_n_r8 keeps_F_gb_bit_n_ptr_hl keeps_F_gb_res_n_r8 keeps_F_gb_res_n_ptr_hl
  keeps_F_gb_set_n_r8 keeps_F_gb_set_n_ptr_hl keeps_F_gb_undefined_opcode keeps_F_ld_r8_r8
  keeps_F_op_07 keeps_F_op_08 keeps_F_op_0F keeps_F_op_10 keeps_F_op_17 keeps_F_op_18
  keeps_F_op_1F keeps_F_op_22 keeps_F_op_27 keeps_F_op_29 keeps_F_op_2A keeps_F_op_2F
  keeps_F_op_32 keeps_F_op_34 keeps_F_op_35 keeps_F_op_36 keeps_F_op_37 keeps_F_op_3A
  keeps_F_op_3F keeps_F_op_76 keeps_F_op_86 keeps_F_op_87 keeps_F_op_8E keeps_F_op_8F
  keeps_F_op_96 keeps_F_op_97 keeps_F_op_9E keeps_F_op_9F keeps_F_op_A6 keeps_F_op_A7
  keeps_F_op_AE keeps_F_op_AF keeps_F_op_B6 keeps_F_op_B7 keeps_F_op_BE keeps_F_op_BF
  keeps_F_op_C3 keeps_F_op_C6 keeps_F_op_C9 keeps_F_op_CD keeps_F_op_CE keeps_F_op_D6
  keeps_F_op_D9 keeps_F_op_DE keeps_F_op_E0 keeps_F_op_E2 keeps_F_op_E6 keeps_F_op_E8
  keeps_F_op_E9 keeps_F_op_EA keeps_F_op_EE keeps_F_op_F0 keeps_F_op_F1 keeps_F_op_F2
  keeps_F_op_F3 keeps_F_op_F6 keeps_F_op_F8 keeps_F_op_F9 keeps_F_op_FA keeps_F_op_FB
  keeps_F_op_FE keeps_F_op_default keeps_F_cb_06 keeps_F_cb_0E keeps_F_cb_16 keeps_F_cb_1E
  keeps_F_cb_26 keeps_F_cb_2E keeps_F_cb_36 keeps_F_cb_3E keeps_F_cb_default
  keeps_F_GB_CPUClockCounterAdd

lemma keeps_F_cb_table: "list_all keeps_F (cb_table env)"
  by (simp add: cb_table_def keeps_F_steps)

lemma keeps_F_cb_switch: "keeps_F (cb_switch opcode env)"
proof (cases "unat opcode < length (cb_table env)")
  case True
  then have "keeps_F (cb_table env ! unat opcode)"
    using keeps_F_cb_table [of env] unfolding list_all_length by blast
  moreover have "cb_switch opcode env = cb_table env ! unat opcode"
    using True by (simp add: cb_switch_def fun_eq_iff)
  ultimately show ?thesis by simp
next
  case False
  then have "cb_switch opcode env = cb_default"
    by (simp add: cb_switch_def fun_eq_iff)
  then show ?thesis using keeps_F_cb_default by simp
qed

lemma keeps_F_op_CB: "keeps_F (op_CB env)"
proof -
  have "F_low_zero (fst (cb_switch opcode env m))" if "F_low_zero (fst m)" for opcode m
    using keeps_F_cb_switch [of opcode env] that unfolding keeps_F_def by blast
  then show ?thesis by (simp add: keeps_F_def op_CB_def Let_def split_beta)
qed

lemma keeps_F_opcode_table:
  "daa_flags_high (gb_daa_table env) \<Longrightarrow> list_all keeps_F (opcode_table env)"
  by (simp add: opcode_table_def keeps_F_steps keeps_F_op_CB)

lemma keeps_F_opcode_switch:
  assumes "daa_flags_high (gb_daa_table env)"
  shows "keeps_F (opcode_switch opcode env)"
proof (cases "unat opcode < length (opcode_table env)")
  case True
  then have "keeps_F (opcode_table env ! unat opcode)"
    using keeps_F_opcode_table [OF assms] unfolding list_all_length by blast
  moreover have "opcode_switch opcode env = opcode_table env ! unat opcode"
    using True by (simp add: opcode_switch_def fun_eq_iff)
  ultimately show ?thesis by simp
next
  case False
  then have "opcode_switch opcode env = op_default"
    by (simp add: opcode_switch_def fun_eq_iff)
  then show ?thesis using keeps_F_op_default by simp
qed

lemma keeps_F_fetch_execute:
  assumes "daa_flags_high (gb_daa_table env)"
  shows "keeps_F (fetch_execute env)"
proof -
  have "F_low_zero (fst (opcode_switch opcode env m))" if "F_low_zero (fst m)" for opcode m
    using keeps_F_opcode_switch [OF assms, of opcode] that unfolding keeps_F_def by blast
  then show ?thesis by (simp add: keeps_F_def fetch_execute_def Let_def split_beta)
qed

section \<open>The request to break the loop\<close>

lemma bus_keeps_break_read [simp]:
  "bus_keeps_break env \<Longrightarrow> gb_break_cpu_loop g \<noteq> 0 \<Longrightarrow>
     (gb_break_cpu_loop (snd (GB_MemRead8 env g a)) = 0) = False"
  unfolding bus_keeps_break_def by blast

lemma bus_keeps_break_write [simp]:
  "bus_keeps_break env \<Longrightarrow> gb_break_cpu_loop g \<noteq> 0 \<Longrightarrow>
     (gb_break_cpu_loop (GB_MemWrite8 env g a v) = 0) = False"
  unfolding bus_keeps_break_def by blast























































































































section \<open>Running the examples\<close>

lemma length_opcode_table: "length (opcode_table env) = 256"
  by (simp add: opcode_table_def)

lemma opcode_switch_00: "opcode_switch 0x00 env = GB_CPUClockCounterAdd 4"
  by (rule ext) (simp add: opcode_switch_def length_opcode_table, simp add: opcode_table_def)

lemma opcode_switch_06: "opcode_switch 0x06 env = gb_ld_r8_nn reg_B env"
  by (rule ext) (simp add: opcode_switch_def length_opcode_table, simp add: opcode_table_def)

lemma opcode_switch_27: "opcode_switch 0x27 env = op_27 env"
  by (rule ext) (simp add: opcode_switch_def length_opcode_table, simp add: opcode_table_def)

lemma opcode_switch_31: "opcode_switch 0x31 env = gb_ld_r16_nnnn reg_SPH reg_SPL env"
  by (rule ext) (simp add: opcode_switch_def length_opcode_table, simp add: opcode_table_def)

lemma opcode_switch_3C: "opcode_switch 0x3C env = gb_inc_r8 reg_A"
  by (rule ext) (simp add: opcode_switch_def length_opcode_table, simp add: opcode_table_def)

lemma opcode_switch_3E: "opcode_switch 0x3E env = gb_ld_r8_nn reg_A env"
  by (rule ext) (simp add: opcode_switch_def length_opcode_table, simp add: opcode_table_def)

lemma opcode_switch_76: "opcode_switch 0x76 env = op_76"
  by (rule ext) (simp add: opcode_switch_def length_opcode_table, simp add: opcode_table_def)

lemma opcode_switch_80: "opcode_switch 0x80 env = gb_add_a_r8 reg_B"
  by (rule ext) (simp add: opcode_switch_def length_opcode_table, simp add: opcode_table_def)

lemma opcode_switch_E0: "opcode_switch 0xE0 env = op_E0 env"
  by (rule ext) (simp add: opcode_switch_def length_opcode_table, simp add: opcode_table_def)

lemma opcode_switch_F1: "opcode_switch 0xF1 env = op_F1 env"
  by (rule ext) (simp add: opcode_switch_def length_opcode_table, simp add: opcode_table_def)

lemma opcode_switch_F3: "opcode_switch 0xF3 env = op_F3"
  by (rule ext) (simp add: opcode_switch_def length_opcode_table, simp add: opcode_table_def)

lemma opcode_switch_FB: "opcode_switch 0xFB env = op_FB"
  by (rule ext) (simp add: opcode_switch_def length_opcode_table, simp add: opcode_table_def)

lemma event_window_flat: "event_window flat_env g = 0x7FFFFFFC"
  by (simp add: event_window_def flat_env_def GB_ClocksForNextEvent_def min_s32_def)

lemma flat_env_fields:
  "GB_MemRead8 flat_env = flat_read" "GB_MemWrite8 flat_env = flat_write"
  "GB_DebugCPUIsBreakpoint flat_env = (\<lambda>_. False)"
  "GB_DMAExecute flat_env = (\<lambda>clocks m. (0, m))"
  "GB_InterruptsExecute flat_env = spec_InterruptsExecute flat_write"
  "GB_UpdateCounterToClocks flat_env = (\<lambda>clocks g. g)"
  "reset_subsystem_clock_counters flat_env = (\<lambda>g. g)"
  "gb_daa_table flat_env = spec_daa_table"
  by (simp_all add: flat_env_def)

text \<open>
  The equations that run a machine on the flat memory: with every test decided by the
  state, the two loops unfold as far as the run goes.
\<close>

lemmas run_simps =
  GB_RunFor_def GB_RunFor_loop.simps run_window_def GB_CPUExecute_def GB_CPUExecute_loop.simps
  GB_ClockCountersReset_def event_window_flat flat_env_fields min_s32_def
  fetch_execute_def read_PC_inc_def read_SP_inc_def MemRead8_def MemWrite8_def dec_SP_write_def
  sys_upd_def cpu_upd_def GB_CPUBreakLoop_def GB_CPUClockCounterAdd_def GB_CPUClockCounterGet_def
  gb_break_to_debugger_def
  opcode_switch_00 opcode_switch_06 opcode_switch_27 opcode_switch_31 opcode_switch_3C
  opcode_switch_3E opcode_switch_76 opcode_switch_80 opcode_switch_E0 opcode_switch_F1
  opcode_switch_F3
  opcode_switch_FB
  op_27_def op_76_def op_E0_def op_F1_def op_F3_def op_FB_def gb_inc_r8_def gb_ld_r8_nn_def
  gb_ld_r16_nnnn_def gb_pop_r16_def gb_add_a_r8_def
  set_flag_def AF_and_not_def AF_or_def F_ZERO_def F_HALFCARRY_def F_SUBTRACT_def F_CARRY_def
  spec_InterruptsExecute_def lowest_pending_def PCH_def PCL_def hi8_def lo8_def pair16_def
  flat_read_def flat_write_def program_at_def IF_REG_def IE_REG_def Let_def split_beta
  word_sless_alt word_sle_eq vblank_pending_def vblank_enabled_def interrupts_on_def
  flat_machine_def



section \<open>Theorems: the low four bits of F\<close>

lemma GB_CPUExecute_loop_keeps_F:
  assumes tab: "daa_flags_high (gb_daa_table env)"
    and run: "GB_CPUExecute_loop env finish_clocks m = Some m'"
    and F: "F_low_zero (fst m)"
  shows "F_low_zero (fst m')"
proof -
  have step: "F_low_zero (fst (fetch_execute env m))" if "F_low_zero (fst m)" for m
    using keeps_F_fetch_execute [OF tab] that unfolding keeps_F_def by blast
  have "e = env \<longrightarrow> F_low_zero (fst m) \<longrightarrow> F_low_zero (fst m')"
    if "GB_CPUExecute_loop e finish_clocks m = Some m'" for e finish_clocks m m'
    using that
  proof (rule GB_CPUExecute_loop.raw_induct [rotated])
    fix loop e finish_clocks m m'
    assume IH: "\<And>e finish_clocks m m'. loop e finish_clocks m = Some m' \<Longrightarrow>
        e = env \<longrightarrow> F_low_zero (fst m) \<longrightarrow> F_low_zero (fst m')"
      and body: "(if GB_CPUClockCounterGet m <s finish_clocks
        then if GB_DebugCPUIsBreakpoint e (R16_PC (fst m)) then Some (gb_break_to_debugger m)
             else let m = fetch_execute e m
                  in if gb_break_cpu_loop (snd m) \<noteq> 0
                     then Some (sys_upd (gb_break_cpu_loop_update (\<lambda>_. 0)) m)
                     else if gb_break_execution (snd m) \<noteq> 0 then Some m
                          else loop e finish_clocks m
        else Some m) = Some m'"
    show "e = env \<longrightarrow> F_low_zero (fst m) \<longrightarrow> F_low_zero (fst m')"
      using body IH [of e finish_clocks "fetch_execute e m" m'] step [of m]
      by (auto simp add: Let_def split: if_splits)
  qed
  then show ?thesis using run F by blast
qed

lemma GB_CPUInit_F:
  assumes "boot_rom_loaded (snd (GB_ClockCountersReset env m))
     \<or> HardwareType (snd (GB_ClockCountersReset env m)) \<noteq> None \<or> F_low_zero (fst m)"
  shows "F_low_zero (fst (GB_CPUInit env m))"
proof -
  have regs: "F_low_zero (init_registers af bc de hl c)" if "lo8 af AND 0x0F = 0" for af bc de hl c
    using that by (simp add: init_registers_def set_AF_def F_low_zero_def)
  have lo: "lo8 0x01B0 AND 0x0F = 0" "lo8 0xFFB0 AND 0x0F = 0" "lo8 0x0100 AND 0x0F = 0"
    "lo8 0xFF00 AND 0x0F = 0" "lo8 0x1180 AND 0x0F = 0" "lo8 0x1100 AND 0x0F = 0"
    "lo8 0x0000 AND 0x0F = 0"
    by (simp_all add: lo8_def)
  show ?thesis
    using assms
    by (cases "HardwareType (snd (GB_ClockCountersReset env m))")
       (auto simp add: GB_CPUInit_def GB_ClockCountersReset_def Let_def regs lo
          split: hardware.splits)
qed

lemma run_window_keeps_F:
  assumes tab: "daa_flags_high (gb_daa_table env)" and per: "peripherals_keep_F env"
    and run: "run_window env clocks m = Some (n, m')" and F: "F_low_zero (fst m)"
  shows "F_low_zero (fst m')"
proof -
  have dma: "F_low_zero (fst (snd (GB_DMAExecute env clocks m)))"
    using per F unfolding peripherals_keep_F_def by blast
  then have irq: "F_low_zero (fst (snd (GB_InterruptsExecute env (snd (GB_DMAExecute env clocks m)))))"
    using per unfolding peripherals_keep_F_def by blast
  have cpu: "F_low_zero (fst b)"
    if "GB_CPUExecute env clocks a = Some (k, b)" "F_low_zero (fst a)" for a k b
    using that GB_CPUExecute_loop_keeps_F [OF tab, of _ a b]
    by (auto simp add: GB_CPUExecute_def Let_def)
  show ?thesis
    using run F dma irq
      cpu [of "snd (GB_InterruptsExecute env (snd (GB_DMAExecute env clocks m)))" n m']
    by (auto simp add: run_window_def Let_def split_beta split: if_splits)
qed

lemma GB_RunFor_loop_keeps_F:
  assumes tab: "daa_flags_high (gb_daa_table env)" and per: "peripherals_keep_F env"
    and run: "GB_RunFor_loop env clocks m = Some (r, m')" and F: "F_low_zero (fst m)"
  shows "F_low_zero (fst m')"
proof -
  have "e = env \<longrightarrow> F_low_zero (fst m) \<longrightarrow> F_low_zero (fst (snd y))"
    if "GB_RunFor_loop e clocks m = Some y" for e clocks m y
    using that
  proof (rule GB_RunFor_loop.raw_induct [rotated])
    fix loop e run_for_clocks m y
    assume IH: "\<And>e clocks m y. loop e clocks m = Some y \<Longrightarrow>
        e = env \<longrightarrow> F_low_zero (fst m) \<longrightarrow> F_low_zero (fst (snd y))"
      and body: "(let clocks_to_next_event = event_window e (snd m);
          clocks_to_next_event = min_s32 clocks_to_next_event run_for_clocks
      in case if 0 <s clocks_to_next_event
              then run_window e clocks_to_next_event m else Some (0, m) of
         None \<Rightarrow> None
         | Some (executed_clocks, m) \<Rightarrow>
             let run_for_clocks = run_for_clocks - executed_clocks;
                 m = sys_upd (GB_UpdateCounterToClocks e (GB_CPUClockCounterGet m)) m
             in if run_for_clocks \<le>s 0 \<or> FrameDrawn (snd m) \<noteq> 0
                then Some (0, sys_upd (\<lambda>g. g\<lparr>gb_last_residual_clocks := run_for_clocks,
                                    FrameDrawn := 0\<rparr>) m)
                else if gb_break_execution (snd m) \<noteq> 0
                     then Some (1, sys_upd (gb_last_residual_clocks_update (\<lambda>_. 0)) m)
                     else loop e run_for_clocks m) = Some y"
    show "e = env \<longrightarrow> F_low_zero (fst m) \<longrightarrow> F_low_zero (fst (snd y))"
    proof (intro impI)
      assume e: "e = env" and Fm: "F_low_zero (fst m)"
      define w where "w = min_s32 (event_window e (snd m)) run_for_clocks"
      define r where "r = (if 0 <s w then run_window e w m else Some (0, m))"
      from body obtain k m1 where r: "r = Some (k, m1)"
        unfolding r_def w_def by (auto simp add: Let_def split: option.splits)
      have F1: "F_low_zero (fst m1)"
        using r Fm run_window_keeps_F [OF tab per, of w m k m1] e
        unfolding r_def by (auto split: if_splits)
      define m2 where "m2 = sys_upd (GB_UpdateCounterToClocks e (GB_CPUClockCounterGet m1)) m1"
      have F2: "F_low_zero (fst m2)" using F1 by (simp add: m2_def)
      from body r show "F_low_zero (fst (snd y))"
        using F2 IH [of e "run_for_clocks - k" m2 y] e
        unfolding r_def w_def m2_def
        by (auto simp add: Let_def split: if_splits)
    qed
  qed
  then show ?thesis using run F by fastforce
qed

lemma GB_RunFor_keeps_F:
  assumes tab: "daa_flags_high (gb_daa_table env)" and per: "peripherals_keep_F env"
    and run: "GB_RunFor env clocks m = Some (r, m')" and F: "F_low_zero (fst m)"
  shows "F_low_zero (fst m')"
  using run F GB_RunFor_loop_keeps_F [OF tab per, of _ _ r m']
  by (auto simp add: GB_RunFor_def GB_ClockCountersReset_def Let_def)


lemma daa_flags_high_spec: "daa_flags_high spec_daa_table"
  by (simp add: daa_flags_high_def spec_daa_table_def daa_adjust_def Let_def split_beta)

lemma peripherals_keep_F_flat: "peripherals_keep_F flat_env"
  by (simp add: peripherals_keep_F_def flat_env_def spec_InterruptsExecute_def Let_def)

text \<open>
  C5: the low four bits of F are zero in every state that the CPU leaves. POP AF stores
  the popped flag byte masked with 0xF0. Every opcode of the two switches, DAA with a
  table whose flag bytes have their low four bits zero, keeps the low four bits of F zero,
  and so do one pass of the CPU loop, a call of \<^verbatim>\<open>GB_CPUExecute\<close> and, with a DMA engine and
  an interrupt dispatcher that keep them, a call of \<^verbatim>\<open>GB_RunFor\<close>. \<^verbatim>\<open>GB_CPUInit\<close> sets them
  to zero for each of the seven hardware types and with the boot ROM.
\<close>

theorem C5_F_low_nibble_zero:
  assumes tab: "daa_flags_high (gb_daa_table env)"
  shows "R8_F (fst (op_F1 env m)) = R8_F (fst (gb_pop_r16 reg_A reg_F env m)) AND 0xF0
     \<and> F_low_zero (fst (op_F1 env m))
     \<and> (F_low_zero (fst m) \<longrightarrow> F_low_zero (fst (opcode_switch opcode env m)))
     \<and> (F_low_zero (fst m) \<longrightarrow> F_low_zero (fst (fetch_execute env m)))
     \<and> (F_low_zero (fst m) \<and> GB_CPUExecute env clocks m = Some (n, ma) \<longrightarrow>
          F_low_zero (fst ma))
     \<and> (peripherals_keep_F env \<and> F_low_zero (fst m)
          \<and> GB_RunFor env clocks m = Some (r, mb) \<longrightarrow> F_low_zero (fst mb))
     \<and> (boot_rom_loaded (snd (GB_ClockCountersReset env m))
          \<or> HardwareType (snd (GB_ClockCountersReset env m)) \<noteq> None
          \<or> F_low_zero (fst m) \<longrightarrow> F_low_zero (fst (GB_CPUInit env m)))"
proof -
  have pop: "R8_F (fst (op_F1 env m)) = R8_F (fst (gb_pop_r16 reg_A reg_F env m)) AND 0xF0"
    by (simp add: op_F1_def Let_def)
  have pop0: "F_low_zero (fst (op_F1 env m))"
    using keeps_F_op_F1 by (simp add: op_F1_def Let_def)
  have sw: "F_low_zero (fst m) \<longrightarrow> F_low_zero (fst (opcode_switch opcode env m))"
    using keeps_F_opcode_switch [OF tab, of opcode] unfolding keeps_F_def by blast
  have fe: "F_low_zero (fst m) \<longrightarrow> F_low_zero (fst (fetch_execute env m))"
    using keeps_F_fetch_execute [OF tab] unfolding keeps_F_def by blast
  have ex: "F_low_zero (fst m) \<and> GB_CPUExecute env clocks m = Some (n, ma) \<longrightarrow>
      F_low_zero (fst ma)"
    using GB_CPUExecute_loop_keeps_F [OF tab, of _ m ma]
    by (auto simp add: GB_CPUExecute_def Let_def)
  have rf: "peripherals_keep_F env \<and> F_low_zero (fst m)
      \<and> GB_RunFor env clocks m = Some (r, mb) \<longrightarrow> F_low_zero (fst mb)"
    using GB_RunFor_keeps_F [OF tab, of clocks m r mb] by blast
  have init: "boot_rom_loaded (snd (GB_ClockCountersReset env m))
      \<or> HardwareType (snd (GB_ClockCountersReset env m)) \<noteq> None
      \<or> F_low_zero (fst m) \<longrightarrow> F_low_zero (fst (GB_CPUInit env m))"
    using GB_CPUInit_F [of env m] by blast
  from pop pop0 sw fe ex rf init show ?thesis by blast
qed

theorem C5_F_low_nibble_zero_witness:
  "daa_flags_high (gb_daa_table flat_env) \<and> peripherals_keep_F flat_env
   \<and> F_low_zero (fst (flat_machine [0x31, 0x06, 0x01, 0xF1, 0x00, 0x00, 0xFF, 0x12]))
   \<and> (\<exists>r mb. GB_RunFor flat_env 24 (flat_machine [0x31, 0x06, 0x01, 0xF1, 0x00, 0x00, 0xFF, 0x12])
                 = Some (r, mb)
          \<and> R8_A (fst mb) = 0x12 \<and> R8_F (fst mb) = 0xF0 \<and> F_low_zero (fst mb))"
proof -
  have tab: "daa_flags_high (gb_daa_table flat_env)"
    by (simp add: flat_env_fields daa_flags_high_spec)
  have F: "F_low_zero (fst (flat_machine [0x31, 0x06, 0x01, 0xF1, 0x00, 0x00, 0xFF, 0x12]))"
    by (simp add: F_low_zero_def flat_machine_def)
  have "map_option (\<lambda>(r, m). (R8_A (fst m), R8_F (fst m)))
      (GB_RunFor flat_env 24 (flat_machine [0x31, 0x06, 0x01, 0xF1, 0x00, 0x00, 0xFF, 0x12]))
    = Some (0x12, 0xF0)"
    by (simp add: run_simps)
  then obtain r mb where run: "GB_RunFor flat_env 24
        (flat_machine [0x31, 0x06, 0x01, 0xF1, 0x00, 0x00, 0xFF, 0x12]) = Some (r, mb)"
    and regs: "R8_A (fst mb) = 0x12" "R8_F (fst mb) = 0xF0"
    by auto
  have "F_low_zero (fst mb)"
    using C5_F_low_nibble_zero [OF tab, of "flat_machine [0x31, 0x06, 0x01, 0xF1, 0x00, 0x00, 0xFF, 0x12]"
        _ 24 _ _ r mb] peripherals_keep_F_flat F run
    by blast
  with tab peripherals_keep_F_flat F run regs show ?thesis by blast
qed

section \<open>Theorems: DAA\<close>






section \<open>Theorems: the halt bug\<close>

lemma op_76_halt_bug:
  assumes "InterruptMasterEnable (snd m) \<noteq> 1"
    and "IO_Ports (snd m) (IF_REG - 0xFF00) AND HighRAM (snd m) (IE_REG - 0xFF80) AND 0x1F \<noteq> 0"
  shows "op_76 m = (fst m, (snd m)\<lparr>gb_cpu_clock_counter := gb_cpu_clock_counter (snd m) + 4,
                                    halt_bug := 1, gb_break_cpu_loop := 1\<rparr>)"
  using assms
  by (simp add: op_76_def Let_def GB_CPUClockCounterAdd_def GB_CPUBreakLoop_def sys_upd_def)

lemma fetch_execute_halt_bug:
  assumes "interrupts_enable_count (snd m) = 0"
    and "halt_bug (snd (snd (MemRead8 env (R16_PC (fst m)) m))) \<noteq> 0"
  shows "fetch_execute env m =
     opcode_switch (fst (MemRead8 env (R16_PC (fst m)) m)) env
       (sys_upd (\<lambda>g. g\<lparr>halt_bug := 0\<rparr>) (snd (MemRead8 env (R16_PC (fst m)) m)))"
  using assms
  by (simp add: fetch_execute_def Let_def split_beta read_PC_inc_def cpu_upd_def sys_upd_def
      MemRead8_def)

text \<open>
  C2, as stated: in the scenario (IME = 0, IE = IF = 0x01, HALT at 0x0100, INC A at 0x0101,
  A = 0x00) one fetch after HALT leaves PC = 0x0101 and A = 0x02. After HALT the flag of
  the halt bug is set, with PC = 0x0101 and A = 0x00; the one fetch after it leaves
  PC = 0x0101 and A = 0x01; A is 0x02 after the fetch that follows, and PC is 0x0102 then.
\<close>

theorem C2_one_fetch_after_halt:
  "(let m1 = fetch_execute flat_env (vblank_pending (flat_machine [0x76, 0x3C]));
        m2 = fetch_execute flat_env m1;
        m3 = fetch_execute flat_env m2
    in halt_bug (snd m1) = 1 \<and> R16_PC (fst m1) = 0x0101 \<and> R8_A (fst m1) = 0x00
       \<and> halt_bug (snd m2) = 0 \<and> R16_PC (fst m2) = 0x0101 \<and> R8_A (fst m2) = 0x01
       \<and> R16_PC (fst m3) = 0x0102 \<and> R8_A (fst m3) = 0x02)"
  by (simp add: run_simps)

text \<open>
  C2, amended: HALT executed with IME not 1 and \<open>IF AND IE AND 0x1F\<close> nonzero does not halt
  the CPU: it sets the flag of the halt bug, leaves the halt state and the registers as
  they were, uses 4 clocks and asks for a break of the loop. A pass of the loop that finds
  the flag set after its fetch clears it and executes the fetched opcode with PC not
  advanced, so PC still points at that opcode and the byte is fetched again. In the
  scenario, run from the start for 4, 8 and 12 clocks: after HALT PC = 0x0101, A = 0x00
  and the flag is set; after the next instruction PC = 0x0101, A = 0x01 and the flag is
  clear; after the one that follows PC = 0x0102 and A = 0x02. The CPU is never halted.
\<close>

theorem C2_halt_bug:
  "(InterruptMasterEnable (snd m) \<noteq> 1
      \<and> IO_Ports (snd m) (IF_REG - 0xFF00) AND HighRAM (snd m) (IE_REG - 0xFF80) AND 0x1F \<noteq> 0
      \<longrightarrow> op_76 m = (fst m, (snd m)\<lparr>gb_cpu_clock_counter := gb_cpu_clock_counter (snd m) + 4,
                                        halt_bug := 1, gb_break_cpu_loop := 1\<rparr>))
   \<and> (interrupts_enable_count (snd m) = 0
      \<and> halt_bug (snd (snd (MemRead8 env (R16_PC (fst m)) m))) \<noteq> 0
      \<longrightarrow> fetch_execute env m =
            opcode_switch (fst (MemRead8 env (R16_PC (fst m)) m)) env
              (sys_upd (\<lambda>g. g\<lparr>halt_bug := 0\<rparr>) (snd (MemRead8 env (R16_PC (fst m)) m))))
   \<and> map_option (\<lambda>(r, m). (R16_PC (fst m), R8_A (fst m), halt_bug (snd m), CPUHalt (snd m)))
        (GB_RunFor flat_env 4 (vblank_pending (flat_machine [0x76, 0x3C])))
      = Some (0x0101, 0x00, 1, 0)
   \<and> map_option (\<lambda>(r, m). (R16_PC (fst m), R8_A (fst m), halt_bug (snd m), CPUHalt (snd m)))
        (GB_RunFor flat_env 8 (vblank_pending (flat_machine [0x76, 0x3C])))
      = Some (0x0101, 0x01, 0, 0)
   \<and> map_option (\<lambda>(r, m). (R16_PC (fst m), R8_A (fst m), halt_bug (snd m), CPUHalt (snd m)))
        (GB_RunFor flat_env 12 (vblank_pending (flat_machine [0x76, 0x3C])))
      = Some (0x0102, 0x02, 0, 0)"
proof -
  have r4: "map_option (\<lambda>(r, m). (R16_PC (fst m), R8_A (fst m), halt_bug (snd m), CPUHalt (snd m)))
        (GB_RunFor flat_env 4 (vblank_pending (flat_machine [0x76, 0x3C])))
      = Some (0x0101, 0x00, 1, 0)"
    by (simp add: run_simps)
  have r8: "map_option (\<lambda>(r, m). (R16_PC (fst m), R8_A (fst m), halt_bug (snd m), CPUHalt (snd m)))
        (GB_RunFor flat_env 8 (vblank_pending (flat_machine [0x76, 0x3C])))
      = Some (0x0101, 0x01, 0, 0)"
    by (simp add: run_simps)
  have r12: "map_option (\<lambda>(r, m). (R16_PC (fst m), R8_A (fst m), halt_bug (snd m), CPUHalt (snd m)))
        (GB_RunFor flat_env 12 (vblank_pending (flat_machine [0x76, 0x3C])))
      = Some (0x0102, 0x02, 0, 0)"
    by (simp add: run_simps)
  show ?thesis
    using op_76_halt_bug [of m] fetch_execute_halt_bug [of m env] r4 r8 r12 by blast
qed

theorem C2_halt_bug_witness:
  "op_76 (cpu_upd (\<lambda>c. c\<lparr>R16_PC := 0x0101\<rparr>) (vblank_pending (flat_machine [0x76, 0x3C])))
     = fetch_execute flat_env (vblank_pending (flat_machine [0x76, 0x3C]))
   \<and> halt_bug (snd (fetch_execute flat_env (vblank_pending (flat_machine [0x76, 0x3C])))) = 1
   \<and> fetch_execute flat_env (fetch_execute flat_env (vblank_pending (flat_machine [0x76, 0x3C])))
     = gb_inc_r8 reg_A (sys_upd (\<lambda>g. g\<lparr>halt_bug := 0\<rparr>)
         (fetch_execute flat_env (vblank_pending (flat_machine [0x76, 0x3C]))))"
  using C2_halt_bug [of "cpu_upd (\<lambda>c. c\<lparr>R16_PC := 0x0101\<rparr>) (vblank_pending (flat_machine [0x76, 0x3C]))" flat_env]
    C2_halt_bug [of "fetch_execute flat_env (vblank_pending (flat_machine [0x76, 0x3C]))" flat_env]
  by (simp add: run_simps)


section \<open>Theorems: the delay of EI\<close>










end
